theory Spec2Isabelle
  imports Main "HOL-Library.Char_ord" "HOL-Library.List_Lexorder" "HOL-Library.AList"
begin

section \<open>Python values used by the converter\<close>

text \<open>
  The converter is Python. Its strings are modelled as \<open>string\<close>, read as sequences of
  code points below 256; its unbounded integers as \<open>int\<close>; every exception the code can
  raise is a value of \<open>error\<close>, and a function that can raise returns \<open>error + 'a\<close>
  with \<open>Inl\<close> for the exception. The text of an exception is the constant part of the
  message in the source (the interpolated query or target is left out). \<open>Unmodelled\<close> is
  not an exception: it marks the few places where the model stops because the value at hand
  is outside what it describes (the \<open>repr\<close> of a list or of a dict, a format string with
  braces in its data, a number that is not an integer).
\<close>

datatype error =
    ValueError string
  | KeyError string
  | AttributeError string
  | TypeError string
  | IndexError string
  | NotImplementedError string
  | ConvertError error
  | Unmodelled string

definition ebind :: "error + 'a \<Rightarrow> ('a \<Rightarrow> error + 'b) \<Rightarrow> error + 'b" where
  "ebind m f = (case m of Inl e \<Rightarrow> Inl e | Inr x \<Rightarrow> f x)"

definition emap :: "('a \<Rightarrow> 'b) \<Rightarrow> error + 'a \<Rightarrow> error + 'b" where
  "emap f m = (case m of Inl e \<Rightarrow> Inl e | Inr x \<Rightarrow> Inr (f x))"

text \<open>A function applied to the elements of a list from the left; the first error ends it.\<close>

fun emapM :: "('a \<Rightarrow> error + 'b) \<Rightarrow> 'a list \<Rightarrow> error + 'b list" where
  "emapM f [] = Inr []"
| "emapM f (x # xs) = ebind (f x) (\<lambda>y. ebind (emapM f xs) (\<lambda>ys. Inr (y # ys)))"

subsection \<open>Characters\<close>

text \<open>The classes are those of \<open>str\<close> and \<open>re\<close> on the code points below 256.\<close>

definition is_digit :: "char \<Rightarrow> bool" where
  "is_digit c \<longleftrightarrow> CHR ''0'' \<le> c \<and> c \<le> CHR ''9''"

definition is_upper :: "char \<Rightarrow> bool" where
  "is_upper c \<longleftrightarrow> (let n = (of_char c :: nat) in
     (65 \<le> n \<and> n \<le> 90) \<or> (192 \<le> n \<and> n \<le> 222 \<and> n \<noteq> 215))"

text \<open>Lower case is 32 above upper case: bit 5 of the code point is set.\<close>

definition lower_char :: "char \<Rightarrow> char" where
  "lower_char c =
     (if is_upper c
      then (case c of Char b0 b1 b2 b3 b4 b5 b6 b7 \<Rightarrow> Char b0 b1 b2 b3 b4 True b6 b7)
      else c)"

definition is_space :: "char \<Rightarrow> bool" where
  "is_space c \<longleftrightarrow> (let n = (of_char c :: nat) in
     (9 \<le> n \<and> n \<le> 13) \<or> (28 \<le> n \<and> n \<le> 32) \<or> n = 133 \<or> n = 160)"

definition is_alnum :: "char \<Rightarrow> bool" where
  "is_alnum c \<longleftrightarrow> (let n = (of_char c :: nat) in
     (48 \<le> n \<and> n \<le> 57) \<or> (65 \<le> n \<and> n \<le> 90) \<or> (97 \<le> n \<and> n \<le> 122)
     \<or> n = 170 \<or> n = 178 \<or> n = 179 \<or> n = 181 \<or> n = 185 \<or> n = 186
     \<or> (188 \<le> n \<and> n \<le> 190) \<or> (192 \<le> n \<and> n \<le> 214) \<or> (216 \<le> n \<and> n \<le> 246)
     \<or> 248 \<le> n)"

definition is_word :: "char \<Rightarrow> bool" where
  "is_word c \<longleftrightarrow> is_alnum c \<or> c = CHR ''_''"

definition digit_of :: "nat \<Rightarrow> char" where
  "digit_of d = ''0123456789'' ! d"

definition digit_val :: "char \<Rightarrow> nat" where
  "digit_val c = of_char c - 48"

subsection \<open>String methods\<close>

definition lower :: "string \<Rightarrow> string" where
  "lower s = map lower_char s"

definition startswith :: "string \<Rightarrow> string \<Rightarrow> bool" where
  "startswith s p \<longleftrightarrow> take (length p) s = p"

definition endswith :: "string \<Rightarrow> string \<Rightarrow> bool" where
  "endswith s p \<longleftrightarrow> length p \<le> length s \<and> drop (length s - length p) s = p"

text \<open>\<open>sub in s\<close> for strings.\<close>

fun contains :: "string \<Rightarrow> string \<Rightarrow> bool" where
  "contains [] sub = (sub = [])"
| "contains (c # cs) sub = (if startswith (c # cs) sub then True else contains cs sub)"

text \<open>\<open>s.strip()\<close>, and \<open>s.lstrip(chars)\<close>, \<open>s.rstrip(chars)\<close>, \<open>s.strip(chars)\<close>.\<close>

definition strip :: "string \<Rightarrow> string" where
  "strip s = rev (dropWhile is_space (rev (dropWhile is_space s)))"

definition lstrip_chars :: "string \<Rightarrow> string \<Rightarrow> string" where
  "lstrip_chars chars s = dropWhile (\<lambda>c. c \<in> set chars) s"

definition rstrip_chars :: "string \<Rightarrow> string \<Rightarrow> string" where
  "rstrip_chars chars s = rev (dropWhile (\<lambda>c. c \<in> set chars) (rev s))"

definition strip_chars :: "string \<Rightarrow> string \<Rightarrow> string" where
  "strip_chars chars s = rstrip_chars chars (lstrip_chars chars s)"

text \<open>\<open>s.replace(old, new)\<close>: the occurrences of \<open>old\<close> are replaced from the left and do not
  overlap; an empty \<open>old\<close> puts \<open>new\<close> before every character and at the end.
  \<open>replace_first\<close> is \<open>s.replace(old, new, 1)\<close>.\<close>

function replace_ne :: "string \<Rightarrow> string \<Rightarrow> string \<Rightarrow> string" where
  "replace_ne old new [] = []"
| "replace_ne old new (c # cs) =
     (if old \<noteq> [] \<and> startswith (c # cs) old
      then new @ replace_ne old new (drop (length old) (c # cs))
      else c # replace_ne old new cs)"
  by pat_completeness auto
termination
  by (relation "measure (\<lambda>(old, new, s). length s)") (auto simp: neq_Nil_conv)

definition replace :: "string \<Rightarrow> string \<Rightarrow> string \<Rightarrow> string" where
  "replace old new s =
     (if old = [] then new @ concat (map (\<lambda>c. c # new) s) else replace_ne old new s)"

fun replace_first :: "string \<Rightarrow> string \<Rightarrow> string \<Rightarrow> string" where
  "replace_first old new [] = (if old = [] then new else [])"
| "replace_first old new (c # cs) =
     (if startswith (c # cs) old then new @ drop (length old) (c # cs)
      else c # replace_first old new cs)"

text \<open>\<open>s.split(sep)\<close> for a separator that is not empty, \<open>s.rsplit(sep, maxsplit=1)\<close> for a
  separator of one character, and \<open>sep.join(xs)\<close>.\<close>

function split_acc :: "string \<Rightarrow> string \<Rightarrow> string \<Rightarrow> string list" where
  "split_acc sep cur [] = [rev cur]"
| "split_acc sep cur (c # cs) =
     (if sep \<noteq> [] \<and> startswith (c # cs) sep
      then rev cur # split_acc sep [] (drop (length sep) (c # cs))
      else split_acc sep (c # cur) cs)"
  by pat_completeness auto
termination
  by (relation "measure (\<lambda>(sep, cur, s). length s)") (auto simp: neq_Nil_conv)

definition split :: "string \<Rightarrow> string \<Rightarrow> string list" where
  "split sep s = split_acc sep [] s"

definition rsplit1 :: "char \<Rightarrow> string \<Rightarrow> string list" where
  "rsplit1 sep s =
     (if sep \<in> set s
      then [rev (tl (dropWhile (\<lambda>c. c \<noteq> sep) (rev s))), rev (takeWhile (\<lambda>c. c \<noteq> sep) (rev s))]
      else [s])"

fun join :: "string \<Rightarrow> string list \<Rightarrow> string" where
  "join sep [] = []"
| "join sep [x] = x"
| "join sep (x # y # ys) = x @ sep @ join sep (y # ys)"

text \<open>
  \<open>str(n)\<close> and \<open>int(s)\<close>. Both raise \<open>ValueError\<close> beyond \<open>sys.get_int_max_str_digits()\<close>
  decimal digits, which is 4300 unless the interpreter is told otherwise; the sign is not
  counted. \<open>str_nat\<close> is the decimal numeral of a natural number.

  \<open>int\<close> skips white space at both ends, takes one sign, and then reads digits with single
  underscores between them. The white space it skips is not that of \<open>str.strip\<close>: the code
  points 28 to 31 are not skipped. The digits are counted, and the limit applied, before
  what follows the digits is looked at; an underscore that is first, last or doubled among
  the digits is found before that.
\<close>

fun str_nat :: "nat \<Rightarrow> string" where
  "str_nat n = (if n < 10 then [digit_of n] else str_nat (n div 10) @ [digit_of (n mod 10)])"

declare str_nat.simps [simp del]

definition int_max_str_digits :: nat where
  "int_max_str_digits = 4300"

definition str_int :: "int \<Rightarrow> error + string" where
  "str_int i =
     (let ds = str_nat (nat \<bar>i\<bar>) in
      if int_max_str_digits < length ds
      then Inl (ValueError ''Exceeds the limit (4300 digits) for integer string conversion'')
      else Inr (if i < 0 then CHR ''-'' # ds else ds))"

definition is_int_space :: "char \<Rightarrow> bool" where
  "is_int_space c \<longleftrightarrow> (let n = (of_char c :: nat) in
     (9 \<le> n \<and> n \<le> 13) \<or> n = 32 \<or> n = 133 \<or> n = 160)"

fun doubled_underscore :: "string \<Rightarrow> bool" where
  "doubled_underscore (c # d # cs) =
     ((c = CHR ''_'' \<and> d = CHR ''_'') \<or> doubled_underscore (d # cs))"
| "doubled_underscore cs = False"

definition dstep :: "nat \<Rightarrow> char \<Rightarrow> nat" where
  "dstep a c = 10 * a + digit_val c"

definition digits_value :: "string \<Rightarrow> nat" where
  "digits_value ds = foldl dstep 0 ds"

definition py_int :: "string \<Rightarrow> error + int" where
  "py_int s =
     (let t = rev (dropWhile is_int_space (rev (dropWhile is_int_space s)));
          neg = (t \<noteq> [] \<and> hd t = CHR ''-'');
          u = (if t \<noteq> [] \<and> (hd t = CHR ''-'' \<or> hd t = CHR ''+'') then tl t else t);
          run = takeWhile (\<lambda>c. is_digit c \<or> c = CHR ''_'') u;
          rest = dropWhile (\<lambda>c. is_digit c \<or> c = CHR ''_'') u;
          ds = filter is_digit run
      in if run = [] \<or> hd run = CHR ''_'' \<or> last run = CHR ''_'' \<or> doubled_underscore run
         then Inl (ValueError ''invalid literal for int() with base 10'')
         else if int_max_str_digits < length ds
         then Inl (ValueError ''Exceeds the limit (4300 digits) for integer string conversion'')
         else if rest \<noteq> []
         then Inl (ValueError ''invalid literal for int() with base 10'')
         else Inr (if neg then - int (digits_value ds) else int (digits_value ds)))"

section \<open>Durations\<close>

text \<open>\<open>_duration_to_seconds\<close> and \<open>_seconds_to_duration\<close> of the converter module.\<close>

definition duration_to_seconds :: "string \<Rightarrow> error + int" where
  "duration_to_seconds v0 =
     (let v = lower v0 in
      if endswith v ''s'' then py_int (butlast v)
      else if endswith v ''m'' then emap (\<lambda>n. n * 60) (py_int (butlast v))
      else if endswith v ''h'' then emap (\<lambda>n. n * 3600) (py_int (butlast v))
      else if endswith v ''d'' then emap (\<lambda>n. n * 86400) (py_int (butlast v))
      else if endswith v ''w'' then emap (\<lambda>n. n * 86400 * 7) (py_int (butlast v))
      else Inl (NotImplementedError (''unknown duration '' @ v)))"

definition seconds_to_duration :: "int \<Rightarrow> error + string" where
  "seconds_to_duration seconds =
     (let mins = seconds div 60; d = seconds mod 60 in
      if d \<noteq> 0 \<or> mins = 0 then emap (\<lambda>t. t @ ''s'') (str_int seconds)
      else let hours = mins div 60; d' = mins mod 60 in
        if d' \<noteq> 0 \<or> hours = 0 then emap (\<lambda>t. t @ ''m'') (str_int mins)
        else emap (\<lambda>t. t @ ''h'') (str_int hours))"

section \<open>Regular expressions\<close>

text \<open>
  The converter reads queries with the regular expressions of Python's \<open>re\<close>. An
  expression is a value of \<open>re\<close>; \<open>rmatch\<close> is the backtracking matcher of \<open>re\<close>, written
  with a continuation: it tries the alternatives in the order \<open>re\<close> does (the left branch of
  \<open>|\<close> first, the longest repetition first for a greedy operator and the shortest first for
  a lazy one) and returns the first way of matching that the continuation accepts. A
  repetition is unrolled at most once for every character left, which is enough because no
  repeated expression of the converter matches the empty string.

  The state of a match holds the character before the position (for the look-behind
  \<open>(?<!c)\<close>), the text left and its length, the groups that are open with the text they
  have taken so far (in reverse), and the groups that are closed.
\<close>

datatype citem = CChar char | CRange char char | CWord | CDigit | CSpace

datatype re =
    RLit char
  | RDot
  | RSet bool "citem list"
  | REps
  | RSeq re re
  | RAlt re re
  | RStar bool re
  | RGrp nat re
  | RBref nat
  | RNotBehind char
  | REos

record mstate =
  prev :: "char option"
  rest :: string
  left :: nat
  opened :: "(nat \<times> string) list"
  grps :: "(nat \<times> string) list"

text \<open>Upper case, for the code points whose upper case is below 256.\<close>

definition is_lower :: "char \<Rightarrow> bool" where
  "is_lower c \<longleftrightarrow> (let n = (of_char c :: nat) in
     (97 \<le> n \<and> n \<le> 122) \<or> (224 \<le> n \<and> n \<le> 254 \<and> n \<noteq> 247))"

definition upper_char :: "char \<Rightarrow> char" where
  "upper_char c =
     (if is_lower c
      then (case c of Char b0 b1 b2 b3 b4 b5 b6 b7 \<Rightarrow> Char b0 b1 b2 b3 b4 False b6 b7)
      else c)"

fun citem_has :: "citem \<Rightarrow> char \<Rightarrow> bool" where
  "citem_has (CChar d) c = (c = d)"
| "citem_has (CRange a b) c = (a \<le> c \<and> c \<le> b)"
| "citem_has CWord c = is_word c"
| "citem_has CDigit c = is_digit c"
| "citem_has CSpace c = is_space c"

fun cls_has :: "citem list \<Rightarrow> char \<Rightarrow> bool" where
  "cls_has [] c = False"
| "cls_has (i # items) c = (if citem_has i c then True else cls_has items c)"

text \<open>With \<open>ic\<close> (the flag \<open>re.IGNORECASE\<close>) a literal matches in either case, and a class
  matches a character whose lower or upper case it holds.\<close>

definition same_char :: "bool \<Rightarrow> char \<Rightarrow> char \<Rightarrow> bool" where
  "same_char ic a b = (if ic then lower_char a = lower_char b else a = b)"

definition set_has :: "bool \<Rightarrow> bool \<Rightarrow> citem list \<Rightarrow> char \<Rightarrow> bool" where
  "set_has ic neg items c =
     ((if cls_has items c then True
       else if ic then (if cls_has items (lower_char c) then True else cls_has items (upper_char c))
       else False) \<noteq> neg)"

text \<open>One character is taken: every open group takes it too.\<close>

fun take_char :: "char \<Rightarrow> (nat \<times> string) list \<Rightarrow> (nat \<times> string) list" where
  "take_char c [] = []"
| "take_char c ((n, t) # os) = (n, c # t) # take_char c os"

definition step1 :: "(char \<Rightarrow> bool) \<Rightarrow> (mstate \<Rightarrow> 'a option) \<Rightarrow> mstate \<Rightarrow> 'a option" where
  "step1 p k s =
     (case rest s of
        [] \<Rightarrow> None
      | c # cs \<Rightarrow>
          if p c
          then k \<lparr>prev = Some c, rest = cs, left = left s - Suc 0,
                  opened = take_char c (opened s), grps = grps s\<rparr>
          else None)"

fun lits :: "bool \<Rightarrow> string \<Rightarrow> (mstate \<Rightarrow> 'a option) \<Rightarrow> mstate \<Rightarrow> 'a option" where
  "lits ic [] k s = k s"
| "lits ic (c # cs) k s = step1 (same_char ic c) (lits ic cs k) s"

fun star :: "bool \<Rightarrow> ((mstate \<Rightarrow> 'a option) \<Rightarrow> mstate \<Rightarrow> 'a option)
    \<Rightarrow> (mstate \<Rightarrow> 'a option) \<Rightarrow> nat \<Rightarrow> mstate \<Rightarrow> 'a option" where
  "star g f k 0 s = k s"
| "star g f k (Suc fuel) s =
     (if g then (case f (star g f k fuel) s of Some x \<Rightarrow> Some x | None \<Rightarrow> k s)
      else (case k s of Some x \<Rightarrow> Some x | None \<Rightarrow> f (star g f k fuel) s))"

text \<open>A group is opened, and closed when the expression in it has matched: the text it
  has taken is its value.\<close>

definition open_group :: "nat \<Rightarrow> mstate \<Rightarrow> mstate" where
  "open_group n s =
     \<lparr>prev = prev s, rest = rest s, left = left s, opened = (n, []) # opened s, grps = grps s\<rparr>"

definition close_group :: "mstate \<Rightarrow> mstate" where
  "close_group s =
     (case opened s of
        [] \<Rightarrow> s
      | (n, t) # os \<Rightarrow>
          \<lparr>prev = prev s, rest = rest s, left = left s, opened = os,
           grps = (n, rev t) # grps s\<rparr>)"

primrec rmatch :: "bool \<Rightarrow> re \<Rightarrow> (mstate \<Rightarrow> 'a option) \<Rightarrow> mstate \<Rightarrow> 'a option" where
  "rmatch ic (RLit c) k s = step1 (same_char ic c) k s"
| "rmatch ic RDot k s = step1 (\<lambda>c. c \<noteq> CHR 0x0A) k s"
| "rmatch ic (RSet neg items) k s = step1 (set_has ic neg items) k s"
| "rmatch ic REps k s = k s"
| "rmatch ic (RSeq a b) k s = rmatch ic a (rmatch ic b k) s"
| "rmatch ic (RAlt a b) k s =
     (case rmatch ic a k s of Some x \<Rightarrow> Some x | None \<Rightarrow> rmatch ic b k s)"
| "rmatch ic (RStar g a) k s = star g (rmatch ic a) k (left s) s"
| "rmatch ic (RGrp n a) k s = rmatch ic a (\<lambda>s'. k (close_group s')) (open_group n s)"
| "rmatch ic (RBref n) k s =
     (case map_of (grps s) n of None \<Rightarrow> None | Some t \<Rightarrow> lits ic t k s)"
| "rmatch ic (RNotBehind c) k s =
     (case prev s of None \<Rightarrow> k s | Some b \<Rightarrow> if b = c then None else k s)"
| "rmatch ic REos k s = (if rest s = [] \<or> rest s = [CHR 0x0A] then k s else None)"

subsection \<open>Writing expressions\<close>

definition str :: "string \<Rightarrow> re" where
  "str s = foldr (\<lambda>c r. RSeq (RLit c) r) s REps"

definition seqs :: "re list \<Rightarrow> re" where
  "seqs rs = foldr RSeq rs REps"

definition alts :: "re \<Rightarrow> re list \<Rightarrow> re" where
  "alts r rs = foldl RAlt r rs"

text \<open>\<open>x*\<close>, \<open>x+\<close>, \<open>x?\<close> and the lazy \<open>x*?\<close>, \<open>x+?\<close>.\<close>

definition many :: "re \<Rightarrow> re" where "many r = RStar True r"
definition many_lazy :: "re \<Rightarrow> re" where "many_lazy r = RStar False r"
definition some :: "re \<Rightarrow> re" where "some r = RSeq r (RStar True r)"
definition some_lazy :: "re \<Rightarrow> re" where "some_lazy r = RSeq r (RStar False r)"
definition opt :: "re \<Rightarrow> re" where "opt r = RAlt r REps"

text \<open>\<open>\s\<close>, \<open>\S\<close>, \<open>\w\<close>, \<open>\d\<close> and \<open>[chars]\<close>.\<close>

definition sp :: re where "sp = RSet False [CSpace]"
definition nsp :: re where "nsp = RSet True [CSpace]"
definition wd :: re where "wd = RSet False [CWord]"
definition dg :: re where "dg = RSet False [CDigit]"
definition one_of :: "string \<Rightarrow> re" where "one_of cs = RSet False (map CChar cs)"

lemmas re_syntax_defs =
  str_def seqs_def alts_def many_def many_lazy_def some_def some_lazy_def opt_def
  sp_def nsp_def wd_def dg_def one_of_def

subsection \<open>The functions of the module \<open>re\<close>\<close>

text \<open>A match: the text before it, the matched text, the groups that took part, the text
  after it. \<open>group m n\<close> is \<open>m.group(n)\<close>, with \<open>None\<close> for a group that took no part.
  The matched text is taken as group 0.\<close>

record match =
  m_pre :: string
  m_text :: string
  m_groups :: "(nat \<times> string) list"
  m_post :: string

definition group :: "match \<Rightarrow> nat \<Rightarrow> string option" where
  "group m n = map_of (m_groups m) n"

definition group_or_empty :: "match \<Rightarrow> nat \<Rightarrow> string" where
  "group_or_empty m n = (case group m n of None \<Rightarrow> [] | Some t \<Rightarrow> t)"

text \<open>\<open>match_here\<close> tries one position: \<open>bef\<close> is the text before it, in reverse, \<open>s\<close>
  the text from it on and \<open>n\<close> the length of \<open>s\<close>.\<close>

definition match_here :: "bool \<Rightarrow> re \<Rightarrow> string \<Rightarrow> string \<Rightarrow> nat \<Rightarrow> match option" where
  "match_here ic r bef s n =
     (case rmatch ic (RGrp 0 r) Some
             \<lparr>prev = (case bef of [] \<Rightarrow> None | c # cs \<Rightarrow> Some c), rest = s, left = n,
              opened = [], grps = []\<rparr> of
        None \<Rightarrow> None
      | Some e \<Rightarrow> Some \<lparr>m_pre = rev bef, m_text = the (map_of (grps e) 0),
                        m_groups = grps e, m_post = rest e\<rparr>)"

text \<open>\<open>re.match\<close> tries the start of the string only; \<open>re.search\<close> tries every position
  from the left.\<close>

definition re_match :: "bool \<Rightarrow> re \<Rightarrow> string \<Rightarrow> match option" where
  "re_match ic r s = match_here ic r [] s (length s)"

fun search_from :: "bool \<Rightarrow> re \<Rightarrow> string \<Rightarrow> string \<Rightarrow> nat \<Rightarrow> match option" where
  "search_from ic r bef [] n = match_here ic r bef [] n"
| "search_from ic r bef (c # cs) n =
     (case match_here ic r bef (c # cs) n of
        Some m \<Rightarrow> Some m
      | None \<Rightarrow> search_from ic r (c # bef) cs (n - Suc 0))"

definition re_search :: "bool \<Rightarrow> re \<Rightarrow> string \<Rightarrow> match option" where
  "re_search ic r s = search_from ic r [] s (length s)"

text \<open>The matches \<open>re.findall\<close> and \<open>re.sub\<close> work on, from the left and without overlap:
  the first \<open>n\<close> of them, each with the text between it and the match before, and the text
  after the last one. After an empty match the scan moves on by one character.\<close>

fun scan :: "nat \<Rightarrow> bool \<Rightarrow> re \<Rightarrow> string \<Rightarrow> string \<Rightarrow> (string \<times> match) list \<times> string" where
  "scan 0 ic r bef s = ([], s)"
| "scan (Suc n) ic r bef s =
     (case search_from ic r bef s (length s) of
        None \<Rightarrow> ([], s)
      | Some m \<Rightarrow>
          let gap = drop (length bef) (m_pre m);
              bef' = rev (m_text m) @ rev (m_pre m)
          in if m_text m \<noteq> [] then
               (case scan n ic r bef' (m_post m) of (ms, post) \<Rightarrow> ((gap, m) # ms, post))
             else (case m_post m of
                     [] \<Rightarrow> ([(gap, m)], [])
                   | c # cs \<Rightarrow>
                       (case scan n ic r (c # bef') cs of
                          ([], post) \<Rightarrow> ([(gap, m)], c # post)
                        | ((g, m') # ms, post) \<Rightarrow> ((gap, m) # (c # g, m') # ms, post))))"

definition matches :: "bool \<Rightarrow> re \<Rightarrow> string \<Rightarrow> match list" where
  "matches ic r s = map snd (fst (scan (Suc (length s)) ic r [] s))"

text \<open>\<open>re.findall\<close> for an expression with two groups: the pairs of the groups' texts.\<close>

definition findall2 :: "bool \<Rightarrow> re \<Rightarrow> string \<Rightarrow> (string \<times> string) list" where
  "findall2 ic r s = map (\<lambda>m. (group_or_empty m 1, group_or_empty m 2)) (matches ic r s)"

text \<open>\<open>re.sub(pattern, repl, s, count)\<close> where \<open>repl\<close> is a function of the match;
  \<open>count = None\<close> replaces every match.\<close>

definition re_sub :: "bool \<Rightarrow> re \<Rightarrow> (match \<Rightarrow> string) \<Rightarrow> nat option \<Rightarrow> string \<Rightarrow> string" where
  "re_sub ic r repl count s =
     (case scan (case count of None \<Rightarrow> Suc (length s) | Some n \<Rightarrow> n) ic r [] s of
        (ms, post) \<Rightarrow> concat (map (\<lambda>(gap, m). gap @ repl m) ms) @ post)"

section \<open>Dashboards as JSON values\<close>

text \<open>
  A dashboard, a panel, a target and a template variable are the \<open>dict\<close>s that \<open>json\<close>
  loads. A \<open>dict\<close> is the list of its items in insertion order, with no key twice. The
  operations below are Python's on such values: each says which exception the operation
  raises on a value of another type.
\<close>

datatype json =
    JNull
  | JBool bool
  | JInt int
  | JStr string
  | JArr "json list"
  | JObj "(string \<times> json) list"

fun truthy :: "json \<Rightarrow> bool" where
  "truthy JNull = False"
| "truthy (JBool b) = b"
| "truthy (JInt i) = (i \<noteq> 0)"
| "truthy (JStr s) = (s \<noteq> [])"
| "truthy (JArr xs) = (xs \<noteq> [])"
| "truthy (JObj kvs) = (kvs \<noteq> [])"

text \<open>\<open>x[k]\<close> for a string \<open>k\<close>.\<close>

fun getitem :: "json \<Rightarrow> string \<Rightarrow> error + json" where
  "getitem (JObj kvs) k = (case map_of kvs k of None \<Rightarrow> Inl (KeyError k) | Some v \<Rightarrow> Inr v)"
| "getitem (JArr xs) k = Inl (TypeError ''list indices must be integers or slices, not str'')"
| "getitem (JStr s) k = Inl (TypeError ''string indices must be integers, not str'')"
| "getitem v k = Inl (TypeError ''object is not subscriptable'')"

text \<open>\<open>x[0]\<close>.\<close>

fun first_item :: "json \<Rightarrow> error + json" where
  "first_item (JArr []) = Inl (IndexError ''list index out of range'')"
| "first_item (JArr (x # xs)) = Inr x"
| "first_item (JStr []) = Inl (IndexError ''string index out of range'')"
| "first_item (JStr (c # cs)) = Inr (JStr [c])"
| "first_item (JObj kvs) = Inl (KeyError ''0'')"
| "first_item v = Inl (TypeError ''object is not subscriptable'')"

text \<open>\<open>k in x\<close> for a string \<open>k\<close>: a key of a dict, an element of a list, a part of a string.\<close>

fun has_key :: "string \<Rightarrow> json \<Rightarrow> error + bool" where
  "has_key k (JObj kvs) = Inr (k \<in> set (map fst kvs))"
| "has_key k (JArr xs) = Inr (JStr k \<in> set xs)"
| "has_key k (JStr s) = Inr (contains s k)"
| "has_key k v = Inl (TypeError ''argument is not iterable'')"

text \<open>\<open>x.get(k, d)\<close>; \<open>x.get(k)\<close> is \<open>dict_get x k JNull\<close>.\<close>

fun dict_get :: "json \<Rightarrow> string \<Rightarrow> json \<Rightarrow> error + json" where
  "dict_get (JObj kvs) k d = (case map_of kvs k of None \<Rightarrow> Inr d | Some v \<Rightarrow> Inr v)"
| "dict_get v k d = Inl (AttributeError ''object has no attribute get'')"

text \<open>\<open>x[k] = v\<close>: a key already there keeps its place.\<close>

fun set_kv :: "string \<Rightarrow> json \<Rightarrow> (string \<times> json) list \<Rightarrow> (string \<times> json) list" where
  "set_kv k v [] = [(k, v)]"
| "set_kv k v ((k', v') # kvs) = (if k' = k then (k, v) # kvs else (k', v') # set_kv k v kvs)"

fun setitem :: "json \<Rightarrow> string \<Rightarrow> json \<Rightarrow> error + json" where
  "setitem (JObj kvs) k v = Inr (JObj (set_kv k v kvs))"
| "setitem (JArr xs) k v = Inl (TypeError ''list indices must be integers or slices, not str'')"
| "setitem x k v = Inl (TypeError ''object does not support item assignment'')"

text \<open>\<open>del x[k]\<close> and \<open>x.pop(k, None)\<close>.\<close>

definition del_kv :: "string \<Rightarrow> (string \<times> json) list \<Rightarrow> (string \<times> json) list" where
  "del_kv k kvs = filter (\<lambda>kv. fst kv \<noteq> k) kvs"

fun delitem :: "json \<Rightarrow> string \<Rightarrow> error + json" where
  "delitem (JObj kvs) k =
     (if k \<in> set (map fst kvs) then Inr (JObj (del_kv k kvs)) else Inl (KeyError k))"
| "delitem (JArr xs) k = Inl (TypeError ''list indices must be integers or slices, not str'')"
| "delitem x k = Inl (TypeError ''object does not support item deletion'')"

fun dict_pop :: "json \<Rightarrow> string \<Rightarrow> error + json" where
  "dict_pop (JObj kvs) k = Inr (JObj (del_kv k kvs))"
| "dict_pop (JArr xs) k = Inl (TypeError ''pop expected at most 1 argument, got 2'')"
| "dict_pop x k = Inl (AttributeError ''object has no attribute pop'')"

text \<open>\<open>for x in v\<close>: the elements of a list, the keys of a dict, the characters of a string.\<close>

fun iter :: "json \<Rightarrow> error + json list" where
  "iter (JArr xs) = Inr xs"
| "iter (JObj kvs) = Inr (map (\<lambda>kv. JStr (fst kv)) kvs)"
| "iter (JStr s) = Inr (map (\<lambda>c. JStr [c]) s)"
| "iter v = Inl (TypeError ''object is not iterable'')"

text \<open>A method of \<open>str\<close> called on a value: \<open>AttributeError\<close> unless the value is a string.\<close>

fun as_str :: "string \<Rightarrow> json \<Rightarrow> error + string" where
  "as_str meth (JStr s) = Inr s"
| "as_str meth v = Inl (AttributeError meth)"

text \<open>\<open>str(x)\<close>.\<close>

fun py_str :: "json \<Rightarrow> error + string" where
  "py_str (JStr s) = Inr s"
| "py_str (JInt i) = str_int i"
| "py_str (JBool b) = Inr (if b then ''True'' else ''False'')"
| "py_str JNull = Inr ''None''"
| "py_str v = Inl (Unmodelled ''repr of a list or dict'')"

section \<open>The converter and its state\<close>

text \<open>
  What \<open>__init__\<close> is given stays fixed: \<open>config\<close>. \<open>grafana_datasources\<close> is the entry of
  that name in the shared state (an empty dict when absent). The constructor asserts that
  the replacement datasource holds \<open>uid\<close> and \<open>type\<close>: \<open>init_ok\<close>.

  A \<open>set\<close> of strings is kept as the list of its elements in the order they were added. The
  order in which the interpreter enumerates such a set depends on the hashes of the strings,
  which change from one process to the next: \<open>set_order\<close> is that order, a function of the
  process like the rest of \<open>config\<close>, and \<open>enumerates\<close> says that it lists every element of
  the set once.
\<close>

record config =
  replacement_datasource :: json
  datasource_map :: "(json \<times> json) list option"
  alert_notifications_map :: "(int \<times> string) list option"
  alert_notifications_uid_map :: "(string \<times> string) list option"
  scrape_interval :: int
  grafana_datasources :: json
  set_order :: "string list \<Rightarrow> string list"

definition enumerates :: "config \<Rightarrow> bool" where
  "enumerates cfg \<longleftrightarrow>
     (\<forall>xs. distinct xs \<longrightarrow> distinct (set_order cfg xs) \<and> set (set_order cfg xs) = set xs)"

definition init_ok :: "config \<Rightarrow> bool" where
  "init_ok cfg \<longleftrightarrow>
     has_key ''uid'' (replacement_datasource cfg) = Inr True
     \<and> has_key ''type'' (replacement_datasource cfg) = Inr True"

text \<open>
  The error sink is the \<open>ErrorManager\<close>: a list of \<open>ConversionError\<close>s and the context
  (dashboard and panel) they are attributed to. The link of an error, built from the
  context and the Grafana address, is left out. The notes of an error are a string, or the
  set of fill policies, or the \<open>str\<close> of a target, kept here as the target itself.
\<close>

datatype err_note = NStr string | NSet "string list" | NRepr json

record conversion_error =
  message :: string
  error_level :: string
  error_notes :: err_note
  error_dashboard :: json
  error_panel :: json

text \<open>
  The state of the converter and of the error manager. \<open>metric_to_objects\<close> maps a metric
  to the dashboards (by title) and their objects; the objects are kept by value. An entry
  of \<open>_get_rep_metric\<close> holds the template variable it refers to and, while that variable is
  part of the dashboard at hand, its place in the templating list, where the changes made
  through the entry are written.
\<close>

record state =
  metric_to_objects :: "(string \<times> (json \<times> json list) list) list"
  get_rep_metric :: "(bool \<times> string \<times> json \<times> nat option) list"
  current_dashboard :: json
  group_by_labels :: "string list option"
  context_templating :: json
  conversion_errors :: "conversion_error list"
  context_dashboard :: "json option"
  context_panel :: "json option"

text \<open>A computation that reads and writes a state and may raise: what it has written
  stays written when it raises. \<open>comp\<close> is a computation on the state of the converter.\<close>

type_synonym ('s, 'a) run = "'s \<Rightarrow> (error + 'a) \<times> 's"

type_synonym 'a comp = "(state, 'a) run"

definition sreturn :: "'a \<Rightarrow> ('s, 'a) run" where
  "sreturn x s = (Inr x, s)"

definition sraise :: "error \<Rightarrow> ('s, 'a) run" where
  "sraise e s = (Inl e, s)"

definition lift :: "error + 'a \<Rightarrow> ('s, 'a) run" where
  "lift r s = (r, s)"

definition sbind :: "('s, 'a) run \<Rightarrow> ('a \<Rightarrow> ('s, 'b) run) \<Rightarrow> ('s, 'b) run" where
  "sbind m f s = (case m s of (Inl e, s') \<Rightarrow> (Inl e, s') | (Inr x, s') \<Rightarrow> f x s')"

definition modify :: "('s \<Rightarrow> 's) \<Rightarrow> ('s, unit) run" where
  "modify f s = (Inr (), f s)"

text \<open>\<open>ErrorManager.add_error\<close>: the error is kept only when a dashboard and a panel are
  set in the context.\<close>

definition add_error :: "string \<Rightarrow> string \<Rightarrow> err_note \<Rightarrow> unit comp" where
  "add_error msg level nts s =
     (case (context_dashboard s, context_panel s) of
        (Some d, Some p) \<Rightarrow>
          (Inr (), s\<lparr>conversion_errors := conversion_errors s @
             [\<lparr>message = replace '','' ''-'' msg, error_level = level, error_notes = nts,
               error_dashboard = d, error_panel = p\<rparr>]\<rparr>)
      | _ \<Rightarrow> (Inr (), s))"

section \<open>The constants of the module\<close>

definition SCRAPE_INTERVAL_SECONDS :: int where
  "SCRAPE_INTERVAL_SECONDS = 30"

definition OVER_TIME_AGGREGATIONS :: "string list" where
  "OVER_TIME_AGGREGATIONS =
     [''avg'', ''min'', ''max'', ''sum'', ''quantile'', ''stddev'', ''stdvar'', ''count'']"

definition LABEL_COMPARISON_OPERATORS :: "string list" where
  "LABEL_COMPARISON_OPERATORS = [''='', ''!='', ''=~'', ''!~'']"

definition LABEL_CONDITIONS_OPERATORS :: "string list" where
  "LABEL_CONDITIONS_OPERATORS = [''<'', ''>'', ''<='', ''>='', ''='']"

text \<open>\<open>[0-9]+[mhdwy][s]?\<close>\<close>

definition TIME_INTERVAL_REGEX :: re where
  "TIME_INTERVAL_REGEX =
     seqs [some (RSet False [CRange CHR ''0'' CHR ''9'']), one_of ''mhdwy'', opt (RLit CHR ''s'')]"

definition INVALID_PROMQL_METRIC_CHARACTERS :: "string list" where
  "INVALID_PROMQL_METRIC_CHARACTERS = [''.'', ''-'', '' '', ''%'']"

definition AGGREGATION_MAP :: "(string \<times> string) list" where
  "AGGREGATION_MAP =
     [(''count'', ''count''), (''max'', ''max''), (''min'', ''min''), (''median'', ''avg''),
      (''mean'', ''avg''), (''non_negative_derivative'', ''rate''),
      (''non_negative_difference'', ''increase''), (''percentile'', ''avg''),
      (''stddev'', ''stddev''), (''sum'', ''sum''), (''last'', ''avg''),
      (''moving_average'', ''avg''), (''derivative'', ''rate''), (''difference'', ''delta'')]"

definition AGGREGATION_TOPLEVEL_MAP :: "(string \<times> string) list" where
  "AGGREGATION_TOPLEVEL_MAP = [(''count'', ''sum'')]"

definition NONDEFAULT_METRIC_PREFIX_SCRAPE_INTERVAL_SECONDS :: "(string \<times> int) list" where
  "NONDEFAULT_METRIC_PREFIX_SCRAPE_INTERVAL_SECONDS = [(''busy_metric_'', 1)]"

text \<open>\<open>.*_remaining_(percent_|)value\<close>, \<open>(disk|swap)_free\<close>, \<open>mem_available\<close>,
  \<open>.*_error_value\<close>, \<open>.*_size(_value|$)\<close>, \<open>disk_used.*\<close>\<close>

definition METRIC_AGGREGATION_REGEXPS :: "(re \<times> string) list" where
  "METRIC_AGGREGATION_REGEXPS =
     [(seqs [many RDot, str ''_remaining_'', RGrp 1 (RAlt (str ''percent_'') REps), str ''value''],
       ''min''),
      (seqs [RGrp 1 (RAlt (str ''disk'') (str ''swap'')), str ''_free''], ''min''),
      (str ''mem_available'', ''min''),
      (seqs [many RDot, str ''_error_value''], ''max''),
      (seqs [many RDot, str ''_size'', RGrp 1 (RAlt (str ''_value'') REos)], ''max''),
      (seqs [str ''disk_used'', many RDot], ''max'')]"

definition TEMPLATING_METRIC_STATIC_CONVERSION :: "(string \<times> string) list" where
  "TEMPLATING_METRIC_STATIC_CONVERSION = []"

record GroupBy =
  group_by :: string
  over_time :: string
  fills :: "string list"

section \<open>Reading a query\<close>

definition replace_invalid_metric_characters :: "string \<Rightarrow> string" where
  "replace_invalid_metric_characters metric =
     foldl (\<lambda>m character. replace character ''_'' m) metric INVALID_PROMQL_METRIC_CHARACTERS"

fun first_matching :: "(re \<times> string) list \<Rightarrow> string \<Rightarrow> string" where
  "first_matching [] metric_name = ''avg''"
| "first_matching ((metric_re, f) # rs) metric_name =
     (case re_match False metric_re metric_name of
        Some m \<Rightarrow> f
      | None \<Rightarrow> first_matching rs metric_name)"

definition get_metric_aggregation :: "string \<Rightarrow> string" where
  "get_metric_aggregation metric_name = first_matching METRIC_AGGREGATION_REGEXPS metric_name"

text \<open>\<open>from "(\S+)" where\<close> and \<open>(\("|\(|\")([\w.]+)("\)|\)|")\<close>\<close>

definition re_from_where :: re where
  "re_from_where = seqs [str ''from \"'', RGrp 1 (some nsp), str ''\" where'']"

definition re_metric_key :: re where
  "re_metric_key =
     seqs [RGrp 1 (alts (str ''(\"'') [str ''('', str ''\"'']),
           RGrp 2 (some (RSet False [CWord, CChar CHR ''.''])),
           RGrp 3 (alts (str ''\")'') [str '')'', str ''\"''])]"

definition get_metric_name :: "string \<Rightarrow> error + (string \<times> string)" where
  "get_metric_name query =
     (case re_search True re_from_where query of
        None \<Rightarrow> Inl (ValueError ''Unable to find metric name in'')
      | Some part1 \<Rightarrow>
          (case re_search True re_metric_key query of
             None \<Rightarrow> Inl (ValueError ''Unable to find (single) metric key in'')
           | Some part2 \<Rightarrow>
               Inr (group_or_empty part1 1,
                    (if group_or_empty part2 1 \<notin> {''\"'', ''('', ''(\"''}
                     then group_or_empty part2 1 else group_or_empty part2 2))))"

text \<open>\<open>select (.*) from\<close>\<close>

definition re_select_from :: re where
  "re_select_from = seqs [str ''select '', RGrp 1 (many RDot), str '' from'']"

definition get_aggregations :: "string \<Rightarrow> error + string list" where
  "get_aggregations query =
     (case re_search True re_select_from query of
        None \<Rightarrow> Inl (ValueError ''Unable to find aggregations in'')
      | Some part1 \<Rightarrow>
          Inr (List.map_filter (map_of AGGREGATION_MAP) (split ''('' (group_or_empty part1 1))))"

text \<open>
  \<open>get_labels\<close>. The set \<open>labels\<close> is the list of its elements, none twice; \<open>sorted\<close> puts
  them in the order of \<open>str\<close>, which compares code points.

  \<open>single_eq_re\<close> is \<open>"(\S+)"\s*=\s*'(\S+)'\<close>; it stands twice in the expression for a group
  of ORs, \<open>(\(single_eq\s+(OR\s+single_eq)*\))\<close>, so its groups are numbered by where it
  stands. The source passes \<open>re.IGNORECASE\<close> where \<open>re.sub\<close> takes \<open>count\<close>: the flag is the
  number 2, so the expression is matched with regard to case and at most two groups of ORs
  are replaced.
\<close>

definition single_eq_re :: "nat \<Rightarrow> nat \<Rightarrow> re" where
  "single_eq_re g1 g2 =
     seqs [RLit CHR 0x22, RGrp g1 (some nsp), RLit CHR 0x22, many sp, RLit CHR ''='', many sp,
           RLit CHR 0x27, RGrp g2 (some nsp), RLit CHR 0x27]"

definition re_or_group :: re where
  "re_or_group =
     RGrp 1 (seqs [RLit CHR ''('', single_eq_re 2 3, some sp,
                   many (RGrp 4 (seqs [str ''OR'', some sp, single_eq_re 5 6])),
                   RLit CHR '')''])"

text \<open>The function \<open>_replace\<close> of \<open>get_labels\<close>: the text that stands for the match, and the
  label it adds, if any.\<close>

definition or_group_replace :: "match \<Rightarrow> string \<times> string option" where
  "or_group_replace m =
     (let original_string = group_or_empty m 1;
          results = findall2 False (single_eq_re 1 2) original_string;
          keys = remdups (map fst results)
      in if length keys = 1
         then ([], Some (hd keys @ ''=~\"'' @ join ''|'' (map snd results) @ ''\"''))
         else (original_string, None))"

text \<open>\<open>s.add(l)\<close> on a set kept as the list of its elements.\<close>

definition set_add :: "string \<Rightarrow> string list \<Rightarrow> string list" where
  "set_add l labels = (if l \<in> set labels then labels else labels @ [l])"

text \<open>The key of a comparison: \<open>(\w+?|"\S+?")\<close>.\<close>

definition re_key :: re where
  "re_key = RGrp 1 (RAlt (some_lazy wd) (seqs [RLit CHR 0x22, some_lazy nsp, RLit CHR 0x22]))"

text \<open>\<open>key\s*op\s*/(.*?)(?<!\\)(?:\\{2})*/\<close>, and the same between single quotes\<close>

definition re_delimited :: "string \<Rightarrow> char \<Rightarrow> re" where
  "re_delimited operator d =
     seqs [re_key, many sp, str operator, many sp, RLit d, RGrp 2 (many_lazy RDot),
           RNotBehind CHR 0x5C, many (RSeq (RLit CHR 0x5C) (RLit CHR 0x5C)), RLit d]"

text \<open>\<open>key\s*op\s*([^\s\'~].*?)(?:\)|\s)\<close>\<close>

definition re_unquoted :: "string \<Rightarrow> re" where
  "re_unquoted operator =
     seqs [re_key, many sp, str operator, many sp,
           RGrp 2 (seqs [RSet True [CSpace, CChar CHR 0x27, CChar CHR ''~''], many_lazy RDot]),
           RAlt (RLit CHR '')'') sp]"

definition regex_label :: "string \<Rightarrow> string \<Rightarrow> string \<times> string \<Rightarrow> string option" where
  "regex_label field_name operator kv =
     (let key = replace ''-'' ''_'' (rstrip_chars ''\"'' (lstrip_chars ''\"'' (fst kv)));
          value = snd kv
      in if key = field_name then None
         else
           let value = (if startswith value ''^'' then tl value
                        else if \<not> startswith value ''.*'' then ''.*'' @ value else value);
               value = (if endswith value ''$'' then butlast value
                        else if \<not> endswith value ''.*'' then value @ ''.*'' else value);
               value = replace [CHR 0x5C, CHR ''/''] ''/'' value;
               value = replace [CHR 0x5C] [CHR 0x5C, CHR 0x5C] value;
               value = replace [CHR 0x27] [CHR 0x5C, CHR 0x27] value
           in Some (key @ operator @ ''\"'' @ value @ ''\"''))"

definition escape_backslashes :: "string \<Rightarrow> string" where
  "escape_backslashes s = replace [CHR 0x5C] [CHR 0x5C, CHR 0x5C] s"

definition plain_label :: "string \<Rightarrow> string \<Rightarrow> string \<times> string \<Rightarrow> string option" where
  "plain_label field_name operator kv =
     (let key = rstrip_chars ''\"'' (lstrip_chars ''\"'' (fst kv))
      in if key = field_name then None
         else Some (key @ operator @ ''\"'' @ escape_backslashes (snd kv) @ ''\"''))"

definition set_adds :: "string option list \<Rightarrow> string list \<Rightarrow> string list" where
  "set_adds found labels = foldl (\<lambda>ls l. set_add l ls) labels (List.map_filter id found)"

definition operator_labels :: "string \<Rightarrow> string \<Rightarrow> string \<Rightarrow> string list \<Rightarrow> string list" where
  "operator_labels query field_name operator labels =
     (if operator \<in> {''!~'', ''=~''}
      then set_adds (map (regex_label field_name operator)
                         (findall2 False (re_delimited operator CHR ''/'') query)) labels
      else
        set_adds (map (plain_label field_name operator)
                      (findall2 False (re_unquoted operator) query))
          (set_adds (map (plain_label field_name operator)
                         (findall2 False (re_delimited operator CHR 0x27) query)) labels))"

text \<open>\<open>collect_labels\<close> is \<open>get_labels\<close> up to its \<open>return\<close>: the query without the groups of
  ORs that were replaced, and the set \<open>labels\<close>.\<close>

definition collect_labels :: "string \<Rightarrow> string \<Rightarrow> string \<times> string list" where
  "collect_labels query field_name =
     (case scan 2 False re_or_group [] query of
        (ms, post) \<Rightarrow>
          let query' = concat (map (\<lambda>(gap, m). gap @ fst (or_group_replace m)) ms) @ post;
              labels = set_adds (map (\<lambda>(gap, m). snd (or_group_replace m)) ms) [];
              labels = foldl (\<lambda>ls operator. operator_labels query' field_name operator ls)
                         labels LABEL_COMPARISON_OPERATORS
          in (query', labels))"

definition get_labels :: "string \<Rightarrow> string \<Rightarrow> string \<times> string" where
  "get_labels query field_name =
     (case collect_labels query field_name of
        (query', labels) \<Rightarrow> (query', join '','' (sort labels)))"

text \<open>
  \<open>get_conditions\<close>, with \<open>key\s*op\s*(-?\w+(?:\.?\d+)?)\<close>. The loop over the matches of one
  operator assigns to \<open>operator\<close>: after the first condition on the field with \<open>=\<close> the
  operator is \<open>==\<close> for the matches that are left. The result is a list when the query holds
  an \<open>OR\<close>, and a string otherwise.
\<close>

datatype conds = CondStr string | CondList "string list"

definition re_condition :: "string \<Rightarrow> re" where
  "re_condition operator =
     seqs [re_key, many sp, str operator, many sp,
           RGrp 2 (seqs [opt (RLit CHR ''-''), some wd,
                         opt (seqs [opt (RLit CHR ''.''), some dg])])]"

fun conditions_of :: "string \<Rightarrow> string \<Rightarrow> (string \<times> string) list \<Rightarrow> string list
    \<Rightarrow> error + string list" where
  "conditions_of field_name operator [] conditions = Inr conditions"
| "conditions_of field_name operator ((key, val) # kvs) conditions =
     (if strip_chars ''\"'' key \<noteq> field_name then
        (if operator = ''='' then conditions_of field_name operator kvs conditions
         else Inl (ValueError ''has condition that does not match select field, cannot convert''))
      else
        let operator' = (if operator = ''='' then ''=='' else operator)
        in conditions_of field_name operator' kvs (conditions @ [operator' @ '' '' @ val]))"

fun conditions_loop :: "string \<Rightarrow> string \<Rightarrow> string list \<Rightarrow> string list \<Rightarrow> error + string list" where
  "conditions_loop query field_name [] conditions = Inr conditions"
| "conditions_loop query field_name (operator # ops) conditions =
     (case conditions_of field_name operator
             (findall2 False (re_condition operator) query) conditions of
        Inl e \<Rightarrow> Inl e
      | Inr conditions' \<Rightarrow> conditions_loop query field_name ops conditions')"

definition get_conditions :: "string \<Rightarrow> string \<Rightarrow> error + conds" where
  "get_conditions query field_name =
     (case conditions_loop query field_name LABEL_CONDITIONS_OPERATORS [] of
        Inl e \<Rightarrow> Inl e
      | Inr conditions \<Rightarrow>
          if contains query '' OR '' \<and> conditions \<noteq> [] then Inr (CondList conditions)
          else Inr (CondStr (join '' '' conditions)))"

text \<open>\<open>select\s+(\S+?)\s*/\s*\1\s+from \<close>\<close>

definition re_divide_by_self :: re where
  "re_divide_by_self =
     seqs [str ''select'', some sp, RGrp 1 (some_lazy nsp), many sp, RLit CHR ''/'', many sp,
           RBref 1, some sp, str ''from '']"

definition does_divide_by_self :: "string \<Rightarrow> bool" where
  "does_divide_by_self query = (re_search True re_divide_by_self query \<noteq> None)"

text \<open>\<open>[")](\s*[*/+\-]\s*-?[\d]+?(?:\.\d+?)?) from\<close>\<close>

definition re_modification :: re where
  "re_modification =
     seqs [one_of ''\")'',
           RGrp 1 (seqs [many sp, one_of ''*/+-'', many sp, opt (RLit CHR ''-''), some_lazy dg,
                         opt (seqs [RLit CHR ''.'', some_lazy dg])]),
           str '' from'']"

definition get_modifications :: "string \<Rightarrow> string list" where
  "get_modifications query =
     (case re_search True re_modification query of
        Some part1 \<Rightarrow> [group_or_empty part1 1]
      | None \<Rightarrow> [])"

text \<open>\<open>get_group_by\<close>, with \<open>(?i)fill\((.*)\)\<close> and \<open>\((.*)\)\<close>. It sets \<open>group_by_labels\<close>.\<close>

definition re_fill :: re where
  "re_fill = seqs [str ''fill('', RGrp 1 (many RDot), RLit CHR '')'']"

definition re_parens :: re where
  "re_parens = seqs [RLit CHR ''('', RGrp 1 (many RDot), RLit CHR '')'']"

fun group_items :: "string list \<Rightarrow> string list \<times> string \<times> string list
    \<Rightarrow> error + (string list \<times> string \<times> string list)" where
  "group_items [] acc = Inr acc"
| "group_items (g # gs) (fls, time_val, gb) =
     (if g = [] then group_items gs (fls, time_val, gb)
      else case re_match True re_fill g of
        Some m \<Rightarrow> group_items gs (fls @ [group_or_empty m 1], time_val, gb)
      | None \<Rightarrow>
          if contains g ''time'' then
            (case re_search False re_parens g of
               None \<Rightarrow> Inl (ValueError ''Unparseable group by statement'')
             | Some m \<Rightarrow>
                 group_items gs
                   (fls,
                    replace ''$interval'' ''$__interval''
                      (replace ''auto'' ''$__interval''
                         (replace ''$_interval'' ''$__interval'' (group_or_empty m 1))),
                    gb))
          else group_items gs (fls, time_val, gb @ [replace ''\"'' [] (replace '','' [] g)]))"

definition get_group_by :: "string \<Rightarrow> GroupBy option comp" where
  "get_group_by query =
     sbind (modify (\<lambda>s. s\<lparr>group_by_labels := None\<rparr>)) (\<lambda>_.
     let groups = split ''group by'' (lower query) in
     if length groups < 2 then sreturn None
     else
       sbind (lift (group_items (concat (map (split '','') (split '' '' (groups ! 1))))
                      ([], [], []))) (\<lambda>(fls, time_val, gb).
       sbind (modify (\<lambda>s. s\<lparr>group_by_labels := Some gb\<rparr>)) (\<lambda>_.
       sreturn (Some \<lparr>group_by = (if gb \<noteq> [] then '' by ('' @ join '','' gb @ '')'' else []),
                      over_time = time_val, fills = fls\<rparr>))))"

text \<open>\<open>(\("|\(|\")(?P<field>[\w.]+)("\)|\)|")( AS [\'"]?(?P<alias>\w+)[\'"]?)?\<close>. The alias
  is \<open>None\<close> when the query has none: the group is in the \<open>groupdict\<close> all the same, so the
  default of \<open>get\<close> is never used.\<close>

definition re_alias :: re where
  "re_alias =
     seqs [re_metric_key,
           opt (RGrp 4 (seqs [str '' AS '', opt (one_of [CHR 0x27, CHR 0x22]), RGrp 5 (some wd),
                              opt (one_of [CHR 0x27, CHR 0x22])]))]"

definition get_alias_from_query :: "string \<Rightarrow> error + string option" where
  "get_alias_from_query query =
     (case re_search True re_alias query of
        None \<Rightarrow> Inl (ValueError ''Unable to find (single) metric key in'')
      | Some m \<Rightarrow> Inr (group m 5))"

section \<open>Building the expression\<close>

text \<open>
  \<open>format_expression\<close> builds one expression for every condition and joins them with
  \<open>or\<close>. \<open>format_condition\<close> is the body of its loop: it returns the expression and the
  time windows it appends to \<open>over_times\<close>. The set \<open>over_time_aggregations\<close> is the list of
  its elements in the order they were added, and is joined in the order of \<open>set_order\<close>;
  \<open>over_time\<close> is \<open>None\<close> without a group-by. An interval of more than 4300 digits cannot be
  written, and the \<open>ValueError\<close> of \<open>_seconds_to_duration\<close> ends the function.
  The loop \<open>for aggregation in aggregations\<close> leaves the last aggregation in
  \<open>aggregation\<close>, which is the value the variable had before the loop.
\<close>

definition str_truthy :: "string option \<Rightarrow> bool" where
  "str_truthy v = (case v of None \<Rightarrow> False | Some t \<Rightarrow> t \<noteq> [])"

definition over_time_functions :: "string list \<Rightarrow> string list" where
  "over_time_functions aggregations =
     foldl (\<lambda>acc aggregation.
              if aggregation \<in> set OVER_TIME_AGGREGATIONS then
                set_add (if ''rate'' \<in> set aggregations then ''rate''
                         else if ''increase'' \<in> set aggregations then ''increase''
                         else aggregation @ ''_over_time'') acc
              else acc) [] aggregations"

definition metric_scrape_interval :: "config \<Rightarrow> string \<Rightarrow> int" where
  "metric_scrape_interval cfg metric_name =
     foldl (\<lambda>si (metric_prefix, scrape_interval_override).
              if startswith metric_name metric_prefix then scrape_interval_override else si)
       (scrape_interval cfg) NONDEFAULT_METRIC_PREFIX_SCRAPE_INTERVAL_SECONDS"

definition format_condition :: "config \<Rightarrow> bool \<Rightarrow> string \<Rightarrow> string list \<Rightarrow> string
    \<Rightarrow> GroupBy option \<Rightarrow> string list \<Rightarrow> string \<Rightarrow> error + string \<times> string list" where
  "format_condition cfg divide_by_self metric_name aggregations labels gb modifications condition0 =
     (let ot0 = (case gb of None \<Rightarrow> None | Some g \<Rightarrow> Some (over_time g));
          aggregation0 = (if aggregations \<noteq> [] then last aggregations else []);
          (ot1, ota1) =
            (case gb of
               None \<Rightarrow> (ot0, [])
             | Some g \<Rightarrow>
                 if \<not> str_truthy ot0
                 then ((if ''count'' \<in> set aggregations then Some ''$__range'' else ot0), [])
                 else (ot0, over_time_functions aggregations));
          condition1 =
            (if divide_by_self
             then replace_first '' '' '' bool '' (if condition0 = [] then ''!= 0'' else condition0)
             else condition0);
          condition = (if condition1 = ''> 0'' \<and> aggregation0 = ''sum'' then [] else condition1);
          (expr, ot2, ota2) =
            (if aggregation0 \<noteq> [] then
               let (ota, aggregation, ot) =
                     (if aggregation0 \<in> {''rate'', ''increase''} \<and> ota1 = []
                      then ([aggregation0], get_metric_aggregation metric_name,
                            (if \<not> str_truthy ot1 then Some ''$__rate_interval'' else ot1))
                      else (ota1, aggregation0, ot1))
               in (case gb of
                     None \<Rightarrow> (aggregation, ot, ota)
                   | Some g \<Rightarrow>
                       if group_by g \<noteq> [] \<or> ota \<noteq> [] then
                         let (aggregation', ota') =
                               (if condition = [] then
                                  let toplevel = (case map_of AGGREGATION_TOPLEVEL_MAP aggregation of
                                                    Some a \<Rightarrow> a | None \<Rightarrow> aggregation)
                                  in (toplevel,
                                      if aggregation = ''count'' \<and> toplevel = ''sum''
                                      then [''count_over_time''] else ota)
                                else (aggregation, ota))
                         in (aggregation' @ replace_invalid_metric_characters (group_by g), ot, ota')
                       else (aggregation, ot, ota))
             else ([], ot1, ota1));
          ota = (if condition \<noteq> []
                   \<and> filter (\<lambda>a. a \<notin> set [''avg'', ''max'', ''min'']) aggregations \<noteq> []
                 then [] else ota2);
          inner0 = (if ota \<noteq> [] then join '' '' (set_order cfg ota) @ ''('' else [])
                   @ metric_name
                   @ (if labels \<noteq> [] then ''{'' @ labels @ ''}'' else [])
      in ebind
           (if str_truthy ot2 then
              let scrape = metric_scrape_interval cfg metric_name in
              ebind
                (if ''rate'' \<in> set aggregations \<or> ''increase'' \<in> set aggregations then
                   (if the ot2 \<in> {''$__rate_interval'', ''$__interval''}
                       \<and> scrape = scrape_interval cfg
                    then Inr (''$__rate_interval'', [])
                    else emap (\<lambda>d. (the ot2, [d])) (seconds_to_duration (scrape * 4)))
                 else emap (\<lambda>d. (the ot2, [d])) (seconds_to_duration scrape))
                (\<lambda>(ot, added).
                   Inr ((if ota \<noteq> []
                         then inner0 @ ''[''
                              @ re_sub False TIME_INTERVAL_REGEX (\<lambda>m. ''$__interval'') None ot
                              @ '']''
                         else inner0),
                        added @ [ot]))
            else Inr (inner0, []))
           (\<lambda>(inner1, over_times).
              let inner = (if ota \<noteq> [] then inner1 @ '')'' @ condition
                           else inner1 @ condition @ '')'' @ join '' '' modifications);
                  expr' = expr @ ''('' @ inner
                          @ (if ota \<noteq> [] then '') '' @ join '' '' modifications else [])
              in Inr (replace [CHR 0x27] [CHR 0x27] expr', over_times)))"

definition format_expression :: "config \<Rightarrow> bool \<Rightarrow> string \<Rightarrow> string list \<Rightarrow> string
    \<Rightarrow> GroupBy option \<Rightarrow> string list \<Rightarrow> conds \<Rightarrow> string option
    \<Rightarrow> error + string \<times> string list \<times> string list \<times> string option" where
  "format_expression cfg divide_by_self metric_name aggregations labels gb modifications conditions
       alias_name =
     (let conditions' = (case conditions of CondList cs \<Rightarrow> cs | CondStr c \<Rightarrow> [c]);
          metric_name' = replace_invalid_metric_characters metric_name
      in ebind (emapM (format_condition cfg divide_by_self metric_name' aggregations labels gb
                         modifications) conditions') (\<lambda>rs.
         Inr (join '' or '' (map fst rs), concat (map snd rs),
              (case gb of None \<Rightarrow> [] | Some g \<Rightarrow> fills g), alias_name)))"

definition conds_truthy :: "conds \<Rightarrow> bool" where
  "conds_truthy c = (case c of CondStr t \<Rightarrow> t \<noteq> [] | CondList cs \<Rightarrow> cs \<noteq> [])"

definition convert_expression :: "config \<Rightarrow> string
    \<Rightarrow> (string \<times> string list \<times> string list \<times> string option) comp" where
  "convert_expression cfg query =
     sbind (lift (get_metric_name query)) (\<lambda>(series_name0, field_name0).
     let series_name = replace ''\"'' [] (last (split ''.'' series_name0)) in
     sbind (lift (get_alias_from_query query)) (\<lambda>alias_name.
     let field_name = replace ''.'' ''_'' field_name0;
         metric_name = series_name @ ''_'' @ field_name in
     sbind (lift (get_aggregations query)) (\<lambda>aggregations0.
     let aggregations1 = (if aggregations0 = [''avg''] then [get_metric_aggregation metric_name]
                          else aggregations0);
         (query', labels) = get_labels query field_name;
         modifications = get_modifications query' in
     sbind (get_group_by query') (\<lambda>gb.
     sbind (if aggregations1 = [] \<and> (case gb of None \<Rightarrow> False | Some g \<Rightarrow> group_by g \<noteq> [])
            then sbind (if [get_metric_aggregation metric_name] = [''avg'']
                        then add_error (''Using default aggregation of avg for '' @ query')
                               ''WARN'' (NStr [])
                        else sreturn ()) (\<lambda>_. sreturn [get_metric_aggregation metric_name])
            else sreturn aggregations1) (\<lambda>aggregations.
     sbind (lift (get_conditions query' field_name)) (\<lambda>conditions.
     let divide_by_self = does_divide_by_self query' in
     if divide_by_self \<and> (conds_truthy conditions \<or> modifications \<noteq> [])
     then sraise (ValueError
            ''Unsupported query, divide by self combined with conditions or modifications'')
     else lift (format_expression cfg divide_by_self metric_name aggregations labels gb
                  modifications conditions alias_name)))))))"

text \<open>
  \<open>convert_subquery\<close>. The expression is written with \<open>re.VERBOSE\<close>:
  \<open>\s*SELECT\s+SUM\("(?P<outer_key>[a-z]+)"\)\s*FROM\s*\((?P<inner1>\s*SELECT\s*[^\s]+\s*)\<close>
  \<open>(AS\s\S+\s+)?(?P<inner2>.*)\s+GROUP\s+BY.*\)\s*(?P<outer_group>GROUP\sBY\s.*)\<close>.
  The function unpacks the four values \<open>convert_expression\<close> returns into three names,
  which raises \<open>ValueError\<close>: it never returns.
\<close>

definition re_subquery :: re where
  "re_subquery =
     seqs [many sp, str ''SELECT'', some sp, str ''SUM(\"'',
           RGrp 1 (some (RSet False [CRange CHR ''a'' CHR ''z''])), str ''\")'', many sp,
           str ''FROM'', many sp, RLit CHR ''('',
           RGrp 2 (seqs [many sp, str ''SELECT'', many sp, some (RSet True [CSpace]), many sp]),
           opt (RGrp 3 (seqs [str ''AS'', sp, some nsp, some sp])),
           RGrp 4 (many RDot), some sp, str ''GROUP'', some sp, str ''BY'', many RDot,
           RLit CHR '')'', many sp,
           RGrp 5 (seqs [str ''GROUP'', sp, str ''BY'', sp, many RDot])]"

definition convert_subquery :: "config \<Rightarrow> string
    \<Rightarrow> (string \<times> string list \<times> string list \<times> string option) comp" where
  "convert_subquery cfg query =
     (case re_match True re_subquery query of
        Some m \<Rightarrow>
          sbind (convert_expression cfg
                   (group_or_empty m 2 @ '' '' @ group_or_empty m 4 @ '' '' @ group_or_empty m 5))
            (\<lambda>r. sraise (ValueError ''too many values to unpack (expected 3)''))
      | None \<Rightarrow> sraise (ValueError ''Unsupported subquery in''))"

text \<open>
  \<open>convert_query\<close>. Its argument \<open>query\<close> is a string, or the tuple
  \<open>("not-influx-target", [], [])\<close> that \<open>convert_to_query\<close> returns for a target flagged as
  not being an Influx target: no member of the tuple equals \<open><>\<close> or \<open>(*)\<close>, and a tuple has
  no method \<open>lower\<close>.
\<close>

datatype query_arg = Query string | NotInfluxTuple

definition convert_query :: "config \<Rightarrow> query_arg \<Rightarrow> json \<Rightarrow> string
    \<Rightarrow> (json \<times> string list \<times> string list) comp" where
  "convert_query cfg query target legend =
     (case query of
        NotInfluxTuple \<Rightarrow> sraise (AttributeError ''tuple object has no attribute lower'')
      | Query q \<Rightarrow>
          if contains q ''<>'' then sraise (ValueError ''Unexpected <> found from query'')
          else if contains q ''(*)'' then sraise (ValueError ''Unsupported (*) query in {query!r}'')
          else
            sbind (if contains (lower q) ''from ('' then convert_subquery cfg q
                   else convert_expression cfg q) (\<lambda>(expr, over_times, fls, alias_name).
            sbind (lift (getitem target ''resultFormat'')) (\<lambda>fmt.
            sbind (if contains legend ''$col'' then
                     (if str_truthy alias_name then sreturn (replace ''$col'' (the alias_name) legend)
                      else sbind (add_error ''Alias not detected, not replacing $col'' ''WARN''
                                    (NStr [])) (\<lambda>_. sreturn legend))
                   else sreturn legend) (\<lambda>legend'.
            sbind (lift (getitem target ''refId'')) (\<lambda>ref_id.
            let new_target =
                  [(''expr'', JStr expr), (''format'', fmt),
                   (''instant'', JBool (fmt = JStr ''table'')), (''intervalFactor'', JInt 1),
                   (''refId'', ref_id), (''legendFormat'', JStr legend')] in
            sbind (lift (has_key ''hide'' target)) (\<lambda>has_hide.
            if has_hide then
              sbind (lift (getitem target ''hide'')) (\<lambda>hide.
              sreturn (JObj (new_target @ [(''hide'', hide)]), over_times, fls))
            else sreturn (JObj new_target, over_times, fls)))))))"

section \<open>From a structured target to a query\<close>

text \<open>
  \<open>convert_to_query\<close> writes the InfluxQL query of a target that is not a raw query. The
  items of a select are taken in the order of their lower-case type (\<open>sorted\<close> is stable).
  The text of an aggregation is made by \<open>str.format\<close> on a string that holds the field and
  the parameter: the model stops when these hold a brace.
\<close>

record select_vars =
  sv_value :: string
  sv_select_what :: string
  sv_alias :: json
  sv_modifications :: "json list"

definition item_key :: "json \<Rightarrow> error + string" where
  "item_key x = ebind (getitem x ''type'') (\<lambda>t. emap lower (as_str ''lower'' t))"

text \<open>\<open>sorted(select, key=lambda x: x["type"].lower())\<close>\<close>

definition sorted_by_type :: "json \<Rightarrow> error + json list" where
  "sorted_by_type select =
     ebind (iter select) (\<lambda>items.
     ebind (emapM item_key items) (\<lambda>keys.
     Inr (map snd (sort_key fst (zip keys items)))))"

definition first_param :: "json \<Rightarrow> error + json" where
  "first_param item = ebind (getitem item ''params'') first_item"

definition param_text :: "json \<Rightarrow> error + string" where
  "param_text item =
     ebind (first_param item) (\<lambda>p.
     ebind (as_str ''replace'' p) (\<lambda>t. Inr (replace ''::tag'' [] t)))"

definition has_brace :: "string \<Rightarrow> bool" where
  "has_brace t \<longleftrightarrow> CHR ''{'' \<in> set t \<or> CHR ''}'' \<in> set t"

definition select_item :: "json \<Rightarrow> json \<Rightarrow> select_vars \<Rightarrow> select_vars comp" where
  "select_item target item v =
     sbind (lift (getitem item ''type'')) (\<lambda>item_type.
     if item_type = JStr ''field'' then
       sbind (lift (param_text item)) (\<lambda>t. sreturn (v\<lparr>sv_value := t\<rparr>))
     else if item_type = JStr ''math'' then
       sbind (lift (ebind (getitem item ''params'') iter)) (\<lambda>ps.
       sreturn (v\<lparr>sv_modifications := sv_modifications v @ ps\<rparr>))
     else if (case item_type of JStr t \<Rightarrow> map_of AGGREGATION_MAP t \<noteq> None | _ \<Rightarrow> False) then
       sbind (lift (as_str ''type'' item_type)) (\<lambda>t.
       sbind (lift (getitem item ''params'')) (\<lambda>params.
       sbind (if truthy params
              then lift (ebind (first_item params) (\<lambda>p. ebind (py_str p) (\<lambda>pt.
                     Inr ('', '' @ replace ''::tag'' [] pt))))
              else sreturn []) (\<lambda>param_str.
       if sv_select_what v \<noteq> [] then
         sreturn (v\<lparr>sv_select_what := t @ ''('' @ sv_select_what v @ param_str @ '')''\<rparr>)
       else if t \<notin> {''max'', ''last''} then
         sbind (if truthy (sv_alias v)
                then lift (ebind (py_str (sv_alias v)) (\<lambda>a. Inr ('' AS \"'' @ a @ ''\"'')))
                else sreturn []) (\<lambda>alias_text.
         if has_brace (t @ sv_value v @ param_str)
         then sraise (Unmodelled ''str.format on a string with braces in its data'')
         else sreturn (v\<lparr>sv_select_what :=
                         t @ ''(\"'' @ sv_value v @ ''\"'' @ param_str @ '')'' @ alias_text\<rparr>))
       else sreturn v)))
     else if item_type = JStr ''alias'' then
       sbind (lift (first_param item)) (\<lambda>a. sreturn (v\<lparr>sv_alias := a\<rparr>))
     else if item_type = JStr ''distinct'' then
       sbind (add_error ''Dropping unsupported item type: distinct'' ''INFO'' (NStr []))
         (\<lambda>_. sreturn v)
     else sraise (ValueError ''Unknown item type''))"

fun sfold :: "('a \<Rightarrow> 'b \<Rightarrow> ('s, 'b) run) \<Rightarrow> 'a list \<Rightarrow> 'b \<Rightarrow> ('s, 'b) run" where
  "sfold f [] v = sreturn v"
| "sfold f (x # xs) v = sbind (f x v) (sfold f xs)"

definition select_items :: "json \<Rightarrow> json \<Rightarrow> select_vars \<Rightarrow> select_vars comp" where
  "select_items target select v =
     sbind (lift (sorted_by_type select)) (\<lambda>items. sfold (select_item target) items v)"

text \<open>The tags joined by \<open>OR\<close>: one regular expression on the one key they share.\<close>

definition tag_is :: "string \<Rightarrow> string \<Rightarrow> json \<Rightarrow> error + bool" where
  "tag_is field val tag = emap (\<lambda>v. v = JStr val) (dict_get tag field JNull)"

fun any_tag :: "(json \<Rightarrow> error + bool) \<Rightarrow> json list \<Rightarrow> error + bool" where
  "any_tag p [] = Inr False"
| "any_tag p (t # ts) = ebind (p t) (\<lambda>b. if b then Inr True else any_tag p ts)"

fun all_tags :: "(json \<Rightarrow> error + bool) \<Rightarrow> json list \<Rightarrow> error + bool" where
  "all_tags p [] = Inr True"
| "all_tags p (t # ts) = ebind (p t) (\<lambda>b. if b then all_tags p ts else Inr False)"

definition hashable :: "json \<Rightarrow> error + json" where
  "hashable v = (case v of JArr xs \<Rightarrow> Inl (TypeError ''unhashable type: list'')
                  | JObj kvs \<Rightarrow> Inl (TypeError ''unhashable type: dict'') | _ \<Rightarrow> Inr v)"

definition tag_value_text :: "json \<Rightarrow> error + string" where
  "tag_value_text tag =
     ebind (getitem tag ''value'') (\<lambda>v.
     ebind (as_str ''replace'' v) (\<lambda>t. Inr (replace ''::tag'' [] t)))"

definition cleaned_up_regex :: "json \<Rightarrow> error + (string \<times> bool \<times> bool)" where
  "cleaned_up_regex tag =
     ebind (tag_value_text tag) (\<lambda>t.
     let r0 = strip (replace ''/'' [] t);
         starts = startswith r0 ''^'';
         r1 = (if starts then tl r0 else ''.*'' @ r0);
         ends = endswith r1 ''$'';
         r2 = (if ends then butlast r1 else r1 @ ''.*'')
     in Inr (r2, starts, ends))"

definition or_tags :: "json list \<Rightarrow> string comp" where
  "or_tags tags =
     sbind (lift (emapM (\<lambda>tag. getitem tag ''key'') tags)) (\<lambda>keys.
     sbind (lift (emapM hashable keys)) (\<lambda>_.
     if length (remdups keys) \<noteq> 1 then
       sraise (ValueError ''Unsupported OR for tags with different key'')
     else
       sbind (lift (all_tags (tag_is ''operator'' ''='') tags)) (\<lambda>all_eq.
       sbind (if all_eq then sreturn False
              else sbind (lift (all_tags (tag_is ''operator'' ''=~'') tags)) (\<lambda>all_re.
                   if all_re then sreturn True
                   else sraise (ValueError ''Unsupported operator in OR tag''))) (\<lambda>regex_parsing.
       sbind (lift (py_str (hd keys))) (\<lambda>key.
       if regex_parsing then
         sbind (lift (emapM cleaned_up_regex tags)) (\<lambda>rs.
         let end_boundaries_count = length (filter (\<lambda>r. snd (snd r)) rs);
             start_boundaries_count = length (filter (\<lambda>r. fst (snd r)) rs) in
         sbind (if \<not> (end_boundaries_count = 0 \<or> end_boundaries_count = length rs)
                then add_error (''End boundaries are different - resulting regex can be ''
                       @ ''different than intended !!!! Skipping end boundary'') ''INFO'' (NStr [])
                else sreturn ()) (\<lambda>_.
         sbind (if \<not> (start_boundaries_count = 0 \<or> start_boundaries_count = length rs)
                then add_error (''Start boundaries are different - resulting regex can be ''
                       @ ''different than intended !!!! Skipping start boundary'') ''INFO'' (NStr [])
                else sreturn ()) (\<lambda>_.
         sreturn (''\"'' @ key @ ''\"=~/^('' @ join ''|'' (map fst rs) @ '')$/''))))
       else
         sbind (lift (emapM tag_value_text tags)) (\<lambda>values.
         sreturn (''\"'' @ key @ ''\"=~/^'' @ join ''|'' values @ ''$/'')))))))"

definition and_tag :: "json \<Rightarrow> error + string" where
  "and_tag tag =
     ebind (getitem tag ''operator'') (\<lambda>operator0.
     let operator = (if operator0 = JStr ''<>'' then JStr ''!='' else operator0) in
     ebind (getitem tag ''key'') (\<lambda>k.
     ebind (as_str ''replace'' k) (\<lambda>key.
     ebind (getitem tag ''value'') (\<lambda>v.
     ebind (py_str operator) (\<lambda>op.
     ebind (py_str v) (\<lambda>val.
     Inr (''\"'' @ replace ''::tag'' [] key @ ''\"'' @ op @ val)))))))"

definition where_items :: "json \<Rightarrow> string list comp" where
  "where_items target =
     sbind (lift (has_key ''tags'' target)) (\<lambda>has_tags.
     if has_tags then
       sbind (lift (ebind (getitem target ''tags'') iter)) (\<lambda>tags.
       sbind (lift (any_tag (tag_is ''condition'' ''OR'') tags)) (\<lambda>any_or.
       if any_or then sbind (or_tags tags) (\<lambda>w. sreturn [''$timeFilter'', w])
       else sbind (lift (emapM and_tag tags)) (\<lambda>ws. sreturn (''$timeFilter'' # ws))))
     else sreturn [''$timeFilter''])"

definition group_by_item :: "json \<Rightarrow> json \<Rightarrow> error + string list" where
  "group_by_item target grp =
     ebind (getitem grp ''type'') (\<lambda>t.
     if t = JStr ''time'' then
       ebind (first_param grp) (\<lambda>p. ebind (py_str p) (\<lambda>pt. Inr [''time('' @ pt @ '')'']))
     else if t = JStr ''tag'' then
       ebind (param_text grp) (\<lambda>pt. Inr [''\"'' @ pt @ ''\"''])
     else if t = JStr ''fill'' then Inr []
     else Inl (ValueError ''Unknown group type''))"

fun all_strings :: "json list \<Rightarrow> error + string list" where
  "all_strings [] = Inr []"
| "all_strings (JStr t # xs) = ebind (all_strings xs) (\<lambda>ts. Inr (t # ts))"
| "all_strings (x # xs) = Inl (TypeError ''sequence item: expected str instance'')"

definition convert_to_query :: "json \<Rightarrow> string \<Rightarrow> query_arg comp" where
  "convert_to_query target legend =
     sbind (lift (has_key ''not-influx-target'' target)) (\<lambda>flagged.
     sbind (if flagged then lift (emap truthy (getitem target ''not-influx-target''))
            else sreturn False) (\<lambda>flag.
     if flag then sreturn NotInfluxTuple
     else
       sbind (lift (dict_get target ''select'' JNull)) (\<lambda>sel.
       if sel = JNull then sraise (ValueError ''Dashboard is invalid, missing select field in target'')
       else
         sbind (lift (ebind (getitem target ''select'') iter)) (\<lambda>selects.
         sbind (sfold (select_items target) selects
                  \<lparr>sv_value = [], sv_select_what = [], sv_alias = JStr [], sv_modifications = []\<rparr>)
           (\<lambda>v.
         let select_what = (if sv_select_what v = [] then ''\"'' @ sv_value v @ ''\"''
                            else sv_select_what v) in
         sbind (where_items target) (\<lambda>ws.
         let wher = ''('' @ join '' AND '' ws @ '')'' in
         sbind (lift (ebind (getitem target ''groupBy'') iter)) (\<lambda>groups.
         sbind (lift (emapM (group_by_item target) groups)) (\<lambda>gs.
         let group_by_items = concat gs;
             group_by_text = (if group_by_items \<noteq> [] then '' GROUP BY '' @ join '','' group_by_items
                              else []) in
         sbind (lift (dict_get target ''measurement'' JNull)) (\<lambda>measurement.
         if \<not> truthy measurement
         then sraise (ValueError ''Missing measurement field for target, in dashboard'')
         else
           sbind (lift (all_strings (sv_modifications v))) (\<lambda>mods.
           sbind (lift (py_str measurement)) (\<lambda>mt.
           sreturn (Query (''SELECT '' @ select_what @ join '' '' mods @ '' FROM \"'' @ mt
                           @ ''\" WHERE '' @ wher @ group_by_text)))))))))))))"

section \<open>Which targets are Influx targets\<close>

text \<open>\<open>normalize_target_uid\<close> and the class \<open>AdvancedInfluxDetection\<close> of
  \<open>common/influx_detection.py\<close>. The registry of datasources is \<open>grafana_datasources\<close>.\<close>

definition normalize_target_uid :: "json \<Rightarrow> error + string" where
  "normalize_target_uid target =
     (if \<not> truthy target then Inr []
      else
        ebind (dict_get target ''datasource'' (JObj [])) (\<lambda>ds.
        ebind (has_key ''uid'' ds) (\<lambda>has_uid.
        ebind (if has_uid then emap Some (ebind (getitem target ''datasource'') (\<lambda>d. getitem d ''uid''))
               else (case ds of JStr t \<Rightarrow> emap Some (getitem target ''datasource'')
                     | _ \<Rightarrow> Inr None)) (\<lambda>uid.
        case uid of
          None \<Rightarrow> Inr []
        | Some u \<Rightarrow>
            ebind (as_str ''replace'' u) (\<lambda>t.
            Inr (replace ''}'' [] (replace ''{'' [] (replace ''$'' [] t))))))))"

definition basic_ds_type_check :: "json \<Rightarrow> error + bool" where
  "basic_ds_type_check target =
     ebind (has_key ''dsType'' target) (\<lambda>h.
     if h then emap (\<lambda>v. v = JStr ''influxdb'') (getitem target ''dsType'') else Inr False)"

definition influxdb_datasource_type :: "json \<Rightarrow> error + bool" where
  "influxdb_datasource_type target =
     ebind (basic_ds_type_check target) (\<lambda>b.
     if b then Inr True
     else
       ebind (has_key ''datasource'' target) (\<lambda>h.
       if \<not> h then Inr False
       else
         ebind (getitem target ''datasource'') (\<lambda>ds.
         ebind (has_key ''type'' ds) (\<lambda>ht.
         if \<not> ht then Inr False
         else emap (\<lambda>v. v = JStr ''influxdb'') (getitem ds ''type'')))))"

definition is_flux :: "json \<Rightarrow> error + bool" where
  "is_flux d =
     ebind (dict_get d ''jsonData'' (JObj [])) (\<lambda>jd.
     emap (\<lambda>v. v = JStr ''Flux'') (dict_get jd ''version'' (JStr [])))"

definition influxdb_like_by_uid :: "config \<Rightarrow> string \<Rightarrow> error + bool" where
  "influxdb_like_by_uid cfg uid =
     ebind (has_key uid (grafana_datasources cfg)) (\<lambda>h.
     if \<not> h then Inr False
     else
       ebind (getitem (grafana_datasources cfg) uid) (\<lambda>d.
       ebind (getitem d ''type'') (\<lambda>t.
       if t \<noteq> JStr ''influxdb'' then Inr False
       else emap Not (is_flux d))))"

fun matching_template :: "string \<Rightarrow> json list \<Rightarrow> error + bool" where
  "matching_template uid [] = Inr False"
| "matching_template uid (item # items) =
     ebind (getitem item ''name'') (\<lambda>n.
     if n \<noteq> JStr uid then matching_template uid items
     else
       ebind (getitem item ''type'') (\<lambda>t.
       if t \<noteq> JStr ''datasource'' then matching_template uid items
       else
         ebind (getitem item ''query'') (\<lambda>q.
         if q = JStr ''influxdb'' then Inr True else matching_template uid items)))"

text \<open>\<open>IndexError\<close>, \<open>KeyError\<close> and \<open>TypeError\<close> are caught and give \<open>False\<close>.\<close>

definition uid_matches_influx_templating :: "json \<Rightarrow> json \<Rightarrow> error + bool" where
  "uid_matches_influx_templating target templating =
     (case ebind (normalize_target_uid target) (\<lambda>uid.
           ebind (ebind (getitem templating ''list'') iter) (matching_template uid)) of
        Inl (IndexError m) \<Rightarrow> Inr False
      | Inl (KeyError m) \<Rightarrow> Inr False
      | Inl (TypeError m) \<Rightarrow> Inr False
      | r \<Rightarrow> r)"

text \<open>The datasources by name; of two with one name the later one stays.\<close>

definition ds_list_by_name :: "config \<Rightarrow> error + (json \<times> json) list" where
  "ds_list_by_name cfg =
     (case grafana_datasources cfg of
        JObj kvs \<Rightarrow>
          ebind (emapM (\<lambda>kv. ebind (getitem (snd kv) ''name'') (\<lambda>n.
                   emap (\<lambda>n'. (n', snd kv)) (hashable n))) kvs) (\<lambda>nvs. Inr (rev nvs))
      | _ \<Rightarrow> Inl (AttributeError ''object has no attribute items''))"

definition influxdb_like_by_ds_name :: "config \<Rightarrow> string \<Rightarrow> error + bool" where
  "influxdb_like_by_ds_name cfg ds =
     ebind (ds_list_by_name cfg) (\<lambda>by_name.
     case map_of by_name (JStr ds) of
       None \<Rightarrow> Inr False
     | Some d \<Rightarrow>
         ebind (getitem d ''type'') (\<lambda>t.
         if t \<noteq> JStr ''influxdb'' then Inr False
         else emap Not (is_flux d)))"

definition target_signals :: "config \<Rightarrow> json \<Rightarrow> json \<Rightarrow> error + bool" where
  "target_signals cfg target templating =
     ebind (normalize_target_uid target) (\<lambda>uid.
     ebind (dict_get target ''datasource'' (JObj [])) (\<lambda>ds.
     ebind (influxdb_datasource_type target) (\<lambda>a.
     if a then Inr True
     else
       ebind (influxdb_like_by_uid cfg uid) (\<lambda>b.
       if b then Inr True
       else
         ebind (uid_matches_influx_templating target templating) (\<lambda>c.
         if c then Inr True
         else
           ebind (case ds of JStr t \<Rightarrow> influxdb_like_by_ds_name cfg t | _ \<Rightarrow> Inr False) (\<lambda>d.
           if d then Inr True
           else influxdb_like_by_ds_name cfg uid))))))"

text \<open>When no signal of the target matches and the panel has a datasource, the signals are
  read once more on \<open>{"datasource": panel_datasource}\<close>.\<close>

definition is_target_influx :: "config \<Rightarrow> json \<Rightarrow> json \<Rightarrow> json \<Rightarrow> error + bool" where
  "is_target_influx cfg target templating panel_datasource =
     ebind (target_signals cfg target templating) (\<lambda>ret.
     if \<not> ret \<and> truthy panel_datasource
     then target_signals cfg (JObj [(''datasource'', panel_datasource)]) templating
     else Inr ret)"

section \<open>Targets\<close>

text \<open>\<open>(\[\[|\$)tag_([a-zA-Z_]+)(\]\]|)\<close>, replaced by \<open>{{ \2 }}\<close>, and
  \<open>\d+\w+\spercentile\<close>, replaced by \<open>Mean\<close>\<close>

definition re_tag_alias :: re where
  "re_tag_alias =
     seqs [RGrp 1 (RAlt (str ''[['') (RLit CHR ''$'')), str ''tag_'',
           RGrp 2 (some (RSet False [CRange CHR ''a'' CHR ''z'', CRange CHR ''A'' CHR ''Z'',
                                     CChar CHR ''_''])),
           RGrp 3 (RAlt (str '']]'') REps)]"

definition re_percentile :: re where
  "re_percentile = seqs [some dg, some wd, sp, str ''percentile'']"

definition re_input :: "json \<Rightarrow> error + string" where
  "re_input v = (case v of JStr t \<Rightarrow> Inr t
                 | _ \<Rightarrow> Inl (TypeError ''expected string or bytes-like object''))"

definition get_legend_format :: "json \<Rightarrow> string comp" where
  "get_legend_format target =
     sbind (lift (ebind (dict_get target ''alias'' (JStr [])) re_input)) (\<lambda>alias.
     let legend0 = re_sub False re_tag_alias (\<lambda>m. ''{{ '' @ group_or_empty m 2 @ '' }}'') None alias;
         legend = re_sub False re_percentile (\<lambda>m. ''Mean'') None legend0 in
     (\<lambda>s. case group_by_labels s of
             Some labels \<Rightarrow>
               if legend = [] \<and> labels \<noteq> []
               then (Inr (join '' '' (map (\<lambda>label. ''{{'' @ label @ ''}}'') labels)), s)
               else (Inr legend, s)
           | None \<Rightarrow> (Inr legend, s)))"

definition target_note :: "json \<Rightarrow> error + err_note" where
  "target_note target =
     ebind (has_key ''refId'' target) (\<lambda>h.
     if h then ebind (getitem target ''refId'') (\<lambda>r. ebind (py_str r) (\<lambda>t.
            Inr (NStr (''target='' @ t))))
     else Inr (NStr ''target unknown''))"

text \<open>\<open>  +\<close>: two spaces or more\<close>

definition re_spaces :: re where
  "re_spaces = seqs [RLit CHR '' '', some (RLit CHR '' '')]"

text \<open>The body of the loop of \<open>convert_targets\<close>: the new target, its time windows and its
  fill policies.\<close>

definition convert_target :: "config \<Rightarrow> json \<Rightarrow> json \<Rightarrow> (json \<times> string list \<times> string list) comp" where
  "convert_target cfg old_panel_datasource target =
     (\<lambda>s. sbind (lift (is_target_influx cfg target (context_templating s) old_panel_datasource))
       (\<lambda>influx.
        if influx then
          sbind (get_legend_format target) (\<lambda>legend0.
          let legend = (if legend0 \<noteq> [] then replace_invalid_metric_characters legend0
                        else legend0) in
          sbind (lift (dict_get target ''rawQuery'' JNull)) (\<lambda>raw.
          sbind (if truthy raw then
                   sbind (lift (ebind (getitem target ''query'') (as_str ''replace''))) (\<lambda>q.
                   convert_query cfg
                     (Query (re_sub False re_spaces (\<lambda>m. '' '') None (replace [CHR 0x0A] '' '' q)))
                     target legend)
                 else
                   sbind (convert_to_query target legend) (\<lambda>query.
                   convert_query cfg query target legend)) (\<lambda>(new_target, over_times, fls).
          if new_target = JStr ''not-influx-target'' then sreturn (target, [], [])
          else sreturn (new_target, over_times, fls))))
        else
          sbind (lift (target_note target)) (\<lambda>n.
          sbind (add_error ''Skipping target - not Influx or is Flux'' ''DEBUG'' n) (\<lambda>_.
          sbind (lift (setitem target ''not-influx-target'' (JBool True))) (\<lambda>new_target.
          sreturn (new_target, [], []))))) s)"

fun convert_targets_loop :: "config \<Rightarrow> json \<Rightarrow> json list
    \<Rightarrow> (json list \<times> string list \<times> string list) comp" where
  "convert_targets_loop cfg pd [] = sreturn ([], [], [])"
| "convert_targets_loop cfg pd (target # targets) =
     sbind (convert_target cfg pd target) (\<lambda>(new_target, over_times, fls).
     sbind (convert_targets_loop cfg pd targets) (\<lambda>(new_targets, r_over_times, r_fills).
     sreturn (new_target # new_targets, over_times @ r_over_times, fls @ r_fills)))"

definition convert_targets :: "config \<Rightarrow> json \<Rightarrow> json
    \<Rightarrow> (json list \<times> string list \<times> string list) comp" where
  "convert_targets cfg targets old_panel_datasource =
     sbind (lift (iter targets)) (convert_targets_loop cfg old_panel_datasource)"

section \<open>The index of metrics\<close>

text \<open>\<open>get_metric_field_from_select\<close>: the first parameter of the first item of type
  \<open>field\<close> in the first select, or \<open>None\<close>.\<close>

fun first_field :: "json list \<Rightarrow> error + json" where
  "first_field [] = Inr JNull"
| "first_field (item # items) =
     ebind (getitem item ''type'') (\<lambda>t.
     if t = JStr ''field'' then first_param item else first_field items)"

definition get_metric_field_from_select :: "json \<Rightarrow> error + json" where
  "get_metric_field_from_select select =
     ebind (ebind (first_item select) iter) first_field"

text \<open>\<open>a + b\<close> where \<open>b\<close> is a string.\<close>

definition str_plus :: "json \<Rightarrow> string \<Rightarrow> error + string" where
  "str_plus a b = (case a of JStr t \<Rightarrow> Inr (t @ b)
                   | _ \<Rightarrow> Inl (TypeError ''unsupported operand type(s) for +''))"

definition target_metric_name :: "json \<Rightarrow> string comp" where
  "target_metric_name old_target =
     sbind (lift (has_key ''rawQuery'' old_target)) (\<lambda>has_raw.
     sbind (if has_raw then lift (emap (\<lambda>v. v = JBool True) (getitem old_target ''rawQuery''))
            else sreturn False) (\<lambda>raw.
     if raw then
       sbind (lift (ebind (getitem old_target ''query'') re_input)) (\<lambda>q.
       sbind (lift (get_metric_name q)) (\<lambda>(metric_name, field_name).
       sreturn (metric_name @ field_name)))
     else
       sbind (\<lambda>s. case ebind (getitem old_target ''measurement'') (\<lambda>m. str_plus m ''_'') of
                     Inl e \<Rightarrow> sbind (add_error ''Missing measurement field'' ''INFO''
                                       (NRepr old_target)) (\<lambda>_. sraise e) s
                   | Inr n \<Rightarrow> (Inr n, s)) (\<lambda>metric_name.
       sbind (lift (ebind (getitem old_target ''select'') get_metric_field_from_select))
         (\<lambda>field_name.
       if truthy field_name then
         lift (case field_name of JStr f \<Rightarrow> Inr (metric_name @ f)
               | _ \<Rightarrow> Inl (TypeError ''can only concatenate str to str''))
       else
         sbind (add_error ''Missing field name'' ''INFO'' (NRepr old_target)) (\<lambda>_.
         sraise (ValueError ''Missing field name''))))))"

text \<open>
  The entry of a target in \<open>metric_to_objects\<close>. When the metric already has a list for
  the dashboard, the first \<open>append\<close> succeeds and the one after the \<open>try\<close> appends the
  target once more; otherwise the list is made and the target is appended once.
\<close>

definition index_add :: "string \<Rightarrow> json \<Rightarrow> json
    \<Rightarrow> (string \<times> (json \<times> json list) list) list \<Rightarrow> (string \<times> (json \<times> json list) list) list" where
  "index_add metric_name dashboard obj index =
     (case map_of index metric_name of
        None \<Rightarrow> index @ [(metric_name, [(dashboard, [obj])])]
      | Some by_dashboard \<Rightarrow>
          (case map_of by_dashboard dashboard of
             Some objs \<Rightarrow>
               AList.update metric_name
                 (AList.update dashboard (objs @ [obj, obj]) by_dashboard) index
           | None \<Rightarrow>
               AList.update metric_name
                 (if by_dashboard = [] then [(dashboard, [obj])]
                  else AList.update dashboard [obj] by_dashboard) index))"

definition add_target_to_index :: "config \<Rightarrow> json \<Rightarrow> json \<times> json \<Rightarrow> unit comp" where
  "add_target_to_index cfg old_panel_datasource p =
     (\<lambda>s. sbind (lift (is_target_influx cfg (fst p) (context_templating s) old_panel_datasource))
       (\<lambda>influx.
        if \<not> influx then
          sbind (lift (target_note (fst p))) (\<lambda>n.
          add_error ''Skipping target - not Influx or is Flux'' ''DEBUG'' n)
        else
          sbind (target_metric_name (fst p)) (\<lambda>metric_name0.
          let metric_name = replace_invalid_metric_characters metric_name0 in
          (\<lambda>s'. sbind (lift (hashable (current_dashboard s'))) (\<lambda>d.
                   modify (\<lambda>t. t\<lparr>metric_to_objects :=
                              index_add metric_name d (snd p) (metric_to_objects t)\<rparr>)) s'))) s)"

fun sforeach :: "('a \<Rightarrow> ('s, unit) run) \<Rightarrow> 'a list \<Rightarrow> ('s, unit) run" where
  "sforeach f [] = sreturn ()"
| "sforeach f (x # xs) = sbind (f x) (\<lambda>_. sforeach f xs)"

definition add_to_metric_and_object_list :: "config \<Rightarrow> json \<Rightarrow> json list \<Rightarrow> json \<Rightarrow> unit comp" where
  "add_to_metric_and_object_list cfg old_targets new_targets old_panel_datasource =
     sbind (lift (iter old_targets)) (\<lambda>olds.
     sforeach (add_target_to_index cfg old_panel_datasource) (zip olds new_targets))"

section \<open>Alerts and series overrides\<close>

definition notification_id_lookup :: "(int \<times> string) list \<Rightarrow> json \<Rightarrow> error + string option" where
  "notification_id_lookup m k =
     (case k of
        JInt i \<Rightarrow> Inr (map_of m i)
      | JBool b \<Rightarrow> Inr (map_of m (if b then 1 else 0))
      | JArr xs \<Rightarrow> Inl (TypeError ''unhashable type: list'')
      | JObj kvs \<Rightarrow> Inl (TypeError ''unhashable type: dict'')
      | _ \<Rightarrow> Inr None)"

definition uid_lookup :: "config \<Rightarrow> json \<Rightarrow> error + string option" where
  "uid_lookup cfg n_uid =
     (case n_uid of
        JStr t \<Rightarrow>
          (case py_int t of
             Inr i \<Rightarrow> Inr (map_of (the (alert_notifications_map cfg)) i)
           | Inl (ValueError m) \<Rightarrow> Inr (map_of (the (alert_notifications_uid_map cfg)) t)
           | Inl e \<Rightarrow> Inl e)
      | JInt i \<Rightarrow> Inr (map_of (the (alert_notifications_map cfg)) i)
      | JBool b \<Rightarrow> Inr (map_of (the (alert_notifications_map cfg)) (if b then 1 else 0))
      | _ \<Rightarrow> Inl (TypeError ''int() argument must be a string or a real number''))"

definition new_notification_uid :: "config \<Rightarrow> json \<Rightarrow> error + string" where
  "new_notification_uid cfg notification =
     ebind (dict_get notification ''id'' JNull) (\<lambda>n_id.
     ebind (if truthy n_id then notification_id_lookup (the (alert_notifications_map cfg)) n_id
            else Inr None) (\<lambda>by_id.
     ebind (case by_id of
              Some u \<Rightarrow> Inr (Some u)
            | None \<Rightarrow> ebind (getitem notification ''uid'') (uid_lookup cfg)) (\<lambda>new_uid.
     case new_uid of
       None \<Rightarrow> Inl (ValueError ''Alert mapping for notification missing'')
     | Some u \<Rightarrow> Inr u)))"

fun new_notifications :: "config \<Rightarrow> json list \<Rightarrow> json list \<Rightarrow> error + json list" where
  "new_notifications cfg [] acc = Inr acc"
| "new_notifications cfg (notification # ns) acc =
     ebind (new_notification_uid cfg notification) (\<lambda>u.
     let new_notification = JObj [(''uid'', JStr u)] in
     new_notifications cfg ns
       (if new_notification \<in> set acc then acc else acc @ [new_notification]))"

definition map_truthy :: "'a list option \<Rightarrow> bool" where
  "map_truthy m = (case m of None \<Rightarrow> False | Some kvs \<Rightarrow> kvs \<noteq> [])"

definition convert_alerts :: "config \<Rightarrow> json \<Rightarrow> error + json" where
  "convert_alerts cfg alert =
     (if \<not> map_truthy (alert_notifications_map cfg) \<or> \<not> map_truthy (alert_notifications_uid_map cfg)
      then delitem alert ''notifications''
      else
        ebind (getitem alert ''name'') (\<lambda>name.
        ebind (py_str name) (\<lambda>nt.
        ebind (setitem alert ''name'' (JStr (nt @ '' (M3)''))) (\<lambda>alert1.
        ebind (ebind (getitem alert1 ''notifications'') iter) (\<lambda>ns.
        ebind (new_notifications cfg ns []) (\<lambda>notifications.
        setitem alert1 ''notifications'' (JArr notifications)))))))"

text \<open>\<open>dict(override)\<close> is modelled for an override that is a dict.\<close>

definition convert_series_override :: "json \<Rightarrow> error + json" where
  "convert_series_override override =
     (case override of
        JObj kvs \<Rightarrow>
          ebind (dict_get override ''alias'' JNull) (\<lambda>a.
          if truthy a then
            ebind (re_input a) (\<lambda>t.
            setitem override ''alias''
              (JStr (re_sub False re_percentile (\<lambda>m. ''Mean'') None t)))
          else Inr override)
      | _ \<Rightarrow> Inl (Unmodelled ''dict() of a value that is not a dict''))"

definition convert_series_overrides :: "json \<Rightarrow> error + json" where
  "convert_series_overrides overrides =
     ebind (iter overrides) (\<lambda>os. emap JArr (emapM convert_series_override os))"

section \<open>Panels\<close>

text \<open>
  \<open>convert_panel\<close> changes the panel in place, also when it raises later on. The part of
  it under \<open>try\<close> is a computation on the panel and the state of the converter: \<open>on_state\<close>
  runs a computation of the converter in it, \<open>the_panel\<close> reads the panel and \<open>set_panel\<close>
  assigns to one of its keys.
\<close>

definition on_state :: "'a comp \<Rightarrow> (json \<times> state, 'a) run" where
  "on_state m ps = (case m (snd ps) of (r, s') \<Rightarrow> (r, (fst ps, s')))"

definition the_panel :: "(json \<times> state, json) run" where
  "the_panel ps = (Inr (fst ps), ps)"

definition set_panel :: "string \<Rightarrow> json \<Rightarrow> (json \<times> state, unit) run" where
  "set_panel k v ps =
     (case setitem (fst ps) k v of Inl e \<Rightarrow> (Inl e, ps) | Inr p' \<Rightarrow> (Inr (), (p', snd ps)))"

text \<open>The time windows that stay for the interval of the panel. The set \<open>over_times\<close> is
  gone through in the order of \<open>set_order\<close>, both where the windows dropped are reported and
  where the durations are read for \<open>max\<close>.\<close>

definition funny_interval :: "string \<Rightarrow> bool" where
  "funny_interval item \<longleftrightarrow>
     contains item ''$__interval'' \<or> contains item ''$Interval''
     \<or> contains item ''$unite_interval'' \<or> contains item ''$__rate_interval''"

definition infer_interval :: "config \<Rightarrow> string list \<Rightarrow> (json \<times> state, unit) run" where
  "infer_interval cfg over_times_list =
     (let over_times0 = filter (\<lambda>t. t \<notin> {''$interval'', ''$__interval'', ''$__rate_interval''})
                          (set_order cfg (rev (remdups (rev over_times_list))));
          over_times = filter (\<lambda>t. \<not> funny_interval t) over_times0 in
      sbind (sforeach (\<lambda>item. on_state (add_error ''Dropping unsupported interval'' ''INFO'' (NStr item)))
               (filter funny_interval over_times0)) (\<lambda>_.
      sbind the_panel (\<lambda>panel.
      sbind (lift (dict_get panel ''interval'' JNull)) (\<lambda>interval.
      if over_times \<noteq> [] \<and> \<not> truthy interval \<and> ''$__range'' \<notin> set over_times then
        sbind (lift (emapM duration_to_seconds over_times)) (\<lambda>secs.
        let over_time_seconds = fold max (tl secs) (hd secs) in
        if over_time_seconds \<noteq> SCRAPE_INTERVAL_SECONDS
        then sbind (lift (seconds_to_duration over_time_seconds)) (\<lambda>interval.
             set_panel ''interval'' (JStr interval))
        else sreturn ())
      else sreturn ()))))"

definition infer_null_mode :: "string list \<Rightarrow> (json \<times> state, unit) run" where
  "infer_null_mode fills_list =
     (let fills0 = filter (\<lambda>f. f \<noteq> ''null'') (remdups fills_list);
          fills1 = filter (\<lambda>f. f \<noteq> ''0'') fills0 in
      sbind (if ''0'' \<in> set fills0 then set_panel ''nullPointMode'' (JStr ''null as zero'')
             else sreturn ()) (\<lambda>_.
      if fills1 \<noteq> [] then on_state (add_error ''Unsupported fills'' ''INFO'' (NSet fills1))
      else sreturn ()))"

definition panel_targets :: "config \<Rightarrow> json \<Rightarrow> (json \<times> state, unit) run" where
  "panel_targets cfg old_panel_datasource =
     sbind the_panel (\<lambda>panel.
     sbind (lift (getitem panel ''targets'')) (\<lambda>old_targets.
     sbind (on_state (convert_targets cfg old_targets old_panel_datasource))
       (\<lambda>(targets, over_times_list, fills_list).
     sbind (on_state (add_to_metric_and_object_list cfg old_targets targets old_panel_datasource))
       (\<lambda>_.
     sbind (set_panel ''targets'' (JArr targets)) (\<lambda>_.
     sbind (infer_interval cfg over_times_list) (\<lambda>_.
     infer_null_mode fills_list))))))"

definition panel_alert :: "config \<Rightarrow> (json \<times> state, unit) run" where
  "panel_alert cfg =
     sbind the_panel (\<lambda>panel.
     sbind (lift (getitem panel ''alert'')) (\<lambda>alert.
     sbind (lift (getitem panel ''title'')) (\<lambda>title.
     sbind (lift (convert_alerts cfg alert)) (\<lambda>alert'.
     set_panel ''alert'' alert'))))"

text \<open>The statements under \<open>try\<close>.\<close>

definition panel_try :: "config \<Rightarrow> json \<Rightarrow> (json \<times> state, unit) run" where
  "panel_try cfg old_panel_datasource =
     sbind the_panel (\<lambda>panel.
     sbind (lift (has_key ''targets'' panel)) (\<lambda>has_targets.
     sbind (if has_targets then panel_targets cfg old_panel_datasource else sreturn ()) (\<lambda>_.
     sbind the_panel (\<lambda>panel'.
     sbind (lift (has_key ''alert'' panel')) (\<lambda>has_alert.
     if has_alert then panel_alert cfg else sreturn ())))))"

text \<open>The handler \<open>except ValueError\<close>, and the series overrides after it.\<close>

definition panel_except :: "string \<Rightarrow> (json \<times> state, unit) run" where
  "panel_except ex =
     sbind the_panel (\<lambda>panel.
     sbind (lift (dict_pop panel ''targets'')) (\<lambda>p1.
     sbind (lift (dict_pop p1 ''alert'')) (\<lambda>p2.
     sbind (\<lambda>ps. (Inr (), (p2, snd ps))) (\<lambda>_.
     on_state (add_error (''Unable to convert - '' @ ex) ''ERROR'' (NStr ex))))))"

definition panel_overrides :: "(json \<times> state, unit) run" where
  "panel_overrides =
     sbind the_panel (\<lambda>panel.
     sbind (lift (dict_get panel ''seriesOverrides'' JNull)) (\<lambda>so.
     if truthy so then
       sbind (lift (convert_series_overrides so)) (\<lambda>so'. set_panel ''seriesOverrides'' so')
     else sreturn ()))"

definition panel_try_except :: "config \<Rightarrow> json \<Rightarrow> (json \<times> state, unit) run" where
  "panel_try_except cfg old_panel_datasource ps =
     (case panel_try cfg old_panel_datasource ps of
        (Inl (ValueError ex), ps') \<Rightarrow> panel_except ex ps'
      | r \<Rightarrow> r)"

text \<open>The datasource of the panel: the old one is kept for the classification of the
  targets. The result is \<open>None\<close> where \<open>convert_panel\<close> returns at once.\<close>

definition datasource_key :: "config \<Rightarrow> json \<Rightarrow> error + json option" where
  "datasource_key cfg datasource =
     ebind (hashable datasource) (\<lambda>d.
     Inr (map_of (the (datasource_map cfg)) d))"

definition panel_datasource :: "config \<Rightarrow> (json \<times> state, json option) run" where
  "panel_datasource cfg =
     sbind the_panel (\<lambda>panel.
     sbind (lift (has_key ''datasource'' panel)) (\<lambda>has_ds.
     sbind (if has_ds then lift (getitem panel ''datasource'') else sreturn JNull) (\<lambda>ds.
     let old_panel_datasource = (if has_ds \<and> ds \<noteq> JNull then ds
                                 else JObj [(''type'', JStr ''influxdb'')]) in
     if truthy (replacement_datasource cfg) then
       sbind (if has_ds then set_panel ''datasource'' (replacement_datasource cfg)
              else sreturn ()) (\<lambda>_. sreturn (Some old_panel_datasource))
     else if map_truthy (datasource_map cfg) then
       sbind (lift (dict_get panel ''datasource'' JNull)) (\<lambda>datasource.
       sbind (if truthy datasource then
                (case datasource of
                   JObj kvs \<Rightarrow> sreturn True
                 | _ \<Rightarrow> lift (emap (\<lambda>v. v = None) (datasource_key cfg datasource)))
              else sreturn False) (\<lambda>leave.
       if leave then sreturn None
       else
         sbind (lift (datasource_key cfg datasource)) (\<lambda>v.
         case v of
           None \<Rightarrow> sraise (KeyError ''datasource'')
         | Some d \<Rightarrow> sbind (set_panel ''datasource'' d) (\<lambda>_. sreturn (Some old_panel_datasource)))))
     else sreturn (Some old_panel_datasource))))"

text \<open>\<open>convert_panel\<close> for a panel that is not a row, after the context is set.\<close>

definition convert_plain_panel :: "config \<Rightarrow> (json \<times> state, unit) run" where
  "convert_plain_panel cfg =
     sbind (panel_datasource cfg) (\<lambda>pd.
     case pd of
       None \<Rightarrow> sreturn ()
     | Some old_panel_datasource \<Rightarrow>
         sbind (panel_try_except cfg old_panel_datasource) (\<lambda>_. panel_overrides))"

definition panel_context :: "json \<Rightarrow> unit comp" where
  "panel_context panel =
     sbind (lift (getitem panel ''id'')) (\<lambda>pid.
     sbind (lift (has_key ''title'' panel)) (\<lambda>has_title.
     sbind (lift (if has_title then getitem panel ''title'' else getitem panel ''id'')) (\<lambda>title.
     modify (\<lambda>s. s\<lparr>context_panel := Some (JObj [(''id'', pid), (''title'', title)])\<rparr>))))"

definition run_on :: "(json \<times> state, unit) run \<Rightarrow> json \<Rightarrow> json comp" where
  "run_on m v s =
     (case m (v, s) of
        (Inl e, ps) \<Rightarrow> (Inl e, snd ps)
      | (Inr u, ps) \<Rightarrow> (Inr (fst ps), snd ps))"

text \<open>
  \<open>convert_panel\<close> and \<open>convert_panels\<close>. A panel of type \<open>row\<close> holds panels of its
  own, which are converted in place; the recursion ends because they are parts of the row.
\<close>

lemma size_dict_get:
  "dict_get panel k (JArr []) = Inr (JArr ps) \<Longrightarrow> size_list size ps < size panel"
proof (cases panel)
  case (JObj kvs)
  assume a: "dict_get panel k (JArr []) = Inr (JArr ps)"
  show ?thesis
  proof (cases "map_of kvs k")
    case None
    with a JObj show ?thesis by simp
  next
    case (Some v)
    with a JObj have v: "v = JArr ps" by simp
    from Some have "(k, v) \<in> set kvs" by (rule map_of_SomeD)
    then have "size_prod (\<lambda>_. 0) size (k, v) \<le> size_list (size_prod (\<lambda>_. 0) size) kvs"
      by (simp add: size_list_estimation')
    with v JObj show ?thesis by simp
  qed
qed (simp_all)

definition row_result :: "json \<Rightarrow> json list \<Rightarrow> json" where
  "row_result panel ps =
     (case panel of
        JObj kvs \<Rightarrow> if ''panels'' \<in> set (map fst kvs) then JObj (set_kv ''panels'' (JArr ps) kvs)
                    else panel
      | _ \<Rightarrow> panel)"

function convert_panel :: "config \<Rightarrow> json \<Rightarrow> json comp"
  and convert_panels :: "config \<Rightarrow> json list \<Rightarrow> json list comp" where
  "convert_panel cfg panel s =
     (case panel_context panel s of
        (Inl e, s1) \<Rightarrow> (Inl e, s1)
      | (Inr u, s1) \<Rightarrow>
          (case getitem panel ''type'' of
             Inl e \<Rightarrow> (Inl e, s1)
           | Inr t \<Rightarrow>
               if t = JStr ''row'' then
                 (case dict_get panel ''panels'' (JArr []) of
                    Inl e \<Rightarrow> (Inl e, s1)
                  | Inr (JArr ps) \<Rightarrow>
                      (case convert_panels cfg ps s1 of
                         (Inl e, s2) \<Rightarrow> (Inl e, s2)
                       | (Inr ps', s2) \<Rightarrow> (Inr (row_result panel ps'), s2))
                  | Inr other \<Rightarrow>
                      (case iter other of
                         Inl e \<Rightarrow> (Inl e, s1)
                       | Inr [] \<Rightarrow> (Inr panel, s1)
                       | Inr (x # xs) \<Rightarrow>
                           sbind (panel_context x)
                             (\<lambda>_. sraise (Unmodelled ''a panel that is not a dict'')) s1))
               else run_on (convert_plain_panel cfg) panel s1))"
| "convert_panels cfg [] s = (Inr [], s)"
| "convert_panels cfg (panel # panels) s =
     (case convert_panel cfg panel s of
        (Inl e, s1) \<Rightarrow> (Inl e, s1)
      | (Inr panel', s1) \<Rightarrow>
          (case convert_panels cfg panels s1 of
             (Inl e, s2) \<Rightarrow> (Inl e, s2)
           | (Inr panels', s2) \<Rightarrow> (Inr (panel' # panels'), s2)))"
  by pat_completeness auto
termination
  by (relation "measure (\<lambda>x. case x of Inl (cfg, panel, s) \<Rightarrow> size panel
                               | Inr (cfg, ps, s) \<Rightarrow> size_list size ps)")
     (auto dest: size_dict_get)


section \<open>Template variables\<close>

text \<open>
  The three shapes of a discovery query that \<open>convert_templating\<close> reads, each searched
  with \<open>re.IGNORECASE\<close>; group 1 is \<open>tag\<close>, group 2 is \<open>key\<close>:
  \<open>SHOW TAG VALUES FROM ['|\"]?(?P<tag>.+?)['|\"]? WITH KEY\s?=\s?['|\"\ ](?P<key>.+?)(?:['|\"\ ]|$)\<close>,
  \<open>SHOW TAG VALUES WITH KEY\s?=\s?['|\"\ ](?P<key>.*?)(?:['|\"\ ]|$)\<close> and
  \<open>show tag values from (?P<tag>.+?) with key\s?=~\s+\/(?P<key>.+?)\/\<close>.
\<close>

definition quote_or_bar :: re where
  "quote_or_bar = one_of [CHR 0x27, CHR ''|'', CHR 0x22]"

definition quote_bar_or_space :: re where
  "quote_bar_or_space = one_of [CHR 0x27, CHR ''|'', CHR 0x22, CHR '' '']"

definition re_tag_values_from :: re where
  "re_tag_values_from =
     seqs [str ''SHOW TAG VALUES FROM '', opt quote_or_bar, RGrp 1 (some_lazy RDot),
           opt quote_or_bar, str '' WITH KEY'', opt sp, RLit CHR ''='', opt sp,
           quote_bar_or_space, RGrp 2 (some_lazy RDot), RAlt quote_bar_or_space REos]"

definition re_tag_values :: re where
  "re_tag_values =
     seqs [str ''SHOW TAG VALUES WITH KEY'', opt sp, RLit CHR ''='', opt sp,
           quote_bar_or_space, RGrp 2 (many_lazy RDot), RAlt quote_bar_or_space REos]"

definition re_tag_values_regex :: re where
  "re_tag_values_regex =
     seqs [str ''show tag values from '', RGrp 1 (some_lazy RDot), str '' with key'', opt sp,
           str ''=~'', some sp, RLit CHR ''/'', RGrp 2 (some_lazy RDot), RLit CHR ''/'']"

text \<open>The match of a discovery query; the warning is recorded whenever the first two
  shapes fail.\<close>

definition discovery_match :: "string \<Rightarrow> match option comp" where
  "discovery_match query =
     (case re_search True re_tag_values_from query of
        Some m \<Rightarrow> sreturn (Some m)
      | None \<Rightarrow>
          (case re_search True re_tag_values query of
             Some m \<Rightarrow> sreturn (Some m)
           | None \<Rightarrow>
               sbind (add_error
                        (''REGEXP show tag values is not supported in Prometheus, ''
                         @ ''converting to STATIC'') ''WARN'' (NStr []))
                 (\<lambda>_. sreturn (re_search True re_tag_values_regex query))))"

definition discovery_metric :: "string option \<Rightarrow> string option" where
  "discovery_metric tag =
     (case tag of
        None \<Rightarrow> None
      | Some t \<Rightarrow>
          if t = [] then Some t
          else
            let m1 = replace_invalid_metric_characters t;
                m2 = (if startswith m1 ''/'' then replace ''/'' [] m1 else m1);
                m3 = (if contains (lower m2) ''.*''
                      then replace '')'' [] (replace ''('' [] (replace ''.*'' [] m2)) else m2)
            in Some m3)"

text \<open>
  What the loop of \<open>convert_templating\<close> does with one variable: it leaves it as it is
  (\<open>Kept\<close>), or rewrites it and may record its metric for the back-fill (\<open>Rewritten\<close>), or
  marks it for deletion (\<open>Deleted\<close>, with the variable as changed so far).
\<close>

datatype template_step = Kept json | Rewritten json "string option" | Deleted json

definition template_datasource :: "config \<Rightarrow> json \<Rightarrow> error + json option" where
  "template_datasource cfg item =
     (if truthy (replacement_datasource cfg)
      then emap Some (setitem item ''datasource'' (replacement_datasource cfg))
      else if map_truthy (datasource_map cfg) then
        ebind (getitem item ''datasource'') (\<lambda>datasource.
        case datasource of
          JObj kvs \<Rightarrow> Inr None
        | _ \<Rightarrow>
            ebind (datasource_key cfg datasource) (\<lambda>v.
            emap Some (setitem item ''datasource'' (case v of None \<Rightarrow> datasource | Some d \<Rightarrow> d))))
      else Inr (Some item))"

definition discovery_query :: "json \<Rightarrow> error + string" where
  "discovery_query item =
     ebind (getitem item ''query'') (\<lambda>query.
     ebind (case query of
              JObj kvs \<Rightarrow>
                ebind (dict_get query ''query'' JNull) (\<lambda>q.
                if truthy q then getitem query ''query'' else Inr query)
            | _ \<Rightarrow> Inr query) (\<lambda>q. as_str ''lower'' q))"

text \<open>The test of the loop for a variable to drop, read on the variable as it is given: it
  is of type \<open>query\<close> and its query, in lower case, starts with \<open>show field keys\<close>.\<close>

definition is_field_keys_query :: "json \<Rightarrow> bool" where
  "is_field_keys_query item \<longleftrightarrow>
     getitem item ''type'' = Inr (JStr ''query'')
     \<and> (case discovery_query item of
          Inr query \<Rightarrow> startswith (lower query) ''show field keys''
        | Inl e \<Rightarrow> False)"

definition convert_template_query :: "config \<Rightarrow> json \<Rightarrow> template_step comp" where
  "convert_template_query cfg item =
     sbind (lift (template_datasource cfg item)) (\<lambda>item1.
     case item1 of
       None \<Rightarrow> sreturn (Kept item)
     | Some item2 \<Rightarrow>
         sbind (lift (setitem item2 ''sort'' (JInt 3))) (\<lambda>item3.
         sbind (lift (discovery_query item3)) (\<lambda>query.
         if startswith (lower query) ''show field keys'' then sreturn (Deleted item3)
         else
           sbind (discovery_match query) (\<lambda>mo.
           case mo of
             None \<Rightarrow> sraise (ValueError ''Unable to find tag values or key from'')
           | Some m \<Rightarrow>
               let key = replace_invalid_metric_characters (group_or_empty m 2);
                   metric0 = discovery_metric (group m 1);
                   metric1 = (case metric0 of
                                None \<Rightarrow> None
                              | Some t \<Rightarrow>
                                  (case map_of TEMPLATING_METRIC_STATIC_CONVERSION t of
                                     Some c \<Rightarrow> Some c
                                   | None \<Rightarrow> Some t));
                   metric = (if str_truthy metric1 then Some (replace ''/'' [] (the metric1))
                             else metric1);
                   new_query = (if str_truthy metric1
                                then ''label_values('' @ the metric @ '','' @ key @ '')''
                                else ''label_values('' @ key @ '')'') in
               sbind (lift (setitem item3 ''query'' (JStr new_query))) (\<lambda>item4.
               sbind (lift (setitem item4 ''definition'' (JStr new_query))) (\<lambda>item5.
               sbind (lift (has_key ''allValue'' item5)) (\<lambda>has_all.
               sbind (lift (if has_all then emap (\<lambda>v. v = JStr ''*'') (getitem item5 ''allValue'')
                            else Inr False)) (\<lambda>star_all.
               sbind (lift (if star_all then setitem item5 ''allValue'' (JStr ''.*'')
                            else Inr item5)) (\<lambda>item6.
               sreturn (Rewritten item6 (if str_truthy metric then metric else None)))))))))))"

definition convert_template_item :: "config \<Rightarrow> json \<Rightarrow> template_step comp" where
  "convert_template_item cfg item =
     sbind (lift (getitem item ''type'')) (\<lambda>t.
     if t = JStr ''query'' then convert_template_query cfg item
     else
       sbind (lift (hashable t)) (\<lambda>_.
       if t \<in> {JStr ''custom'', JStr ''interval'', JStr ''datasource''} then sreturn (Kept item)
       else sraise (ValueError ''Unknown template type for item'')))"

text \<open>
  The loop goes through the list by index: it writes each variable back at its index,
  appends the entry for the back-fill, and collects the indices to delete.
\<close>

fun templating_loop :: "config \<Rightarrow> nat \<Rightarrow> json list \<Rightarrow> (json list \<times> nat list) comp" where
  "templating_loop cfg idx [] = sreturn ([], [])"
| "templating_loop cfg idx (item # items) =
     sbind (convert_template_item cfg item) (\<lambda>step.
     sbind (case step of
              Rewritten item' (Some metric) \<Rightarrow>
                modify (\<lambda>s. s\<lparr>get_rep_metric :=
                                get_rep_metric s @ [(True, metric, item', Some idx)]\<rparr>)
            | _ \<Rightarrow> sreturn ()) (\<lambda>_.
     sbind (templating_loop cfg (Suc idx) items) (\<lambda>(items', to_be_deleted).
     sreturn (case step of
                Kept item' \<Rightarrow> (item' # items', to_be_deleted)
              | Rewritten item' metric \<Rightarrow> (item' # items', to_be_deleted)
              | Deleted item' \<Rightarrow> (item' # items', idx # to_be_deleted)))))"

text \<open>\<open>del xs[idx]\<close>, and the deletions in the order \<open>sorted(to_be_deleted, reverse=True)\<close>.\<close>

definition del_index :: "nat \<Rightarrow> 'a list \<Rightarrow> 'a list" where
  "del_index idx xs = take idx xs @ drop (Suc idx) xs"

definition delete_indices :: "nat list \<Rightarrow> 'a list \<Rightarrow> 'a list" where
  "delete_indices to_be_deleted xs = foldl (\<lambda>ys idx. del_index idx ys) xs (rev (sort to_be_deleted))"

text \<open>The place of a variable after the deletions.\<close>

definition place_after :: "nat list \<Rightarrow> nat \<Rightarrow> nat" where
  "place_after to_be_deleted idx = idx - length (filter (\<lambda>d. d < idx) to_be_deleted)"

definition convert_templating :: "config \<Rightarrow> json \<Rightarrow> json comp" where
  "convert_templating cfg template =
     sbind (lift (getitem template ''list'')) (\<lambda>l.
     sbind (lift (iter l)) (\<lambda>items.
     sbind (templating_loop cfg 0 items) (\<lambda>(items', to_be_deleted).
     sbind (modify (\<lambda>s. s\<lparr>get_rep_metric :=
              map (\<lambda>(flag, metric, item, place).
                     (flag, metric, item, map_option (place_after to_be_deleted) place))
                (get_rep_metric s)\<rparr>)) (\<lambda>_.
     lift (case l of
             JArr xs \<Rightarrow> setitem template ''list'' (JArr (delete_indices to_be_deleted items'))
           | _ \<Rightarrow> Inr template)))))"

section \<open>Dashboards\<close>

text \<open>\<open>convert_panels\<close> on a value of the dashboard: a list of panels is converted in
  place; any other value is gone through as Python does.\<close>

definition convert_panels_of :: "config \<Rightarrow> json \<Rightarrow> json comp" where
  "convert_panels_of cfg v =
     (case v of
        JArr ps \<Rightarrow> (\<lambda>s. case convert_panels cfg ps s of
                          (Inl e, s') \<Rightarrow> (Inl e, s')
                        | (Inr ps', s') \<Rightarrow> (Inr (JArr ps'), s'))
      | _ \<Rightarrow>
          sbind (lift (iter v)) (\<lambda>xs.
          case xs of
            [] \<Rightarrow> sreturn v
          | x # xs' \<Rightarrow>
              sbind (panel_context x) (\<lambda>_. sraise (Unmodelled ''a panel that is not a dict''))))"

definition convert_row :: "config \<Rightarrow> json \<Rightarrow> json comp" where
  "convert_row cfg row =
     sbind (lift (getitem row ''panels'')) (\<lambda>ps.
     sbind (convert_panels_of cfg ps) (\<lambda>ps'.
     lift (setitem row ''panels'' ps')))"

fun smap :: "('a \<Rightarrow> ('s, 'b) run) \<Rightarrow> 'a list \<Rightarrow> ('s, 'b list) run" where
  "smap f [] = sreturn []"
| "smap f (x # xs) = sbind (f x) (\<lambda>y. sbind (smap f xs) (\<lambda>ys. sreturn (y # ys)))"

text \<open>
  The back-fill, \<open>_update_label_values_metric\<close>. For an entry it takes the first key of
  \<open>metric_to_objects\<close> whose part before the last underscore is the measurement of the
  entry, writes the key into the query of the template variable, appends the variable
  to the list of the key and the dashboard, and goes on to the next entry.
\<close>

definition backfill_match :: "string \<Rightarrow> string \<Rightarrow> bool" where
  "backfill_match dashboard_metric metric =
     (let splitted_metric = rsplit1 CHR ''_'' metric
      in \<not> length splitted_metric < 2
         \<and> (hd splitted_metric = dashboard_metric \<or> metric = dashboard_metric))"

definition index_append :: "string \<Rightarrow> json \<Rightarrow> json
    \<Rightarrow> (string \<times> (json \<times> json list) list) list
    \<Rightarrow> (string \<times> (json \<times> json list) list) list option" where
  "index_append metric dashboard obj index =
     (case map_of index metric of
        None \<Rightarrow> None
      | Some by_dashboard \<Rightarrow>
          (case map_of by_dashboard dashboard of
             None \<Rightarrow> None
           | Some objs \<Rightarrow>
               Some (AList.update metric (AList.update dashboard (objs @ [obj]) by_dashboard)
                       index)))"

definition set_template_item :: "nat \<Rightarrow> json \<Rightarrow> json \<Rightarrow> json" where
  "set_template_item place item dashboard =
     (case getitem dashboard ''templating'' of
        Inr (JObj tkvs) \<Rightarrow>
          (case map_of tkvs ''list'' of
             Some (JArr items) \<Rightarrow>
               (case dashboard of
                  JObj kvs \<Rightarrow>
                    JObj (set_kv ''templating''
                            (JObj (set_kv ''list'' (JArr (items[place := item])) tkvs)) kvs)
                | _ \<Rightarrow> dashboard)
           | _ \<Rightarrow> dashboard)
      | _ \<Rightarrow> dashboard)"

definition title_note :: "json \<Rightarrow> err_note" where
  "title_note title =
     (if truthy title then (case title of JStr t \<Rightarrow> NStr t | _ \<Rightarrow> NRepr title)
      else NStr ''None'')"

definition backfill_entry :: "bool \<times> string \<times> json \<times> nat option \<Rightarrow> (json \<times> state, unit) run" where
  "backfill_entry r =
     (case r of (flag, dashboard_metric, label_values, place) \<Rightarrow>
        if \<not> flag then sreturn ()
        else (\<lambda>ds.
          case filter (backfill_match dashboard_metric) (map fst (metric_to_objects (snd ds))) of
            [] \<Rightarrow> (Inr (), ds)
          | metric # ms \<Rightarrow>
              sbind (lift (ebind (getitem label_values ''query'') (as_str ''replace''))) (\<lambda>q.
              sbind (lift (setitem label_values ''query''
                             (JStr (replace dashboard_metric metric q)))) (\<lambda>label_values'.
              sbind (case place of
                       None \<Rightarrow> sreturn ()
                     | Some i \<Rightarrow> (\<lambda>p. (Inr (), (set_template_item i label_values' (fst p), snd p))))
                (\<lambda>_.
              on_state (\<lambda>s.
                case (case hashable (current_dashboard s) of
                        Inl e \<Rightarrow> None
                      | Inr d \<Rightarrow> index_append metric d label_values' (metric_to_objects s)) of
                  Some index' \<Rightarrow> (Inr (), s\<lparr>metric_to_objects := index'\<rparr>)
                | None \<Rightarrow>
                    add_error ''Invalid dashboard on templating replacement split'' ''ERROR''
                      (title_note (current_dashboard s)) s)))) ds))"

definition update_label_values_metric :: "(json \<times> state, unit) run" where
  "update_label_values_metric =
     (\<lambda>ds. sbind (sforeach backfill_entry (get_rep_metric (snd ds)))
              (\<lambda>_. on_state (modify (\<lambda>s. s\<lparr>get_rep_metric := []\<rparr>))) ds)"

text \<open>
  \<open>convert_dashboard\<close>. The entries left in \<open>_get_rep_metric\<close> by a dashboard whose
  templating failed refer to variables of that dashboard: they have no place in this one.
  The loop over \<open>_get_rep_metric\<close> calls the back-fill for every entry; the first call
  empties the list, so the back-fill runs once when the list has an entry.
\<close>

definition dashboard_context :: "json \<Rightarrow> json \<Rightarrow> unit comp" where
  "dashboard_context dashboard meta =
     sbind (lift (getitem dashboard ''templating'')) (\<lambda>templating.
     sbind (modify (\<lambda>s. s\<lparr>context_templating := templating\<rparr>)) (\<lambda>_.
     sbind (lift (getitem dashboard ''uid'')) (\<lambda>uid.
     sbind (lift (getitem dashboard ''title'')) (\<lambda>title.
     sbind (lift (getitem meta ''folderTitle'')) (\<lambda>folder.
     sbind (lift (getitem meta ''updatedBy'')) (\<lambda>updater.
     sbind (modify (\<lambda>s. s\<lparr>context_dashboard :=
              Some (JObj [(''uid'', uid), (''title'', title), (''folder'', folder),
                          (''updater'', updater)])\<rparr>)) (\<lambda>_.
     sbind (lift (getitem meta ''folderTitle'')) (\<lambda>_.
     sbind (lift (dict_get dashboard ''title'' JNull)) (\<lambda>t.
     modify (\<lambda>s. s\<lparr>current_dashboard := t\<rparr>))))))))))"

definition dashboard_panels :: "config \<Rightarrow> json \<Rightarrow> json comp" where
  "dashboard_panels cfg dashboard =
     sbind (lift (dict_get dashboard ''panels'' (JArr []))) (\<lambda>ps.
     sbind (convert_panels_of cfg ps) (\<lambda>ps'.
     sbind (lift (has_key ''panels'' dashboard)) (\<lambda>h.
     sbind (lift (if h then setitem dashboard ''panels'' ps' else Inr dashboard)) (\<lambda>d1.
     sbind (lift (dict_get d1 ''rows'' (JArr []))) (\<lambda>rows.
     sbind (lift (iter rows)) (\<lambda>rs.
     sbind (smap (convert_row cfg) rs) (\<lambda>rs'.
     sbind (lift (has_key ''rows'' d1)) (\<lambda>hr.
     lift (case rows of
             JArr xs \<Rightarrow> if hr then setitem d1 ''rows'' (JArr rs') else Inr d1
           | _ \<Rightarrow> Inr d1)))))))))"

definition dashboard_templating :: "config \<Rightarrow> json \<Rightarrow> json comp" where
  "dashboard_templating cfg dashboard =
     sbind (lift (dict_get dashboard ''templating'' JNull)) (\<lambda>templating.
     if truthy templating then
       (\<lambda>s. case sbind (lift (getitem dashboard ''templating'')) (convert_templating cfg) s of
               (Inl (ValueError ex), s') \<Rightarrow> (Inl (ConvertError (ValueError ex)), s')
             | (Inl e, s') \<Rightarrow> (Inl e, s')
             | (Inr t', s') \<Rightarrow> (setitem dashboard ''templating'' t', s'))
     else sreturn dashboard)"

definition convert_dashboard :: "config \<Rightarrow> json \<Rightarrow> json \<Rightarrow> json comp" where
  "convert_dashboard cfg dashboard meta =
     sbind (modify (\<lambda>s. s\<lparr>get_rep_metric :=
              map (\<lambda>(flag, metric, item, place). (flag, metric, item, None))
                (get_rep_metric s)\<rparr>)) (\<lambda>_.
     sbind (dashboard_context dashboard meta) (\<lambda>_.
     sbind (dashboard_panels cfg dashboard) (\<lambda>d1.
     sbind (dashboard_templating cfg d1) (\<lambda>d2.
     (\<lambda>s. if filter fst (get_rep_metric s) \<noteq> []
           then run_on update_label_values_metric d2 s
           else (Inr d2, s))))))"

section \<open>Sample inputs\<close>

text \<open>A converter made with a replacement datasource and the default scrape interval, before
  any dashboard was converted; it enumerates a set in the order its elements were added.\<close>

definition sample_config :: config where
  "sample_config =
     \<lparr>replacement_datasource = JObj [(''uid'', JStr ''prom''), (''type'', JStr ''prometheus'')],
      datasource_map = None, alert_notifications_map = None,
      alert_notifications_uid_map = None, scrape_interval = 30,
      grafana_datasources = JObj [], set_order = (\<lambda>xs. xs)\<rparr>"

definition initial_state :: state where
  "initial_state =
     \<lparr>metric_to_objects = [], get_rep_metric = [], current_dashboard = JStr [],
      group_by_labels = None, context_templating = JNull, conversion_errors = [],
      context_dashboard = None, context_panel = None\<rparr>"


definition table_target :: json where
  "table_target = JObj [(''refId'', JStr ''A''), (''resultFormat'', JStr ''table'')]"

definition mean_query :: string where
  "mean_query = ''SELECT mean(\"x\") FROM \"m\" WHERE $timeFilter''"

definition mean_table_target :: json where
  "mean_table_target =
     JObj [(''expr'', JStr ''avg(m_x)''), (''format'', JStr ''table''),
           (''instant'', JBool True), (''intervalFactor'', JInt 1),
           (''refId'', JStr ''A''), (''legendFormat'', JStr [])]"

definition count_query :: string where
  "count_query = ''SELECT count(\"x\") FROM \"m\" GROUP BY time(5m)''"

definition count_where_query :: string where
  "count_where_query = ''SELECT count(\"x\") FROM \"m\" WHERE $timeFilter GROUP BY time(5m)''"

definition count_tag_query :: string where
  "count_tag_query =
     ''SELECT count(\"x\") FROM \"m\" WHERE \"host\" = 'a' AND $timeFilter GROUP BY time(5m)''"

definition by_time_5m :: GroupBy where
  "by_time_5m = \<lparr>group_by = [], over_time = ''5m'', fills = []\<rparr>"

definition ratio_query :: string where
  "ratio_query = ''SELECT mean(\"x\")/mean(\"x\") FROM \"m\" WHERE \"y\" > 0''"

definition ratio_field_query :: string where
  "ratio_field_query = ''SELECT mean(\"x\")/mean(\"x\") FROM \"m\" WHERE \"x\" > 0''"

definition ratio_plain_query :: string where
  "ratio_plain_query = ''SELECT mean(\"x\")/mean(\"x\") FROM \"m\" WHERE $timeFilter''"



definition or_group_query :: string where
  "or_group_query = ''SELECT mean(\"x\") FROM \"m\" WHERE (\"host\"='a' OR \"host\"='b')''"










definition custom_var :: json where
  "custom_var = JObj [(''name'', JStr ''env''), (''type'', JStr ''custom''), (''query'', JStr ''a,b'')]"

definition field_keys_var :: json where
  "field_keys_var =
     JObj [(''name'', JStr ''field''), (''type'', JStr ''query''),
           (''query'', JStr ''Show Field Keys from \"cpu\"'')]"

definition tag_values_var :: json where
  "tag_values_var =
     JObj [(''name'', JStr ''host''), (''type'', JStr ''query''),
           (''query'', JStr ''SHOW TAG VALUES FROM \"cpu\" WITH KEY = \"host\"'')]"

definition adhoc_var :: json where
  "adhoc_var = JObj [(''name'', JStr ''filters''), (''type'', JStr ''adhoc'')]"

definition sample_templating :: json where
  "sample_templating = JObj [(''list'', JArr [custom_var, field_keys_var, tag_values_var])]"

definition adhoc_templating :: json where
  "adhoc_templating = JObj [(''list'', JArr [custom_var, adhoc_var])]"

definition converted_host_var :: json where
  "converted_host_var =
     JObj [(''name'', JStr ''host''), (''type'', JStr ''query''),
           (''query'', JStr ''label_values(cpu,host)''),
           (''datasource'', JObj [(''uid'', JStr ''prom''), (''type'', JStr ''prometheus'')]),
           (''sort'', JInt 3), (''definition'', JStr ''label_values(cpu,host)'')]"

definition converted_templating :: json where
  "converted_templating = JObj [(''list'', JArr [custom_var, converted_host_var])]"

section \<open>Properties of the durations\<close>

lemma lt10_cases: "(d::nat) < 10 \<Longrightarrow> d \<in> {0, 1, 2, 3, 4, 5, 6, 7, 8, 9}"
  by auto

lemma is_digit_digit_of: "d < 10 \<Longrightarrow> is_digit (digit_of d)"
  using lt10_cases [of d] unfolding is_digit_def digit_of_def by auto

lemma digit_val_digit_of: "d < 10 \<Longrightarrow> digit_val (digit_of d) = d"
  using lt10_cases [of d] unfolding digit_val_def digit_of_def by auto

lemma is_digit_not_int_space: "is_digit c \<Longrightarrow> \<not> is_int_space c"
  unfolding is_digit_def is_int_space_def less_eq_char_def by (auto simp: Let_def)

lemma is_digit_not_upper: "is_digit c \<Longrightarrow> \<not> is_upper c"
  unfolding is_digit_def is_upper_def less_eq_char_def by (auto simp: Let_def)

lemma is_digit_not_sign: "is_digit c \<Longrightarrow> c \<noteq> CHR ''-'' \<and> c \<noteq> CHR ''+'' \<and> c \<noteq> CHR ''_''"
  unfolding is_digit_def less_eq_char_def by auto

lemma str_nat_digits: "\<forall>c \<in> set (str_nat n). is_digit c"
proof (induction n rule: str_nat.induct)
  case (1 n)
  show ?case
  proof (cases "n < 10")
    case True
    then show ?thesis by (simp add: str_nat.simps [of n] is_digit_digit_of)
  next
    case False
    with 1 show ?thesis by (simp add: str_nat.simps [of n] is_digit_digit_of)
  qed
qed

lemma str_nat_nonempty: "str_nat n \<noteq> []"
  by (simp add: str_nat.simps [of n])

text \<open>A number has at most \<open>k\<close> digits if and only if it is below \<open>10 ^ k\<close>.\<close>

lemma length_str_nat: "0 < k \<Longrightarrow> length (str_nat n) \<le> k \<longleftrightarrow> n < 10 ^ k"
proof (induction n arbitrary: k rule: str_nat.induct)
  case (1 n)
  show ?case
  proof (cases "n < 10")
    case True
    have "(10::nat) ^ 1 \<le> 10 ^ k"
      using 1(2) by (intro power_increasing) simp_all
    with True 1(2) show ?thesis
      by (simp add: str_nat.simps [of n])
  next
    case False
    show ?thesis
    proof (cases "k = 1")
      case True
      with False show ?thesis by (simp add: str_nat.simps [of n] str_nat_nonempty Suc_le_eq)
    next
      case k: False
      with 1(2) obtain j where j: "k = Suc j" "0 < j" by (cases k) auto
      have "length (str_nat n) \<le> k \<longleftrightarrow> length (str_nat (n div 10)) \<le> j"
        using False j by (simp add: str_nat.simps [of n])
      also have "\<dots> \<longleftrightarrow> n div 10 < 10 ^ j"
        using 1(1) [OF False j(2)] .
      also have "\<dots> \<longleftrightarrow> n < 10 ^ k"
        using j by (simp add: div_less_iff_less_mult mult.commute)
      finally show ?thesis .
    qed
  qed
qed

lemma over_the_limit:
  "int_max_str_digits < length (str_nat n) \<longleftrightarrow> \<not> n < 10 ^ int_max_str_digits"
proof -
  have "0 < int_max_str_digits" by (simp add: int_max_str_digits_def)
  from length_str_nat [OF this, of n] show ?thesis by auto
qed

lemma str_int_nat:
  "str_int (int n) =
     (if n < 10 ^ int_max_str_digits then Inr (str_nat n)
      else Inl (ValueError ''Exceeds the limit (4300 digits) for integer string conversion''))"
  by (simp add: str_int_def over_the_limit)

lemma digits_value_str_nat: "digits_value (str_nat n) = n"
  unfolding digits_value_def
proof (induction n rule: str_nat.induct)
  case (1 n)
  show ?case
  proof (cases "n < 10")
    case True
    then show ?thesis by (simp add: str_nat.simps [of n] dstep_def digit_val_digit_of)
  next
    case False
    with 1 show ?thesis by (simp add: str_nat.simps [of n] dstep_def digit_val_digit_of)
  qed
qed

lemma no_doubled_underscore: "\<forall>c \<in> set xs. is_digit c \<Longrightarrow> \<not> doubled_underscore xs"
  by (induction xs rule: doubled_underscore.induct) (auto dest: is_digit_not_sign)

lemma int_strip_digits:
  assumes "xs \<noteq> []" and "\<forall>c \<in> set xs. is_digit c"
  shows "rev (dropWhile is_int_space (rev (dropWhile is_int_space xs))) = xs"
proof -
  have a: "dropWhile is_int_space xs = xs"
    using assms by (cases xs) (auto dest: is_digit_not_int_space)
  have b: "dropWhile is_int_space (rev xs) = rev xs"
    using assms by (cases "rev xs") (auto dest: is_digit_not_int_space)
  show ?thesis by (simp add: a b)
qed

lemma py_int_str_nat:
  "py_int (str_nat n) =
     (if n < 10 ^ int_max_str_digits then Inr (int n)
      else Inl (ValueError ''Exceeds the limit (4300 digits) for integer string conversion''))"
proof -
  have d: "\<forall>c \<in> set (str_nat n). is_digit c" by (rule str_nat_digits)
  have ne: "str_nat n \<noteq> []" by (rule str_nat_nonempty)
  have h: "is_digit (hd (str_nat n))" using d ne by (cases "str_nat n") auto
  have l: "is_digit (last (str_nat n))" using d ne by (simp add: last_in_set)
  have s: "rev (dropWhile is_int_space (rev (dropWhile is_int_space (str_nat n)))) = str_nat n"
    using ne d by (rule int_strip_digits)
  have t: "takeWhile (\<lambda>c. is_digit c \<or> c = CHR ''_'') (str_nat n) = str_nat n"
    using d by (simp add: takeWhile_eq_all_conv)
  have r: "dropWhile (\<lambda>c. is_digit c \<or> c = CHR ''_'') (str_nat n) = []"
    using d by simp
  have f: "filter is_digit (str_nat n) = str_nat n"
    using d by simp
  show ?thesis
    unfolding py_int_def s
    using is_digit_not_sign [OF h] is_digit_not_sign [OF l] ne no_doubled_underscore [OF d]
    by (simp add: Let_def t r f over_the_limit digits_value_str_nat)
qed

lemma lower_digits: "\<forall>c \<in> set xs. is_digit c \<Longrightarrow> lower xs = xs"
  by (induction xs) (auto simp: lower_def lower_char_def dest: is_digit_not_upper)

lemma duration_of_seconds_form:
  "n < 10 ^ int_max_str_digits \<Longrightarrow> duration_to_seconds (str_nat n @ ''s'') = Inr (int n)"
  by (simp add: duration_to_seconds_def lower_def lower_digits [unfolded lower_def, OF str_nat_digits]
      lower_char_def is_upper_def Let_def endswith_def butlast_append py_int_str_nat)

lemma duration_of_minutes_form:
  "n < 10 ^ int_max_str_digits \<Longrightarrow> duration_to_seconds (str_nat n @ ''m'') = Inr (int n * 60)"
  by (simp add: duration_to_seconds_def lower_def lower_digits [unfolded lower_def, OF str_nat_digits]
      lower_char_def is_upper_def Let_def endswith_def butlast_append py_int_str_nat emap_def)

lemma duration_of_hours_form:
  "n < 10 ^ int_max_str_digits \<Longrightarrow> duration_to_seconds (str_nat n @ ''h'') = Inr (int n * 3600)"
  by (simp add: duration_to_seconds_def lower_def lower_digits [unfolded lower_def, OF str_nat_digits]
      lower_char_def is_upper_def Let_def endswith_def butlast_append py_int_str_nat emap_def)

lemma mod_3600_split: "(s::nat) mod 3600 = 60 * ((s div 60) mod 60) + s mod 60"
  using mod_mult2_eq [of s 60 60] by simp

text \<open>The number that \<open>_seconds_to_duration\<close> writes, and the unit it writes after it.\<close>

lemma seconds_to_duration_nat:
  "seconds_to_duration (int s) =
     (if s = 0 \<or> 0 < s mod 60 then emap (\<lambda>t. t @ ''s'') (str_int (int s))
      else if 0 < s mod 3600 then emap (\<lambda>t. t @ ''m'') (str_int (int (s div 60)))
      else emap (\<lambda>t. t @ ''h'') (str_int (int (s div 3600))))"
proof -
  have a: "int s div 60 = int (s div 60)" "int s mod 60 = int (s mod 60)"
    "int (s div 60) div 60 = int (s div 3600)" "int (s div 60) mod 60 = int ((s div 60) mod 60)"
    by (simp_all add: zdiv_int zmod_int div_mult2_eq)
  have b: "s mod 60 = 0 \<Longrightarrow> ((s div 60) mod 60 = 0) = (s mod 3600 = 0)"
    by (simp add: mod_3600_split)
  have c: "s mod 60 = 0 \<Longrightarrow> s \<noteq> 0 \<Longrightarrow> s div 60 \<noteq> 0"
    by (metis div_mult_mod_eq add.right_neutral mult_zero_left)
  have d: "s mod 3600 = 0 \<Longrightarrow> s \<noteq> 0 \<Longrightarrow> s div 3600 \<noteq> 0"
    by (metis div_mult_mod_eq add.right_neutral mult_zero_left)
  show ?thesis
    unfolding seconds_to_duration_def Let_def a
    using b c d by auto
qed

lemma minutes_back: "s mod 60 = 0 \<Longrightarrow> int (s div 60) * 60 = int s"
  by (metis div_mult_mod_eq add.right_neutral of_nat_mult of_nat_numeral)

lemma hours_back: "s mod 3600 = 0 \<Longrightarrow> int (s div 3600) * 3600 = int s"
  by (metis div_mult_mod_eq add.right_neutral of_nat_mult of_nat_numeral)

text \<open>
  Claim C10, as amended. Let \<open>r\<close> be the number that \<open>_seconds_to_duration\<close> writes for the
  natural number \<open>s\<close>, and \<open>u\<close> the unit: \<open>s\<close> itself and \<open>s\<close> when \<open>s\<close> is zero or not a whole
  number of minutes, the minutes and \<open>m\<close> when \<open>s\<close> is a whole number of minutes and not of
  hours, and the hours and \<open>h\<close> for a positive whole number of hours. If \<open>r\<close> has at most 4300
  digits (\<open>int_max_str_digits\<close> is 4300), the duration written is \<open>r\<close> followed by \<open>u\<close>, and
  \<open>_duration_to_seconds\<close> reads \<open>s\<close> back from it. If \<open>r\<close> has more than 4300 digits, \<open>_seconds_to_duration\<close> raises
  \<open>ValueError\<close>. So every \<open>s\<close> below \<open>10 ^ 4300\<close> makes the round trip.
\<close>

theorem seconds_to_duration_roundtrip:
  "(let r = (if s = 0 \<or> 0 < s mod 60 then s else if 0 < s mod 3600 then s div 60
             else s div 3600);
        u = (if s = 0 \<or> 0 < s mod 60 then ''s'' else if 0 < s mod 3600 then ''m'' else ''h'')
    in (r < 10 ^ int_max_str_digits \<longrightarrow>
          seconds_to_duration (int s) = Inr (str_nat r @ u)
          \<and> duration_to_seconds (str_nat r @ u) = Inr (int s))
     \<and> (\<not> r < 10 ^ int_max_str_digits \<longrightarrow>
          seconds_to_duration (int s) = Inl (ValueError
            ''Exceeds the limit (4300 digits) for integer string conversion'')))
   \<and> (s < 10 ^ int_max_str_digits \<longrightarrow> ebind (seconds_to_duration (int s)) duration_to_seconds = Inr (int s))"
proof -
  have m: "s div 60 < 10 ^ int_max_str_digits" and h: "s div 3600 < 10 ^ int_max_str_digits" if "s < 10 ^ int_max_str_digits"
    using that div_le_dividend [of s 60] div_le_dividend [of s 3600] by linarith+
  show ?thesis
    unfolding seconds_to_duration_nat str_int_nat Let_def
    using m h minutes_back [of s] hours_back [of s]
    by (auto simp: emap_def ebind_def duration_of_seconds_form duration_of_minutes_form
          duration_of_hours_form simp del: of_nat_mult)
qed

lemma below_the_limit: "n < 10 \<Longrightarrow> (n::nat) < 10 ^ int_max_str_digits"
proof -
  have "(10::nat) ^ 1 \<le> 10 ^ int_max_str_digits"
    by (intro power_increasing) (simp_all add: int_max_str_digits_def)
  then show "n < 10 \<Longrightarrow> n < 10 ^ int_max_str_digits" by simp
qed

lemma four_digits_below_the_limit: "n < 10000 \<Longrightarrow> (n::nat) < 10 ^ int_max_str_digits"
proof -
  have "(10::nat) ^ 4 \<le> 10 ^ int_max_str_digits"
    by (intro power_increasing) (simp_all add: int_max_str_digits_def)
  then show "n < 10000 \<Longrightarrow> n < 10 ^ int_max_str_digits" by simp
qed

theorem seconds_to_duration_roundtrip_witness:
  "(2::nat) < 10 ^ int_max_str_digits
   \<and> seconds_to_duration (int 7200) = Inr ''2h''
   \<and> duration_to_seconds ''2h'' = Inr (int 7200)
   \<and> (7200::nat) < 10 ^ int_max_str_digits
   \<and> ebind (seconds_to_duration (int 7200)) duration_to_seconds = Inr (int 7200)"
proof -
  have a: "(2::nat) < 10 ^ int_max_str_digits" by (rule below_the_limit) simp
  have a': "(7200::nat) < 10 ^ int_max_str_digits" by (rule four_digits_below_the_limit) simp
  have b: "str_nat 2 @ ''h'' = ''2h''"
    by (simp add: str_nat.simps digit_of_def)
  have c: "(if (7200::nat) = 0 \<or> 0 < (7200::nat) mod 60 then (7200::nat)
            else if 0 < (7200::nat) mod 3600 then 7200 div 60 else 7200 div 3600) = 2"
    by simp
  have d: "(if (7200::nat) = 0 \<or> 0 < (7200::nat) mod 60 then ''s''
            else if 0 < (7200::nat) mod 3600 then ''m'' else ''h'') = ''h''"
    by simp
  note t = seconds_to_duration_roundtrip [of 7200]
  from t [THEN conjunct1, unfolded Let_def c d b, THEN conjunct1, THEN mp, OF a]
    t [THEN conjunct2, THEN mp, OF a'] a a'
  show ?thesis by (intro conjI) simp_all
qed

text \<open>
  Claim C10 as first stated gives the hours form to every whole number of hours. Zero is
  one, and is rendered in the seconds form.
\<close>

theorem seconds_to_duration_zero_counterexample:
  "(0::int) mod 60 = 0 \<and> (0::int) mod 3600 = 0
   \<and> seconds_to_duration 0 = Inr ''0s''
   \<and> seconds_to_duration 0 \<noteq> emap (\<lambda>t. t @ ''h'') (str_int (0 div 3600))"
  by (simp add: seconds_to_duration_def str_int_def str_nat.simps digit_of_def emap_def
        int_max_str_digits_def)

section \<open>Evaluation of the model\<close>

text \<open>
  The model is evaluated on a given input by rewriting with the equations of its definitions
  alone. The classes of characters and the order of characters are read off the bits of a
  character, and the branches of a conditional or of a case distinction are rewritten only
  after the condition or the value distinguished.
\<close>

lemma is_space_Char:
  "is_space (Char b0 b1 b2 b3 b4 b5 b6 b7) \<longleftrightarrow> (if b7 then (if b6 then False else (if b5 then (if b4 then False else (if b3 then False else (if b2 then False else (if b1 then False else \<not> b0)))) else (if b4 then False else (if b3 then False else (if b2 then (if b1 then False else b0) else False))))) else (if b6 then False else (if b5 then (if b4 then False else (if b3 then False else (if b2 then False else (if b1 then False else \<not> b0)))) else (if b4 then (if b3 then b2 else False) else (if b3 then (if b2 then \<not> b1 else (if b1 then True else b0)) else False)))))"
  by (cases b7; cases b6; cases b5; cases b4; cases b3; cases b2; cases b1; cases b0;
      simp add: is_space_def)

lemma is_digit_Char:
  "is_digit (Char b0 b1 b2 b3 b4 b5 b6 b7) \<longleftrightarrow> (if b7 then False else (if b6 then False else (if b5 then (if b4 then (if b3 then (if b2 then False else \<not> b1) else True) else False) else False)))"
  by (cases b7; cases b6; cases b5; cases b4; cases b3; cases b2; cases b1; cases b0;
      simp add: is_digit_def)

lemma is_word_Char:
  "is_word (Char b0 b1 b2 b3 b4 b5 b6 b7) \<longleftrightarrow> (if b7 then (if b6 then (if b5 then (if b4 then (if b3 then True else (if b2 then (if b1 then \<not> b0 else True) else True)) else True) else (if b4 then (if b3 then True else (if b2 then (if b1 then \<not> b0 else True) else True)) else True)) else (if b5 then (if b4 then (if b3 then (if b2 then (if b1 then \<not> b0 else True) else (if b1 then \<not> b0 else b0)) else (if b2 then (if b1 then False else b0) else b1)) else (if b3 then (if b2 then False else (if b1 then \<not> b0 else False)) else False)) else False)) else (if b6 then (if b5 then (if b4 then (if b3 then (if b2 then False else (if b1 then \<not> b0 else True)) else True) else (if b3 then True else (if b2 then True else (if b1 then True else b0)))) else (if b4 then (if b3 then (if b2 then (if b1 then b0 else False) else (if b1 then \<not> b0 else True)) else True) else (if b3 then True else (if b2 then True else (if b1 then True else b0))))) else (if b5 then (if b4 then (if b3 then (if b2 then False else \<not> b1) else True) else False) else False)))"
  by (cases b7; cases b6; cases b5; cases b4; cases b3; cases b2; cases b1; cases b0;
      simp add: is_word_def is_alnum_def)

lemma is_upper_Char:
  "is_upper (Char b0 b1 b2 b3 b4 b5 b6 b7) \<longleftrightarrow> (if b7 then (if b6 then (if b5 then False else (if b4 then (if b3 then (if b2 then (if b1 then \<not> b0 else True) else True) else (if b2 then (if b1 then \<not> b0 else True) else True)) else True)) else False) else (if b6 then (if b5 then False else (if b4 then (if b3 then (if b2 then False else (if b1 then \<not> b0 else True)) else True) else (if b3 then True else (if b2 then True else (if b1 then True else b0))))) else False))"
  by (cases b7; cases b6; cases b5; cases b4; cases b3; cases b2; cases b1; cases b0;
      simp add: is_upper_def)

lemma is_lower_Char:
  "is_lower (Char b0 b1 b2 b3 b4 b5 b6 b7) \<longleftrightarrow> (if b7 then (if b6 then (if b5 then (if b4 then (if b3 then (if b2 then (if b1 then \<not> b0 else True) else True) else (if b2 then (if b1 then \<not> b0 else True) else True)) else True) else False) else False) else (if b6 then (if b5 then (if b4 then (if b3 then (if b2 then False else (if b1 then \<not> b0 else True)) else True) else (if b3 then True else (if b2 then True else (if b1 then True else b0)))) else False) else False))"
  by (cases b7; cases b6; cases b5; cases b4; cases b3; cases b2; cases b1; cases b0;
      simp add: is_lower_def)

lemma range_lower_Char:
  "citem_has (CRange CHR ''a'' CHR ''z'') (Char b0 b1 b2 b3 b4 b5 b6 b7) \<longleftrightarrow> (if b7 then False else (if b6 then (if b5 then (if b4 then (if b3 then (if b2 then False else (if b1 then \<not> b0 else True)) else True) else (if b3 then True else (if b2 then True else (if b1 then True else b0)))) else False) else False))"
  by (cases b7; cases b6; cases b5; cases b4; cases b3; cases b2; cases b1; cases b0;
      simp add: less_eq_char_def)

lemma range_upper_Char:
  "citem_has (CRange CHR ''A'' CHR ''Z'') (Char b0 b1 b2 b3 b4 b5 b6 b7) \<longleftrightarrow> (if b7 then False else (if b6 then (if b5 then False else (if b4 then (if b3 then (if b2 then False else (if b1 then \<not> b0 else True)) else True) else (if b3 then True else (if b2 then True else (if b1 then True else b0))))) else False))"
  by (cases b7; cases b6; cases b5; cases b4; cases b3; cases b2; cases b1; cases b0;
      simp add: less_eq_char_def)

lemma range_digit_Char:
  "citem_has (CRange CHR ''0'' CHR ''9'') (Char b0 b1 b2 b3 b4 b5 b6 b7) \<longleftrightarrow> (if b7 then False else (if b6 then False else (if b5 then (if b4 then (if b3 then (if b2 then False else \<not> b1) else True) else False) else False)))"
  by (cases b7; cases b6; cases b5; cases b4; cases b3; cases b2; cases b1; cases b0;
      simp add: less_eq_char_def)

lemma bit_less:
  "(of_bool a + 2 * x < of_bool b + 2 * (y::nat)) \<longleftrightarrow> (if x = y then \<not> a \<and> b else x < y)"
  by (cases a; cases b; simp; arith)

lemma bit_eq: "(of_bool a + 2 * x = of_bool b + 2 * (y::nat)) \<longleftrightarrow> (a = b \<and> x = y)"
  by (cases a; cases b; simp; arith)

lemma less_char_Char:
  "Char a0 a1 a2 a3 a4 a5 a6 a7 < Char b0 b1 b2 b3 b4 b5 b6 b7 \<longleftrightarrow>
     (if a1 = b1 \<and> a2 = b2 \<and> a3 = b3 \<and> a4 = b4 \<and> a5 = b5 \<and> a6 = b6 \<and> a7 = b7 then \<not> a0 \<and> b0
      else if a2 = b2 \<and> a3 = b3 \<and> a4 = b4 \<and> a5 = b5 \<and> a6 = b6 \<and> a7 = b7 then \<not> a1 \<and> b1
      else if a3 = b3 \<and> a4 = b4 \<and> a5 = b5 \<and> a6 = b6 \<and> a7 = b7 then \<not> a2 \<and> b2
      else if a4 = b4 \<and> a5 = b5 \<and> a6 = b6 \<and> a7 = b7 then \<not> a3 \<and> b3
      else if a5 = b5 \<and> a6 = b6 \<and> a7 = b7 then \<not> a4 \<and> b4
      else if a6 = b6 \<and> a7 = b7 then \<not> a5 \<and> b5
      else if a7 = b7 then \<not> a6 \<and> b6
      else \<not> a7 \<and> b7)"
  unfolding less_char_def of_char_Char horner_sum_simps
  by (simp only: mult_0_right add_0_right bit_eq bit_less refl if_True simp_thms
        of_bool_eq_iff of_bool_less_iff)

lemma scan_2: "scan 2 ic r bef s = scan (Suc (Suc 0)) ic r bef s"
  by (simp add: numeral_2_eq_2)

lemma nth_1: "(x # y # ys) ! 1 = y"
  by simp

lemma Suc_eq_1: "(Suc n = 1) = (n = 0)"
  by simp

lemma One_eq_Suc: "(1 = Suc n) = (n = 0)"
  by auto

lemma sbind_cong_weak: "m = m' \<Longrightarrow> sbind m f = sbind m' f"
  by simp

lemma ebind_cong_weak: "m = m' \<Longrightarrow> ebind m f = ebind m' f"
  by simp

lemmas basic_evals =
  if_True if_False simp_thms list.case option.case prod.case sum.case list.map
  foldr.simps foldl.simps fold.simps o_apply id_apply append.simps rev.simps
  take_Suc_Cons take_0 take_Nil drop_0 drop_Suc_Cons drop_Nil list.size add_Suc_right add_0_right
  diff_Suc_Suc minus_nat.diff_0 diff_0_eq_0 nat.inject nat.distinct
  less_2_cases_iff Suc_less_eq not_less0 zero_less_Suc Suc_le_mono le0 not_less_eq_eq
  nth_Cons_0 nth_Cons_Suc nth_1 scan_2
  numeral_eq_iff one_eq_numeral_iff numeral_eq_one_iff num.inject num.distinct
  zero_neq_numeral zero_neq_one numeral_neq_zero one_neq_zero
  Suc_eq_numeral eq_numeral_Suc pred_numeral_simps Suc_eq_1 One_eq_Suc
  map_of.simps fun_upd_apply fst_conv snd_conv prod.inject list.inject list.distinct option.inject option.distinct
  sum.inject sum.distinct option.sel option.map
  char.inject char.case concat.simps filter.simps list.sel Let_def last.simps butlast.simps
  dropWhile.simps takeWhile.simps remdups.simps zip_Cons_Cons zip_Nil zip.simps(1)
  insert_iff empty_iff list.set unit.case
  AList.update.simps map_filter_simps
  sort_key_simps insort_key.simps Cons_le_Cons Nil_le_Cons not_less_Nil Nil_less_Cons
  Cons_less_Cons le_Nil

lemmas eval_congs = if_weak_cong option.case_cong_weak list.case_cong_weak prod.case_cong_weak
  sum.case_cong_weak sbind_cong_weak ebind_cong_weak

lemmas model_defs =
  ebind_def emap_def lower_char_def lower_def startswith_def endswith_def strip_def
  lstrip_chars_def rstrip_chars_def strip_chars_def replace_def split_def rsplit1_def
  upper_char_def same_char_def set_has_def step1_def open_group_def close_group_def str_def
  seqs_def alts_def many_def many_lazy_def some_def some_lazy_def opt_def sp_def nsp_def
  wd_def dg_def one_of_def group_def group_or_empty_def match_here_def re_match_def
  re_search_def matches_def findall2_def re_sub_def del_kv_def sreturn_def sraise_def lift_def
  sbind_def modify_def add_error_def OVER_TIME_AGGREGATIONS_def LABEL_COMPARISON_OPERATORS_def
  LABEL_CONDITIONS_OPERATORS_def TIME_INTERVAL_REGEX_def INVALID_PROMQL_METRIC_CHARACTERS_def
  AGGREGATION_MAP_def AGGREGATION_TOPLEVEL_MAP_def
  NONDEFAULT_METRIC_PREFIX_SCRAPE_INTERVAL_SECONDS_def METRIC_AGGREGATION_REGEXPS_def
  TEMPLATING_METRIC_STATIC_CONVERSION_def replace_invalid_metric_characters_def
  get_metric_aggregation_def re_from_where_def re_metric_key_def get_metric_name_def
  re_select_from_def get_aggregations_def single_eq_re_def re_or_group_def
  or_group_replace_def set_add_def re_key_def re_delimited_def re_unquoted_def regex_label_def
  escape_backslashes_def plain_label_def set_adds_def operator_labels_def collect_labels_def
  get_labels_def re_condition_def get_conditions_def re_divide_by_self_def
  does_divide_by_self_def re_modification_def get_modifications_def re_fill_def re_parens_def
  get_group_by_def re_alias_def get_alias_from_query_def str_truthy_def
  over_time_functions_def metric_scrape_interval_def format_condition_def
  format_expression_def conds_truthy_def convert_expression_def re_subquery_def
  convert_subquery_def convert_query_def item_key_def sorted_by_type_def first_param_def
  param_text_def has_brace_def select_item_def select_items_def tag_is_def hashable_def
  tag_value_text_def cleaned_up_regex_def or_tags_def and_tag_def where_items_def
  group_by_item_def convert_to_query_def normalize_target_uid_def basic_ds_type_check_def
  influxdb_datasource_type_def is_flux_def influxdb_like_by_uid_def
  uid_matches_influx_templating_def ds_list_by_name_def influxdb_like_by_ds_name_def
  target_signals_def is_target_influx_def re_tag_alias_def re_percentile_def re_input_def
  get_legend_format_def target_note_def re_spaces_def convert_target_def convert_targets_def
  get_metric_field_from_select_def str_plus_def target_metric_name_def index_add_def
  add_target_to_index_def add_to_metric_and_object_list_def notification_id_lookup_def
  uid_lookup_def new_notification_uid_def map_truthy_def convert_alerts_def
  convert_series_override_def convert_series_overrides_def on_state_def the_panel_def
  set_panel_def funny_interval_def infer_null_mode_def panel_targets_def panel_alert_def
  panel_try_def panel_except_def panel_overrides_def panel_try_except_def datasource_key_def
  panel_datasource_def convert_plain_panel_def panel_context_def run_on_def row_result_def
  quote_or_bar_def quote_bar_or_space_def re_tag_values_from_def re_tag_values_def
  re_tag_values_regex_def discovery_match_def discovery_metric_def template_datasource_def
  discovery_query_def is_field_keys_query_def convert_template_query_def
  convert_template_item_def convert_templating_def convert_panels_of_def convert_row_def
  backfill_match_def index_append_def set_template_item_def title_note_def backfill_entry_def
  update_label_values_metric_def dashboard_context_def dashboard_panels_def
  dashboard_templating_def convert_dashboard_def

lemmas model_simps =
  emapM.simps contains.simps replace_ne.simps replace_first.simps split_acc.simps join.simps
  citem_has.simps(1,3,4,5) cls_has.simps take_char.simps lits.simps star.simps rmatch.simps
  search_from.simps scan.simps truthy.simps getitem.simps first_item.simps has_key.simps
  dict_get.simps set_kv.simps setitem.simps delitem.simps dict_pop.simps iter.simps
  as_str.simps py_str.simps first_matching.simps conditions_of.simps conditions_loop.simps
  group_items.simps sfold.simps any_tag.simps all_tags.simps all_strings.simps
  matching_template.simps convert_targets_loop.simps first_field.simps sforeach.simps
  new_notifications.simps convert_panel.simps templating_loop.simps smap.simps
  convert_panels.simps mstate.simps match.simps config.simps conversion_error.simps
  state.simps GroupBy.simps select_vars.simps error.case error.inject error.distinct
  citem.case citem.inject citem.distinct re.case re.inject re.distinct json.case json.inject
  json.distinct err_note.case err_note.inject err_note.distinct conds.case conds.inject
  conds.distinct query_arg.case query_arg.inject query_arg.distinct template_step.case
  template_step.inject template_step.distinct

lemma seconds_to_duration_samples:
  "seconds_to_duration 30 = Inr ''30s''" "seconds_to_duration (30 * 4) = Inr ''2m''"
  by (simp_all add: seconds_to_duration_def str_int_def str_nat.simps digit_of_def emap_def
        int_max_str_digits_def)

lemmas char_evals =
  is_space_Char is_digit_Char is_word_Char is_upper_Char is_lower_Char
  range_lower_Char range_upper_Char range_digit_Char less_char_Char

lemmas ev = basic_evals model_defs model_simps char_evals seconds_to_duration_samples

section \<open>Properties of the conversion\<close>

subsection \<open>The monad\<close>

lemma sbind_Inr:
  "fst (sbind m f s) = Inr y \<Longrightarrow> \<exists>x s'. m s = (Inr x, s') \<and> fst (f x s') = Inr y"
  by (auto simp: sbind_def split: prod.splits sum.splits)

subsection \<open>The labels of a query\<close>











subsection \<open>The target that \<open>convert_query\<close> builds\<close>

text \<open>
  Claim C9. Whenever \<open>convert_query\<close> returns a target, the field \<open>instant\<close> of that target
  is \<open>True\<close> if and only if the field \<open>resultFormat\<close> of the target it was given is the string
  \<open>table\<close>, and its field \<open>intervalFactor\<close> is 1.
\<close>

theorem convert_query_instant:
  assumes "fst (convert_query cfg query target legend s) = Inr (t, over_times, fls)"
  shows "getitem t ''instant''
           = Inr (JBool (getitem target ''resultFormat'' = Inr (JStr ''table'')))
       \<and> getitem t ''intervalFactor'' = Inr (JInt 1)"
  using assms
  apply (cases query)
   apply (simp_all add: convert_query_def sraise_def split: if_splits)
   apply (drule sbind_Inr, clarsimp simp: lift_def Let_def)+
   apply (auto simp: sreturn_def lift_def Let_def dest!: sbind_Inr split: if_splits)
  done

theorem convert_query_instant_witness:
  "fst (convert_query sample_config (Query mean_query) table_target [] initial_state)
     = Inr (mean_table_target, [], [])
   \<and> getitem table_target ''resultFormat'' = Inr (JStr ''table'')
   \<and> getitem mean_table_target ''instant'' = Inr (JBool True)
   \<and> getitem mean_table_target ''intervalFactor'' = Inr (JInt 1)"
proof -
  have e: "fst (convert_query sample_config (Query mean_query) table_target [] initial_state)
             = Inr (mean_table_target, [], [])"
    by (simp only: mean_query_def table_target_def mean_table_target_def sample_config_def
          initial_state_def ev cong: eval_congs)
  have f: "getitem table_target ''resultFormat'' = Inr (JStr ''table'')"
    by (simp only: table_target_def ev cong: eval_congs)
  note t = convert_query_instant [OF e]
  have g: "getitem mean_table_target ''instant'' = Inr (JBool True)"
    using t [THEN conjunct1] unfolding f by (simp only: simp_thms)
  from e f g t [THEN conjunct2] show ?thesis
    by (intro conjI)
qed

subsection \<open>The promotion of \<open>count\<close>\<close>

lemma replace_same: "replace [c] [c] s = s"
proof -
  have "replace_ne [c] [c] s = s"
    by (induction s) (simp_all add: startswith_def)
  then show ?thesis by (simp add: replace_def)
qed

lemma set_order_single: "enumerates cfg \<Longrightarrow> set_order cfg [x] = [x]"
proof -
  assume "enumerates cfg"
  then have d: "distinct (set_order cfg [x])" and s: "set (set_order cfg [x]) = {x}"
    by (simp_all add: enumerates_def)
  show ?thesis
  proof (cases "set_order cfg [x]")
    case Nil
    with s show ?thesis by simp
  next
    case (Cons a as)
    with d s have "a = x" "set as \<subseteq> {x}" "a \<notin> set as" by auto
    then have "as = []" by (cases as) auto
    with Cons \<open>a = x\<close> show ?thesis by simp
  qed
qed

lemma enumerates_sample: "enumerates sample_config"
  by (simp add: enumerates_def sample_config_def)

text \<open>The query of claim C3 with a \<open>WHERE\<close> clause, which \<open>get_metric_name\<close> needs.\<close>

lemma count_where_expression:
  "fst (convert_expression sample_config count_where_query initial_state)
     = Inr (''sum(count_over_time(m_x[$__interval])) '', [''30s'', ''5m''], [], None)"
  by (simp only: count_where_query_def sample_config_def initial_state_def ev cong: eval_congs)

text \<open>
  Claim C3, as amended. \<open>format_expression\<close> is given the one aggregation \<open>count\<close>, a group-by
  with a time window, and one condition on the value of the field (empty when the query has
  none). Unless the scrape interval cannot be written, it returns: without a condition the
  expression \<open>sum(count_over_time(metric{labels}[window])) \<close>, where the outer aggregation is
  \<open>sum\<close> (followed by the group-by labels); with a condition the expression
  \<open>count(metric{labels}condition)\<close>, where the outer aggregation stays \<open>count\<close> and no function
  over the window is applied. The labels, which the tag filters of the query become, play
  no part in the choice.
\<close>

theorem count_promotion:
  assumes "enumerates cfg" and "over_time g \<noteq> []"
  shows "format_expression cfg False metric_name [''count''] labels (Some g) modifications
           (CondStr condition) alias_name =
     emap (\<lambda>d.
        (if condition = []
         then ''sum'' @ replace_invalid_metric_characters (group_by g) @ ''(count_over_time(''
              @ replace_invalid_metric_characters metric_name
              @ (if labels \<noteq> [] then ''{'' @ labels @ ''}'' else [])
              @ ''['' @ re_sub False TIME_INTERVAL_REGEX (\<lambda>m. ''$__interval'') None (over_time g)
              @ '']))'' @ '' '' @ join '' '' modifications
         else ''count'' @ replace_invalid_metric_characters (group_by g) @ ''(''
              @ replace_invalid_metric_characters metric_name
              @ (if labels \<noteq> [] then ''{'' @ labels @ ''}'' else [])
              @ condition @ '')'' @ join '' '' modifications,
         [d, over_time g], fills g, alias_name))
       (seconds_to_duration
          (metric_scrape_interval cfg (replace_invalid_metric_characters metric_name)))"
  using assms
  by (cases "seconds_to_duration
          (metric_scrape_interval cfg (replace_invalid_metric_characters metric_name))")
     (simp_all add: format_expression_def format_condition_def Let_def str_truthy_def
        over_time_functions_def OVER_TIME_AGGREGATIONS_def AGGREGATION_TOPLEVEL_MAP_def
        set_add_def replace_same set_order_single ebind_def emap_def split: prod.splits)

theorem count_promotion_witness:
  "enumerates sample_config \<and> over_time by_time_5m \<noteq> []
   \<and> format_expression sample_config False ''m_x'' [''count''] [] (Some by_time_5m) []
         (CondStr []) None
       = Inr (''sum(count_over_time(m_x[$__interval])) '', [''30s'', ''5m''], [], None)
   \<and> format_expression sample_config False ''m_x'' [''count''] [] (Some by_time_5m) []
         (CondStr ''> 5'') None
       = Inr (''count(m_x> 5)'', [''30s'', ''5m''], [], None)"
proof -
  have a: "over_time by_time_5m \<noteq> []"
    by (simp add: by_time_5m_def)
  note t = count_promotion [OF enumerates_sample a]
  have b: "format_expression sample_config False ''m_x'' [''count''] [] (Some by_time_5m) []
         (CondStr []) None
       = Inr (''sum(count_over_time(m_x[$__interval])) '', [''30s'', ''5m''], [], None)"
    by (rule trans [OF t]) (simp only: by_time_5m_def sample_config_def ev cong: eval_congs)
  have c: "format_expression sample_config False ''m_x'' [''count''] [] (Some by_time_5m) []
         (CondStr ''> 5'') None
       = Inr (''count(m_x> 5)'', [''30s'', ''5m''], [], None)"
    by (rule trans [OF t]) (simp only: by_time_5m_def sample_config_def ev cong: eval_congs)
  from enumerates_sample a b c show ?thesis by (intro conjI)
qed

text \<open>
  Claim C3 as first stated. The query it names has no \<open>WHERE\<close> clause, and
  \<open>convert_expression\<close> raises \<open>ValueError\<close> for it: no metric name is found. And a filter on a
  tag does not suppress the promotion: the outer aggregation is \<open>sum\<close> all the same.
\<close>

theorem count_promotion_counterexample:
  "fst (convert_expression sample_config count_query initial_state)
     = Inl (ValueError ''Unable to find metric name in'')
   \<and> fst (convert_expression sample_config count_tag_query initial_state)
     = Inr (''sum(count_over_time(m_x{host=\"a\"}[$__interval])) '', [''30s'', ''5m''], [], None)"
proof -
  have a: "fst (convert_expression sample_config count_query initial_state)
     = Inl (ValueError ''Unable to find metric name in'')"
    by (simp only: count_query_def sample_config_def initial_state_def ev cong: eval_congs)
  have b: "fst (convert_expression sample_config count_tag_query initial_state)
     = Inr (''sum(count_over_time(m_x{host=\"a\"}[$__interval])) '', [''30s'', ''5m''], [], None)"
    by (simp only: count_tag_query_def sample_config_def initial_state_def ev cong: eval_congs)
  from a b show ?thesis by (rule conjI)
qed

subsection \<open>A field divided by itself\<close>

lemma sbind_stop: "m s = (Inl e, s') \<Longrightarrow> sbind m f s = (Inl e, s')"
  by (simp add: sbind_def)

lemma sbind_step: "m s = (Inr x, s') \<Longrightarrow> sbind m f s = f x s'"
  by (simp add: sbind_def)

lemma sbind_lift: "sbind (lift (Inr x)) f s = f x s"
  by (simp add: sbind_def lift_def)

lemma sbind_lift_Inl: "sbind (lift (Inl e)) f s = (Inl e, s)"
  by (simp add: sbind_def lift_def)

text \<open>A field divided by itself, with no condition: the condition written is \<open>!= bool 0\<close>.\<close>

lemma ratio_plain_expression:
  "fst (convert_expression sample_config ratio_plain_query initial_state)
     = Inr (''avg(m_x!= bool 0)'', [], [], None)"
  by (simp only: ratio_plain_query_def sample_config_def initial_state_def ev cong: eval_congs)

text \<open>
  Claim C2, as amended. When a query divides a field by itself and \<open>get_conditions\<close> finds a
  condition on the field in it, or \<open>get_modifications\<close> a modification, \<open>convert_expression\<close>
  does not return an expression: it raises. When the alias, the aggregations and the
  group-by of the query are read without an error, what it raises is the \<open>ValueError\<close>
  \<open>Unsupported query, divide by self combined with conditions or modifications\<close>. One
  condition is enough.
\<close>

theorem divide_by_self_guard:
  assumes "get_metric_name query = Inr (series_name, field_name)"
    and "get_labels query (replace ''.'' ''_'' field_name) = (query', labels)"
    and "does_divide_by_self query'"
    and "get_conditions query' (replace ''.'' ''_'' field_name) = Inr conditions"
    and "conds_truthy conditions \<or> get_modifications query' \<noteq> []"
  shows "(\<exists>e. fst (convert_expression cfg query s) = Inl e)
       \<and> (get_alias_from_query query = Inr a \<and> get_aggregations query = Inr b
            \<and> fst (get_group_by query' s) = Inr g \<longrightarrow>
          fst (convert_expression cfg query s) = Inl (ValueError
            ''Unsupported query, divide by self combined with conditions or modifications''))"
proof (cases "get_alias_from_query query")
  case (Inl e)
  with assms(1) show ?thesis
    by (simp add: convert_expression_def sbind_lift sbind_lift_Inl)
next
  case al: (Inr al)
  show ?thesis
  proof (cases "get_aggregations query")
    case (Inl e)
    with assms(1) al show ?thesis
      by (simp add: convert_expression_def sbind_lift sbind_lift_Inl Let_def)
  next
    case ag: (Inr ag)
    show ?thesis
    proof (cases "get_group_by query' s")
      case (Pair r s1)
      show ?thesis
      proof (cases r)
        case (Inl e)
        with assms(1,2) al ag Pair show ?thesis
          by (simp add: convert_expression_def sbind_lift Let_def
                sbind_stop [of "get_group_by query'" s, OF Pair [unfolded Inl]])
      next
        case (Inr gb)
        with assms al ag Pair show ?thesis
          apply (simp add: convert_expression_def sbind_lift Let_def
                sbind_step [of "get_group_by query'" s, OF Pair [unfolded Inr]])
          apply (auto simp: sbind_def sreturn_def lift_def sraise_def add_error_def
                split: option.splits)
          done
      qed
    qed
  qed
qed

theorem divide_by_self_guard_witness:
  "get_metric_name ratio_field_query = Inr (''m'', ''x'')
   \<and> get_labels ratio_field_query (replace ''.'' ''_'' ''x'') = (ratio_field_query, [])
   \<and> does_divide_by_self ratio_field_query
   \<and> get_conditions ratio_field_query (replace ''.'' ''_'' ''x'') = Inr (CondStr ''> 0'')
   \<and> conds_truthy (CondStr ''> 0'')
   \<and> get_alias_from_query ratio_field_query = Inr None
   \<and> get_aggregations ratio_field_query = Inr [''avg'']
   \<and> fst (get_group_by ratio_field_query initial_state) = Inr None
   \<and> fst (convert_expression sample_config ratio_field_query initial_state) = Inl (ValueError
        ''Unsupported query, divide by self combined with conditions or modifications'')"
proof -
  have h1: "get_metric_name ratio_field_query = Inr (''m'', ''x'')"
    by (simp only: ratio_field_query_def ev cong: eval_congs)
  have h2: "get_labels ratio_field_query (replace ''.'' ''_'' ''x'') = (ratio_field_query, [])"
    by (simp only: ratio_field_query_def ev cong: eval_congs)
  have h3: "does_divide_by_self ratio_field_query"
    by (simp only: ratio_field_query_def ev cong: eval_congs)
  have h4: "get_conditions ratio_field_query (replace ''.'' ''_'' ''x'') = Inr (CondStr ''> 0'')"
    by (simp only: ratio_field_query_def ev cong: eval_congs)
  have h5: "conds_truthy (CondStr ''> 0'')"
    by (simp only: ev cong: eval_congs)
  have h6: "get_alias_from_query ratio_field_query = Inr None"
    by (simp only: ratio_field_query_def ev cong: eval_congs)
  have h7: "get_aggregations ratio_field_query = Inr [''avg'']"
    by (simp only: ratio_field_query_def ev cong: eval_congs)
  have h8: "fst (get_group_by ratio_field_query initial_state) = Inr None"
    by (simp only: ratio_field_query_def initial_state_def ev cong: eval_congs)
  note t = divide_by_self_guard [of ratio_field_query "''m''" "''x''" ratio_field_query "[]"
      "CondStr ''> 0''" sample_config initial_state None "[''avg'']" None,
      OF h1 h2 h3 h4 disjI1 [OF h5]]
  have c: "fst (convert_expression sample_config ratio_field_query initial_state) = Inl (ValueError
        ''Unsupported query, divide by self combined with conditions or modifications'')"
    by (rule t [THEN conjunct2, THEN mp, OF conjI [OF h6 conjI [OF h7 h8]]])
  from h1 h2 h3 h4 h5 h6 h7 h8 c show ?thesis by (intro conjI)
qed

text \<open>
  Claim C2 as first stated. For the query it names \<open>convert_expression\<close> does not succeed:
  the condition is on \<open>y\<close>, which is not the field selected, and \<open>get_conditions\<close> raises
  \<open>ValueError\<close>.
\<close>

theorem divide_by_self_counterexample:
  "fst (convert_expression sample_config ratio_query initial_state)
     = Inl (ValueError ''has condition that does not match select field, cannot convert'')"
  by (simp only: ratio_query_def sample_config_def initial_state_def ev cong: eval_congs)

subsection \<open>Tags joined by \<open>OR\<close>\<close>















subsection \<open>A target that is not an Influx target\<close>

lemma map_of_set_kv: "k' \<noteq> k \<Longrightarrow> map_of (set_kv k v kvs) k' = map_of kvs k'"
  by (induction kvs) auto





lemma getitem_set_kv: "k' \<noteq> k \<Longrightarrow> getitem (JObj (set_kv k v kvs)) k' = getitem (JObj kvs) k'"
  by (simp add: map_of_set_kv)
















subsection \<open>The kinds of template variables\<close>

lemma sbind_modify: "sbind (modify g) f s = f () (g s)"
  by (simp add: sbind_def modify_def)

lemma nths_del_index:
  "nths (del_index d xs) A = nths xs {i. i \<noteq> d \<and> (if i < d then i \<in> A else i - 1 \<in> A)}"
proof (induction xs arbitrary: d A)
  case Nil
  show ?case by (simp add: del_index_def)
next
  case (Cons x xs)
  show ?case
  proof (cases d)
    case 0
    have "nths xs {j. Suc j \<noteq> 0 \<and> j \<in> A} = nths xs A"
      by (rule arg_cong [where f = "nths xs"]) auto
    with 0 show ?thesis by (simp add: del_index_def nths_Cons)
  next
    case (Suc d')
    have e: "nths xs {j. Suc j \<noteq> Suc d' \<and> (if Suc j < Suc d' then Suc j \<in> A else j \<in> A)}
             = nths xs {i. i \<noteq> d' \<and> (if i < d' then i \<in> {j. Suc j \<in> A}
                                      else i - 1 \<in> {j. Suc j \<in> A})}"
      by (rule arg_cong [where f = "nths xs"]) auto
    have c: "del_index (Suc d') (x # xs) = x # del_index d' xs"
      by (simp add: del_index_def)
    have "nths (del_index d (x # xs)) A
            = (if 0 \<in> A then [x] else []) @ nths (del_index d' xs) {j. Suc j \<in> A}"
      unfolding Suc c by (simp add: nths_Cons)
    also have "nths (del_index d' xs) {j. Suc j \<in> A}
            = nths xs {j. Suc j \<noteq> Suc d' \<and> (if Suc j < Suc d' then Suc j \<in> A else j \<in> A)}"
      unfolding e by (rule Cons)
    also have "(if 0 \<in> A then [x] else [])
                 @ nths xs {j. Suc j \<noteq> Suc d' \<and> (if Suc j < Suc d' then Suc j \<in> A else j \<in> A)}
            = nths (x # xs) {i. i \<noteq> d \<and> (if i < d then i \<in> A else i - 1 \<in> A)}"
      unfolding Suc by (simp add: nths_Cons)
    finally show ?thesis .
  qed
qed

lemma delete_descending:
  "sorted (rev ds) \<Longrightarrow> distinct ds \<Longrightarrow>
     foldl (\<lambda>ys idx. del_index idx ys) xs ds = nths xs (- set ds)"
proof (induction ds arbitrary: xs)
  case Nil
  show ?case by (simp add: nths_all)
next
  case (Cons d ds)
  from Cons.prems have le: "\<forall>e \<in> set ds. e \<le> d" and nd: "d \<notin> set ds"
    by (auto simp: sorted_append)
  have lt: "\<forall>e \<in> set ds. e < d"
  proof
    fix e
    assume "e \<in> set ds"
    with le nd have "e \<le> d" "e \<noteq> d" by auto
    then show "e < d" by simp
  qed
  from Cons.prems have "sorted (rev ds)" "distinct ds"
    by (simp_all add: sorted_append)
  from Cons.IH [OF this] have
    "foldl (\<lambda>ys idx. del_index idx ys) (del_index d xs) ds = nths (del_index d xs) (- set ds)" .
  also have "\<dots> = nths xs {i. i \<noteq> d \<and> (if i < d then i \<in> - set ds else i - 1 \<in> - set ds)}"
    by (rule nths_del_index)
  also have "{i. i \<noteq> d \<and> (if i < d then i \<in> - set ds else i - 1 \<in> - set ds)}
             = - set (d # ds)"
  proof (intro set_eqI iffI)
    fix i
    assume "i \<in> {i. i \<noteq> d \<and> (if i < d then i \<in> - set ds else i - 1 \<in> - set ds)}"
    then show "i \<in> - set (d # ds)"
      using lt by (cases "i < d") auto
  next
    fix i
    assume i: "i \<in> - set (d # ds)"
    show "i \<in> {i. i \<noteq> d \<and> (if i < d then i \<in> - set ds else i - 1 \<in> - set ds)}"
    proof (cases "i < d")
      case True
      with i show ?thesis by simp
    next
      case False
      with i have "d < i" by simp
      then have "d \<le> i - 1" by simp
      with lt have "i - 1 \<notin> set ds" by auto
      with False i show ?thesis by simp
    qed
  qed
  finally show ?case by simp
qed

lemma delete_indices_nths:
  "distinct ds \<Longrightarrow> delete_indices ds xs = nths xs (- set ds)"
  unfolding delete_indices_def
  using delete_descending [of "rev (sort ds)" xs] by simp

lemma map_of_set_kv_same: "map_of (set_kv k v kvs) k = Some v"
  by (induction kvs) auto

lemma nths_same_below: "(\<And>i. i < length xs \<Longrightarrow> i \<in> A \<longleftrightarrow> i \<in> B) \<Longrightarrow> nths xs A = nths xs B"
  unfolding nths_def
  by (rule arg_cong [where f = "map fst"], rule filter_cong [OF refl]) (auto simp: set_zip)

lemma init_ok_truthy: "init_ok cfg \<Longrightarrow> truthy (replacement_datasource cfg)"
  by (cases "replacement_datasource cfg") (auto simp: init_ok_def)

lemma flag_keys_differ:
  "''query'' \<noteq> ''datasource''" "''query'' \<noteq> ''sort''" "''type'' \<noteq> ''datasource''"
  "''type'' \<noteq> ''sort''"
  by simp_all

lemma discovery_query_set_kv:
  "k \<noteq> ''query'' \<Longrightarrow> discovery_query (JObj (set_kv k v kvs)) = discovery_query (JObj kvs)"
  unfolding discovery_query_def by (simp only: getitem_set_kv [of "''query''" k v kvs])

lemma convert_template_item_kept:
  assumes "getitem item ''type'' = Inr (JStr k)"
    and "k \<in> {''custom'', ''interval'', ''datasource''}"
  shows "convert_template_item cfg item s = (Inr (Kept item), s)"
  using assms(2)
  by (auto simp: convert_template_item_def assms(1) sbind_lift hashable_def sreturn_def)

lemma convert_template_item_unknown:
  assumes "getitem item ''type'' = Inr t" and "hashable t = Inr t'"
    and "t \<notin> {JStr ''query'', JStr ''custom'', JStr ''interval'', JStr ''datasource''}"
  shows "convert_template_item cfg item s
           = (Inl (ValueError ''Unknown template type for item''), s)"
  using assms(3)
  by (simp add: convert_template_item_def assms(1,2) sbind_lift sraise_def)

lemma convert_template_item_kinds:
  assumes "convert_template_item cfg item s = (Inr step, s')"
  shows "\<exists>k \<in> {''query'', ''custom'', ''interval'', ''datasource''}.
           getitem item ''type'' = Inr (JStr k)"
proof (cases "getitem item ''type''")
  case (Inl e)
  with assms show ?thesis
    by (simp add: convert_template_item_def sbind_lift_Inl)
next
  case (Inr t)
  show ?thesis
  proof (cases "hashable t")
    case (Inl e)
    with Inr assms show ?thesis
      by (auto simp: convert_template_item_def sbind_lift sbind_lift_Inl hashable_def
            split: json.splits)
  next
    case h: (Inr t')
    show ?thesis
    proof (cases "t \<in> {JStr ''query'', JStr ''custom'', JStr ''interval'', JStr ''datasource''}")
      case True
      with Inr show ?thesis by auto
    next
      case False
      from convert_template_item_unknown [OF Inr h False, of cfg s] assms
      show ?thesis by simp
    qed
  qed
qed

text \<open>A variable of type \<open>query\<close>, when the converter has a replacement datasource: it is
  dropped if the test holds, and rewritten otherwise.\<close>

lemma convert_template_query_step:
  assumes "truthy (replacement_datasource cfg)"
    and "getitem item ''type'' = Inr (JStr ''query'')"
    and "convert_template_item cfg item s = (Inr step, s')"
  shows "(is_field_keys_query item \<longrightarrow> (\<exists>x. step = Deleted x))
       \<and> (\<not> is_field_keys_query item \<longrightarrow> (\<exists>x m. step = Rewritten x m))"
proof -
  from assms(2) obtain kvs where item: "item = JObj kvs"
    by (cases item) auto
  let ?i3 = "JObj (set_kv ''sort'' (JInt 3)
                (set_kv ''datasource'' (replacement_datasource cfg) kvs))"
  have d: "discovery_query ?i3 = discovery_query item"
    unfolding item by (simp add: discovery_query_set_kv)
  have q: "convert_template_item cfg (JObj kvs) s = convert_template_query cfg (JObj kvs) s"
    using assms(2) unfolding item by (simp add: convert_template_item_def sbind_lift)
  show ?thesis
  proof (cases "discovery_query item")
    case (Inl e)
    with assms(1,3) d show ?thesis
      unfolding item q
      by (simp add: convert_template_query_def template_datasource_def emap_def sbind_lift
            sbind_lift_Inl)
  next
    case (Inr query)
    show ?thesis
    proof (cases "startswith (lower query) ''show field keys''")
      case True
      with assms Inr d show ?thesis
        unfolding item q
        by (auto simp: convert_template_query_def template_datasource_def emap_def sbind_lift
              sreturn_def is_field_keys_query_def)
    next
      case False
      have n: "\<not> is_field_keys_query item"
        using False Inr by (simp add: is_field_keys_query_def)
      from assms(1,3) Inr d False have
        "fst (sbind (discovery_match query) (\<lambda>mo.
           case mo of
             None \<Rightarrow> sraise (ValueError ''Unable to find tag values or key from'')
           | Some m \<Rightarrow>
               let key = replace_invalid_metric_characters (group_or_empty m 2);
                   metric0 = discovery_metric (group m 1);
                   metric1 = (case metric0 of
                                None \<Rightarrow> None
                              | Some t \<Rightarrow>
                                  (case map_of TEMPLATING_METRIC_STATIC_CONVERSION t of
                                     Some c \<Rightarrow> Some c
                                   | None \<Rightarrow> Some t));
                   metric = (if str_truthy metric1 then Some (replace ''/'' [] (the metric1))
                             else metric1);
                   new_query = (if str_truthy metric1
                                then ''label_values('' @ the metric @ '','' @ key @ '')''
                                else ''label_values('' @ key @ '')'') in
               sbind (lift (setitem ?i3 ''query'' (JStr new_query))) (\<lambda>item4.
               sbind (lift (setitem item4 ''definition'' (JStr new_query))) (\<lambda>item5.
               sbind (lift (has_key ''allValue'' item5)) (\<lambda>has_all.
               sbind (lift (if has_all then emap (\<lambda>v. v = JStr ''*'') (getitem item5 ''allValue'')
                            else Inr False)) (\<lambda>star_all.
               sbind (lift (if star_all then setitem item5 ''allValue'' (JStr ''.*'')
                            else Inr item5)) (\<lambda>item6.
               sreturn (Rewritten item6 (if str_truthy metric then metric else None)))))))) s)
         = Inr step"
        unfolding item q
        by (simp add: convert_template_query_def template_datasource_def emap_def sbind_lift
              cong: sbind_cong_weak)
      then have "\<exists>x m. step = Rewritten x m"
        apply (clarsimp dest!: sbind_Inr simp: Let_def sraise_def split: option.splits)
        apply (auto dest!: sbind_Inr simp: sreturn_def lift_def)
        done
      with n show ?thesis by simp
    qed
  qed
qed

lemma templating_loop_steps:
  assumes "truthy (replacement_datasource cfg)"
  shows "templating_loop cfg idx items s = (Inr (items', dels), s') \<Longrightarrow>
     length items' = length items
     \<and> distinct dels
     \<and> set dels = {idx + i | i. i < length items \<and> is_field_keys_query (items ! i)}
     \<and> (\<forall>i < length items.
           (\<exists>k \<in> {''query'', ''custom'', ''interval'', ''datasource''}.
              getitem (items ! i) ''type'' = Inr (JStr k))
           \<and> ((\<exists>k \<in> {''custom'', ''interval'', ''datasource''}.
                 getitem (items ! i) ''type'' = Inr (JStr k)) \<longrightarrow>
                items' ! i = items ! i \<and> \<not> is_field_keys_query (items ! i)))"
proof (induction items arbitrary: idx s items' dels s')
  case Nil
  then show ?case by (simp add: sreturn_def)
next
  case (Cons item items)
  from Cons.prems obtain step s1 where
    st: "convert_template_item cfg item s = (Inr step, s1)"
    by (cases "convert_template_item cfg item s")
       (auto simp: sbind_def split: sum.splits)
  let ?mid = "case step of
              Rewritten item' (Some metric) \<Rightarrow>
                modify (\<lambda>s. s\<lparr>get_rep_metric :=
                                get_rep_metric s @ [(True, metric, item', Some idx)]\<rparr>)
            | _ \<Rightarrow> sreturn ()"
  have "\<exists>s2. ?mid s1 = (Inr (), s2)"
    by (simp add: sreturn_def modify_def split: template_step.splits option.splits)
  then obtain s2 where mid: "?mid s1 = (Inr (), s2)" ..
  from Cons.prems have run: "sbind (templating_loop cfg (Suc idx) items) (\<lambda>(items', to_be_deleted).
     sreturn (case step of
                Kept item' \<Rightarrow> (item' # items', to_be_deleted)
              | Rewritten item' metric \<Rightarrow> (item' # items', to_be_deleted)
              | Deleted item' \<Rightarrow> (item' # items', idx # to_be_deleted))) s2
       = (Inr (items', dels), s')"
    unfolding templating_loop.simps
      sbind_step [of "convert_template_item cfg item" s, OF st]
      sbind_step [of ?mid s1, OF mid] .
  then obtain items2 dels2 where
    tl: "templating_loop cfg (Suc idx) items s2 = (Inr (items2, dels2), s')"
    and res: "(items', dels) = (case step of
                Kept item' \<Rightarrow> (item' # items2, dels2)
              | Rewritten item' metric \<Rightarrow> (item' # items2, dels2)
              | Deleted item' \<Rightarrow> (item' # items2, idx # dels2))"
    by (cases "templating_loop cfg (Suc idx) items s2")
       (auto simp: sbind_def sreturn_def split: sum.splits prod.splits)
  note ih = Cons.IH [OF tl]
  from convert_template_item_kinds [OF st] obtain k where
    k: "k \<in> {''query'', ''custom'', ''interval'', ''datasource''}"
       "getitem item ''type'' = Inr (JStr k)" by auto
  have kept: "step = Kept item \<and> \<not> is_field_keys_query item"
    if "k \<in> {''custom'', ''interval'', ''datasource''}"
    using convert_template_item_kept [OF k(2) that, of cfg s] st k(2) that
    by (auto simp: is_field_keys_query_def)
  have query: "(is_field_keys_query item \<longrightarrow> (\<exists>x. step = Deleted x))
       \<and> (\<not> is_field_keys_query item \<longrightarrow> (\<exists>x m. step = Rewritten x m))"
    if "k = ''query''"
    using convert_template_query_step [OF assms k(2) [unfolded that] st] .
  have del: "(\<exists>x. step = Deleted x) \<longleftrightarrow> is_field_keys_query item"
    using kept query k(1) by auto
  have hd: "k \<in> {''custom'', ''interval'', ''datasource''} \<Longrightarrow> hd items' = item"
    using kept res by auto
  have len: "length items' = Suc (length items)"
    using res ih by (auto split: template_step.splits)
  have tl': "tl items' = items2"
    using res by (auto split: template_step.splits)
  have dels: "dels = (if is_field_keys_query item then idx # dels2 else dels2)"
    using res del by (auto split: template_step.splits)
  have ge: "\<forall>d \<in> set dels2. Suc idx \<le> d"
    using ih by auto
  have set2: "{idx + i | i. i < length (item # items) \<and> is_field_keys_query ((item # items) ! i)}
          = (if is_field_keys_query item then {idx} else {})
            \<union> {Suc idx + i | i. i < length items \<and> is_field_keys_query (items ! i)}"
    (is "?L = ?R")
  proof (intro set_eqI iffI)
    fix d assume "d \<in> ?L"
    then obtain i where i: "d = idx + i" "i < length (item # items)"
      "is_field_keys_query ((item # items) ! i)" by auto
    show "d \<in> ?R"
    proof (cases i)
      case 0
      with i show ?thesis by simp
    next
      case (Suc j)
      with i have "d = Suc idx + j" "j < length items" "is_field_keys_query (items ! j)"
        by simp_all
      then show ?thesis by blast
    qed
  next
    fix d assume "d \<in> ?R"
    then consider "is_field_keys_query item" "d = idx"
      | j where "d = Suc idx + j" "j < length items" "is_field_keys_query (items ! j)"
      by (auto split: if_splits)
    then show "d \<in> ?L"
    proof cases
      case 1
      then have "d = idx + 0 \<and> 0 < length (item # items)
                 \<and> is_field_keys_query ((item # items) ! 0)" by simp
      then show ?thesis by blast
    next
      case 2
      then have "d = idx + Suc j \<and> Suc j < length (item # items)
                 \<and> is_field_keys_query ((item # items) ! Suc j)" by simp
      then show ?thesis by blast
    qed
  qed
  have a: "length items' = length (item # items)" using len by simp
  have b: "distinct dels" using dels ih ge by auto
  have c: "set dels = {idx + i | i. i < length (item # items)
                         \<and> is_field_keys_query ((item # items) ! i)}"
    unfolding set2 using dels ih by auto
  have d: "(\<exists>k \<in> {''query'', ''custom'', ''interval'', ''datasource''}.
              getitem ((item # items) ! i) ''type'' = Inr (JStr k))
           \<and> ((\<exists>k \<in> {''custom'', ''interval'', ''datasource''}.
                 getitem ((item # items) ! i) ''type'' = Inr (JStr k)) \<longrightarrow>
                items' ! i = (item # items) ! i \<and> \<not> is_field_keys_query ((item # items) ! i))"
    if "i < length (item # items)" for i
  proof (cases i)
    case 0
    have "items' \<noteq> []" using len by auto
    then have "items' ! 0 = hd items'" by (simp add: hd_conv_nth)
    with 0 k kept hd show ?thesis by auto
  next
    case (Suc j)
    have "items' \<noteq> []" using len by auto
    then have "items' ! Suc j = items2 ! j" using tl' by (cases items') auto
    with Suc that ih show ?thesis by simp
  qed
  from a b c d show ?case by blast
qed

text \<open>
  Claim C8, for a converter with a replacement datasource (the constructor asserts it) and a
  templating whose \<open>list\<close> is a list. A variable whose type is a string other than \<open>query\<close>,
  \<open>custom\<close>, \<open>interval\<close> and \<open>datasource\<close> makes the loop raise \<open>ValueError\<close>, \<open>Unknown template
  type for item\<close>, and \<open>convert_templating\<close> does not return. When \<open>convert_templating\<close>
  returns, the list it leaves is the list of the variables as the loop left them, \<open>items'\<close>,
  without those at the places of the variables that were of type \<open>query\<close> with a query
  starting with \<open>show field keys\<close> in either case, and in the same order; and at the place
  of a variable of type \<open>custom\<close>, \<open>interval\<close> or \<open>datasource\<close>, which is never such a place,
  \<open>items'\<close> holds that variable unchanged.
\<close>

theorem convert_templating_kinds:
  assumes "init_ok cfg" and "getitem template ''list'' = Inr (JArr items)"
  shows "(i < length items \<and> getitem (items ! i) ''type'' = Inr (JStr t)
          \<and> t \<notin> {''query'', ''custom'', ''interval'', ''datasource''} \<longrightarrow>
            fst (convert_template_item cfg (items ! i) s0)
              = Inl (ValueError ''Unknown template type for item'')
            \<and> (\<exists>e. fst (convert_templating cfg template s) = Inl e))
       \<and> (fst (convert_templating cfg template s) = Inr template' \<longrightarrow>
            (\<exists>items'. length items' = length items
               \<and> getitem template' ''list''
                   = Inr (JArr (nths items' {j. \<not> is_field_keys_query (items ! j)}))
               \<and> (\<forall>j < length items.
                     (\<exists>k \<in> {''custom'', ''interval'', ''datasource''}.
                        getitem (items ! j) ''type'' = Inr (JStr k)) \<longrightarrow>
                     items' ! j = items ! j \<and> \<not> is_field_keys_query (items ! j))))"
proof -
  note tr = init_ok_truthy [OF assms(1)]
  from assms(2) obtain kvs where tmpl: "template = JObj kvs"
    by (cases template) auto
  have run: "convert_templating cfg template s =
     sbind (templating_loop cfg 0 items) (\<lambda>(items', to_be_deleted).
     sbind (modify (\<lambda>s. s\<lparr>get_rep_metric :=
              map (\<lambda>(flag, metric, item, place).
                     (flag, metric, item, map_option (place_after to_be_deleted) place))
                (get_rep_metric s)\<rparr>)) (\<lambda>_.
     lift (setitem template ''list'' (JArr (delete_indices to_be_deleted items'))))) s"
    by (simp add: convert_templating_def assms(2) sbind_lift)
  have ok: "\<exists>items' dels s1. templating_loop cfg 0 items s = (Inr (items', dels), s1)
       \<and> r = JObj (set_kv ''list'' (JArr (delete_indices dels items')) kvs)"
    if "fst (convert_templating cfg template s) = Inr r" for r
    using that unfolding run
    by (cases "templating_loop cfg 0 items s")
       (auto simp: tmpl sbind_def lift_def modify_def split: sum.splits prod.splits)
  have a: "fst (convert_template_item cfg (items ! i) s0)
              = Inl (ValueError ''Unknown template type for item'')
            \<and> (\<exists>e. fst (convert_templating cfg template s) = Inl e)"
    if i: "i < length items" and t: "getitem (items ! i) ''type'' = Inr (JStr t)"
      and n: "t \<notin> {''query'', ''custom'', ''interval'', ''datasource''}"
  proof
    from n have "JStr t \<notin> {JStr ''query'', JStr ''custom'', JStr ''interval'', JStr ''datasource''}"
      by simp
    from convert_template_item_unknown [OF t _ this, of "JStr t" cfg s0]
    show "fst (convert_template_item cfg (items ! i) s0)
              = Inl (ValueError ''Unknown template type for item'')"
      by (simp add: hashable_def)
    show "\<exists>e. fst (convert_templating cfg template s) = Inl e"
    proof (cases "fst (convert_templating cfg template s)")
      case (Inl e)
      then show ?thesis by blast
    next
      case (Inr r)
      from ok [OF Inr] obtain items' dels s1 where
        "templating_loop cfg 0 items s = (Inr (items', dels), s1)" by blast
      note st = templating_loop_steps [OF tr this]
      from st [THEN conjunct2, THEN conjunct2, THEN conjunct2, rule_format, OF i, THEN conjunct1]
      obtain k where k: "k \<in> {''query'', ''custom'', ''interval'', ''datasource''}"
        and "getitem (items ! i) ''type'' = Inr (JStr k)" ..
      with t have "k = t" by simp
      with k have "t \<in> {''query'', ''custom'', ''interval'', ''datasource''}"
        by (rule_tac subst [where P = "\<lambda>x. x \<in> {''query'', ''custom'', ''interval'', ''datasource''}"])
      with n show ?thesis by (rule notE)
    qed
  qed
  have b: "\<exists>items'. length items' = length items
               \<and> getitem template' ''list''
                   = Inr (JArr (nths items' {j. \<not> is_field_keys_query (items ! j)}))
               \<and> (\<forall>j < length items.
                     (\<exists>k \<in> {''custom'', ''interval'', ''datasource''}.
                        getitem (items ! j) ''type'' = Inr (JStr k)) \<longrightarrow>
                     items' ! j = items ! j \<and> \<not> is_field_keys_query (items ! j))"
    if "fst (convert_templating cfg template s) = Inr template'"
  proof -
    from ok [OF that] obtain items' dels s1 where
      l: "templating_loop cfg 0 items s = (Inr (items', dels), s1)"
      and r: "template' = JObj (set_kv ''list'' (JArr (delete_indices dels items')) kvs)"
      by blast
    note st = templating_loop_steps [OF tr l]
    note len = st [THEN conjunct1]
    note d = st [THEN conjunct2, THEN conjunct1]
    note ds = st [THEN conjunct2, THEN conjunct2, THEN conjunct1]
    note kp = st [THEN conjunct2, THEN conjunct2, THEN conjunct2, rule_format, THEN conjunct2]
    have "j \<in> - set dels \<longleftrightarrow> j \<in> {j. \<not> is_field_keys_query (items ! j)}"
      if "j < length items'" for j
      using that unfolding ds len by simp
    then have "nths items' (- set dels) = nths items' {j. \<not> is_field_keys_query (items ! j)}"
      by (rule nths_same_below)
    then have g: "getitem template' ''list''
                   = Inr (JArr (nths items' {j. \<not> is_field_keys_query (items ! j)}))"
      unfolding r by (simp add: map_of_set_kv_same delete_indices_nths [OF d])
    show ?thesis
    proof (intro exI [of _ items'] conjI allI impI)
      show "length items' = length items" by (rule len)
      show "getitem template' ''list''
              = Inr (JArr (nths items' {j. \<not> is_field_keys_query (items ! j)}))" by (rule g)
    next
      fix j
      assume j: "j < length items"
        and e: "\<exists>k \<in> {''custom'', ''interval'', ''datasource''}.
               getitem (items ! j) ''type'' = Inr (JStr k)"
      note c = kp [OF j, THEN mp, OF e]
      show "items' ! j = items ! j" by (rule c [THEN conjunct1])
      show "\<not> is_field_keys_query (items ! j)" by (rule c [THEN conjunct2])
    qed
  qed
  show ?thesis
  proof (intro conjI impI)
    assume "i < length items \<and> getitem (items ! i) ''type'' = Inr (JStr t)
          \<and> t \<notin> {''query'', ''custom'', ''interval'', ''datasource''}"
    then have h: "i < length items" "getitem (items ! i) ''type'' = Inr (JStr t)"
      "t \<notin> {''query'', ''custom'', ''interval'', ''datasource''}"
      by (rule conjunct1, rule conjunct2 [THEN conjunct1], rule conjunct2 [THEN conjunct2])
    show "fst (convert_template_item cfg (items ! i) s0)
              = Inl (ValueError ''Unknown template type for item'')"
      by (rule a [OF h, THEN conjunct1])
    show "\<exists>e. fst (convert_templating cfg template s) = Inl e"
      by (rule a [OF h, THEN conjunct2])
  next
    assume "fst (convert_templating cfg template s) = Inr template'"
    then show "\<exists>items'. length items' = length items
               \<and> getitem template' ''list''
                   = Inr (JArr (nths items' {j. \<not> is_field_keys_query (items ! j)}))
               \<and> (\<forall>j < length items.
                     (\<exists>k \<in> {''custom'', ''interval'', ''datasource''}.
                        getitem (items ! j) ''type'' = Inr (JStr k)) \<longrightarrow>
                     items' ! j = items ! j \<and> \<not> is_field_keys_query (items ! j))"
      by (rule b)
  qed
qed

lemma delete_second: "delete_indices [Suc 0] (a # b # xs) = a # xs"
  by (simp add: delete_indices_def del_index_def)

theorem convert_templating_kinds_witness:
  "init_ok sample_config
   \<and> getitem sample_templating ''list'' = Inr (JArr [custom_var, field_keys_var, tag_values_var])
   \<and> fst (convert_templating sample_config sample_templating initial_state)
       = Inr converted_templating
   \<and> getitem converted_templating ''list'' = Inr (JArr [custom_var, converted_host_var])
   \<and> (\<exists>items'. length items' = length [custom_var, field_keys_var, tag_values_var]
         \<and> getitem converted_templating ''list''
             = Inr (JArr (nths items' {j. \<not> is_field_keys_query
                                              ([custom_var, field_keys_var, tag_values_var] ! j)}))
         \<and> (\<forall>j < length [custom_var, field_keys_var, tag_values_var].
               (\<exists>k \<in> {''custom'', ''interval'', ''datasource''}.
                  getitem ([custom_var, field_keys_var, tag_values_var] ! j) ''type''
                    = Inr (JStr k)) \<longrightarrow>
               items' ! j = [custom_var, field_keys_var, tag_values_var] ! j
               \<and> \<not> is_field_keys_query ([custom_var, field_keys_var, tag_values_var] ! j)))
   \<and> getitem adhoc_templating ''list'' = Inr (JArr [custom_var, adhoc_var])
   \<and> getitem ([custom_var, adhoc_var] ! 1) ''type'' = Inr (JStr ''adhoc'')
   \<and> fst (convert_template_item sample_config ([custom_var, adhoc_var] ! 1) initial_state)
       = Inl (ValueError ''Unknown template type for item'')
   \<and> (\<exists>e. fst (convert_templating sample_config adhoc_templating initial_state) = Inl e)"
proof -
  have i: "init_ok sample_config"
    by (simp add: init_ok_def sample_config_def)
  have l: "getitem sample_templating ''list''
             = Inr (JArr [custom_var, field_keys_var, tag_values_var])"
    by (simp only: sample_templating_def ev cong: eval_congs)
  have r: "fst (convert_templating sample_config sample_templating initial_state)
             = Inr converted_templating"
    by (simp only: custom_var_def field_keys_var_def tag_values_var_def sample_templating_def
          converted_templating_def converted_host_var_def sample_config_def initial_state_def
          delete_second ev cong: eval_congs)
  have g: "getitem converted_templating ''list'' = Inr (JArr [custom_var, converted_host_var])"
    by (simp only: converted_templating_def ev cong: eval_congs)
  note t = convert_templating_kinds [OF i l, of _ _ _ initial_state converted_templating,
      THEN conjunct2, THEN mp, OF r]
  have l2: "getitem adhoc_templating ''list'' = Inr (JArr [custom_var, adhoc_var])"
    by (simp only: adhoc_templating_def ev cong: eval_congs)
  have k: "getitem ([custom_var, adhoc_var] ! 1) ''type'' = Inr (JStr ''adhoc'')"
    by (simp only: adhoc_var_def ev cong: eval_congs)
  have n: "''adhoc'' \<notin> {''query'', ''custom'', ''interval'', ''datasource''}"
    by (simp only: ev cong: eval_congs)
  have b: "(1::nat) < length [custom_var, adhoc_var]"
    by simp
  note u = convert_templating_kinds [OF i l2, of 1 "''adhoc''" initial_state initial_state,
      THEN conjunct1, THEN mp, OF conjI [OF b conjI [OF k n]]]
  from i l r g t l2 k u [THEN conjunct1] u [THEN conjunct2] show ?thesis
    by (intro conjI)
qed

end
